theory Spec2Isabelle
  imports Complex_Main "HOL-Library.Monad_Syntax"
begin

unbundle bit_operations_syntax

section \<open>Conventions of the embedding\<close>

text \<open>
  The C++ type \<open>double\<close> is read as \<^typ>\<open>real\<close>: rounding is not represented, and neither
  are overflow, infinities and NaN, except in the second loop of \<open>PairSMATB::compute\<close>,
  where the range of the type is written out (see the section on the range of \<open>double\<close>).
  An \<open>int\<close> that indexes an array or counts is a \<^typ>\<open>nat\<close>, any other
  \<open>int\<close> an \<^typ>\<open>int\<close>. A one-dimensional array \<open>double *a\<close> is a function
  \<open>nat \<Rightarrow> real\<close>, a two-dimensional array \<open>double **a\<close> a function
  \<open>nat \<Rightarrow> nat \<Rightarrow> real\<close>, so that \<open>a[i][j]\<close> is \<open>a i j\<close> and an assignment is a function
  update. \<open>error->all(FLERR, msg)\<close> ends the run: it is the left summand of a sum type.
\<close>

datatype error = Error_all string

section \<open>Global settings of the pair styles\<close>

text \<open>
  \<open>PairSMATB::settings(int narg, char **)\<close> and \<open>CPairPOD::settings(int narg, char **)\<close>
  read nothing but \<open>narg\<close> and write nothing; the state of the pair style is threaded
  through unchanged and may be of any type.
\<close>

definition PairSMATB_settings :: "int \<Rightarrow> 's \<Rightarrow> error + 's" where
  "PairSMATB_settings narg st =
     (if narg > 0 then Inl (Error_all ''Illegal pair_style command: smatb accepts no options'')
      else Inr st)"

definition CPairPOD_settings :: "int \<Rightarrow> 's \<Rightarrow> error + 's" where
  "CPairPOD_settings narg st =
     (if narg > 0 then Inl (Error_all ''Illegal pair_style command'')
      else Inr st)"

section \<open>Tsuji damping of the granular contact models\<close>

text \<open>
  Modelled from the spec: \<open>MathSpecial::square\<close>, \<open>MathSpecial::cube\<close> and
  \<open>MathSpecial::powint\<close> of \<open>math_special.h\<close>, which is not among the sources at hand.
  They are the second, the third and the \<open>n\<close>-th power of their argument.
\<close>

definition square :: "real \<Rightarrow> real" where
  "square x = x * x"

definition cube :: "real \<Rightarrow> real" where
  "cube x = x * x * x"

definition powint :: "real \<Rightarrow> int \<Rightarrow> real" where
  "powint x n = (if 0 \<le> n then x ^ nat n else 1 / x ^ nat (- n))"

text \<open>
  \<open>GranSubModDampingTsuji::init\<close>: \<open>tmp\<close> is \<open>gm->normal_model->get_damp()\<close>, the result is
  the value left in the member \<open>damp\<close> after the three assignments.
\<close>

definition GranSubModDampingTsuji_init :: "real \<Rightarrow> real" where
  "GranSubModDampingTsuji_init tmp =
     (let damp = 1.2728 - 4.2783 * tmp + 11.087 * square tmp;
          damp = damp + (- 22.348 * cube tmp + 27.467 * powint tmp 4);
          damp = damp + (- 18.022 * powint tmp 5 + 4.8218 * powint tmp 6)
      in damp)"

text \<open>
  \<open>DampingTsuji::coeffs_to_local\<close>: \<open>tmp\<close> is \<open>contact->normal_model->damp\<close>.
\<close>

definition DampingTsuji_coeffs_to_local :: "real \<Rightarrow> real" where
  "DampingTsuji_coeffs_to_local tmp =
     (let damp = 1.2728 - 4.2783 * tmp + 11.087 * square tmp;
          damp = damp + (- 22.348 * cube tmp + 27.467 * powint tmp 4);
          damp = damp + (- 18.022 * powint tmp 5 + 4.8218 * powint tmp 6)
      in damp)"

text \<open>The polynomial as the specification writes it.\<close>

definition tsuji_polynomial :: "real \<Rightarrow> real" where
  "tsuji_polynomial t =
     1.2728 - 4.2783 * t + 11.087 * t ^ 2 - 22.348 * t ^ 3 + 27.467 * t ^ 4
       - 18.022 * t ^ 5 + 4.8218 * t ^ 6"

section \<open>Pair style smatb: coefficient tables\<close>

text \<open>
  The per-type-pair tables of \<open>PairSMATB\<close>, each a \<open>double **\<close> indexed by two atom types
  (\<open>setflag\<close> is the \<open>int **\<close> of the base class \<open>Pair\<close>).
\<close>

record PairSMATB =
  setflag :: "nat \<Rightarrow> nat \<Rightarrow> int"
  r0 :: "nat \<Rightarrow> nat \<Rightarrow> real"
  p :: "nat \<Rightarrow> nat \<Rightarrow> real"
  A :: "nat \<Rightarrow> nat \<Rightarrow> real"
  q :: "nat \<Rightarrow> nat \<Rightarrow> real"
  QSI :: "nat \<Rightarrow> nat \<Rightarrow> real"
  cutOffStart :: "nat \<Rightarrow> nat \<Rightarrow> real"
  cutOffEnd :: "nat \<Rightarrow> nat \<Rightarrow> real"
  cutOffEnd2 :: "nat \<Rightarrow> nat \<Rightarrow> real"
  a3 :: "nat \<Rightarrow> nat \<Rightarrow> real"
  a4 :: "nat \<Rightarrow> nat \<Rightarrow> real"
  a5 :: "nat \<Rightarrow> nat \<Rightarrow> real"
  x3 :: "nat \<Rightarrow> nat \<Rightarrow> real"
  x4 :: "nat \<Rightarrow> nat \<Rightarrow> real"
  x5 :: "nat \<Rightarrow> nat \<Rightarrow> real"

text \<open>The assignment \<open>t[i][j] = v\<close>.\<close>

definition upd2 :: "(nat \<Rightarrow> nat \<Rightarrow> 'a) \<Rightarrow> nat \<Rightarrow> nat \<Rightarrow> 'a \<Rightarrow> nat \<Rightarrow> nat \<Rightarrow> 'a" where
  "upd2 t i j v = t(i := (t i)(j := v))"

text \<open>
  The block \<open>if (i != j) { ... }\<close> of \<open>PairSMATB::init_one\<close>: every assignment reads entry
  \<open>[i][j]\<close> and writes entry \<open>[j][i]\<close> of one and the same table, so the fifteen assignments
  do not depend on their order.
\<close>

definition init_one_mirror :: "PairSMATB \<Rightarrow> nat \<Rightarrow> nat \<Rightarrow> PairSMATB" where
  "init_one_mirror c i j =
     c\<lparr>setflag := upd2 (setflag c) j i 1,
       cutOffEnd2 := upd2 (cutOffEnd2 c) j i (cutOffEnd2 c i j),
       r0 := upd2 (r0 c) j i (r0 c i j),
       p := upd2 (p c) j i (p c i j),
       q := upd2 (q c) j i (q c i j),
       A := upd2 (A c) j i (A c i j),
       QSI := upd2 (QSI c) j i (QSI c i j),
       cutOffStart := upd2 (cutOffStart c) j i (cutOffStart c i j),
       cutOffEnd := upd2 (cutOffEnd c) j i (cutOffEnd c i j),
       a3 := upd2 (a3 c) j i (a3 c i j),
       a4 := upd2 (a4 c) j i (a4 c i j),
       a5 := upd2 (a5 c) j i (a5 c i j),
       x3 := upd2 (x3 c) j i (x3 c i j),
       x4 := upd2 (x4 c) j i (x4 c i j),
       x5 := upd2 (x5 c) j i (x5 c i j)\<rparr>"

text \<open>
  The part of \<open>PairSMATB::init_one\<close> headed ``calculating the polynomial linking to zero'',
  up to the assignment of \<open>cutOffEnd2[i][j]\<close>. The seven assignments write seven different
  tables and read none of them, so they are one record update.
\<close>

definition init_one_poly :: "PairSMATB \<Rightarrow> nat \<Rightarrow> nat \<Rightarrow> PairSMATB" where
  "init_one_poly c i j =
     (let es = cutOffEnd c i j - cutOffStart c i j;
          es2 = es * es;
          es3 = es2 * es;
          expp = A c i j * exp (p c i j * (1 - cutOffStart c i j / r0 c i j));
          ap = - 1 / es3;
          bp = p c i j / (r0 c i j * es2);
          cp = - (p c i j * p c i j) / (es * r0 c i j * r0 c i j);
          expq = QSI c i j * exp (q c i j * (1 - cutOffStart c i j / r0 c i j));
          aq = - 1 / es3;
          bq = q c i j / (es2 * r0 c i j);
          cq = - (q c i j * q c i j) / (es * r0 c i j * r0 c i j)
      in c\<lparr>a5 := upd2 (a5 c) i j (expp * (12 * ap + 6 * bp + cp) / (2 * es2)),
           a4 := upd2 (a4 c) i j (expp * (15 * ap + 7 * bp + cp) / es),
           a3 := upd2 (a3 c) i j (expp * (20 * ap + 8 * bp + cp) / 2),
           x5 := upd2 (x5 c) i j (expq * (12 * aq + 6 * bq + cq) / (2 * es2)),
           x4 := upd2 (x4 c) i j (expq * (15 * aq + 7 * bq + cq) / es),
           x3 := upd2 (x3 c) i j (expq * (20 * aq + 8 * bq + cq) / 2),
           cutOffEnd2 := upd2 (cutOffEnd2 c) i j (cutOffEnd c i j * cutOffEnd c i j)\<rparr>)"

text \<open>
  \<open>PairSMATB::init_one(int i, int j)\<close>. With \<open>setflag[i][j] == 0\<close> the function assigns
  \<open>cutOffStart[i][j]\<close> and \<open>cutOffEnd[i][j]\<close> and reaches \<open>error->all\<close>, which does not
  return, so that nothing reads the two assignments. Otherwise it derives the coefficients
  of the two switching polynomials, squares the outer cutoff, mirrors the entry and
  returns \<open>cutOffEnd[i][j]\<close>.
\<close>

definition init_one :: "PairSMATB \<Rightarrow> nat \<Rightarrow> nat \<Rightarrow> error + (real \<times> PairSMATB)" where
  "init_one c i j =
     (if setflag c i j = 0 then Inl (Error_all ''All pair coeffs are not set'')
      else
        let c = init_one_poly c i j;
            c = (if i \<noteq> j then init_one_mirror c i j else c)
        in Inr (cutOffEnd c i j, c))"

text \<open>
  The terms of the pair energy and of the pair force as \<open>PairSMATB::compute\<close> evaluates them
  for a pair of types \<open>itype\<close>, \<open>jtype\<close> at distance \<open>dij\<close>, in exact arithmetic: the
  \<open>_exp\<close> functions are the branch \<open>dij < cutOffStart[itype][jtype]\<close>, the \<open>_poly\<close>
  functions the other branch.
\<close>

definition aexpp_exp :: "PairSMATB \<Rightarrow> nat \<Rightarrow> nat \<Rightarrow> real \<Rightarrow> real" where
  "aexpp_exp c itype jtype dij =
     (let espo = 1 - dij / r0 c itype jtype
      in exp (p c itype jtype * espo) * A c itype jtype)"

definition Fr_exp :: "PairSMATB \<Rightarrow> nat \<Rightarrow> nat \<Rightarrow> real \<Rightarrow> real" where
  "Fr_exp c itype jtype dij =
     (2 * aexpp_exp c itype jtype dij) * (p c itype jtype / r0 c itype jtype)"

definition qsiexpq_exp :: "PairSMATB \<Rightarrow> nat \<Rightarrow> nat \<Rightarrow> real \<Rightarrow> real" where
  "qsiexpq_exp c itype jtype dij =
     (QSI c itype jtype * QSI c itype jtype) *
       exp (2 * q c itype jtype * (1 - dij / r0 c itype jtype))"

definition Fb_exp :: "PairSMATB \<Rightarrow> nat \<Rightarrow> nat \<Rightarrow> real \<Rightarrow> real" where
  "Fb_exp c itype jtype dij =
     - qsiexpq_exp c itype jtype dij * q c itype jtype / r0 c itype jtype"

definition aexpp_poly :: "PairSMATB \<Rightarrow> nat \<Rightarrow> nat \<Rightarrow> real \<Rightarrow> real" where
  "aexpp_poly c itype jtype dij =
     (let polyval = dij - cutOffEnd c itype jtype;
          polyval2 = polyval * polyval;
          polyval3 = polyval2 * polyval;
          polyval4 = polyval3 * polyval;
          polyval5 = polyval4 * polyval
      in a5 c itype jtype * polyval5 + a4 c itype jtype * polyval4 + a3 c itype jtype * polyval3)"

definition Fr_poly :: "PairSMATB \<Rightarrow> nat \<Rightarrow> nat \<Rightarrow> real \<Rightarrow> real" where
  "Fr_poly c itype jtype dij =
     (let polyval = dij - cutOffEnd c itype jtype;
          polyval2 = polyval * polyval;
          polyval3 = polyval2 * polyval;
          polyval4 = polyval3 * polyval
      in - 2 * (5 * a5 c itype jtype * polyval4 + 4 * a4 c itype jtype * polyval3 +
                3 * a3 c itype jtype * polyval2))"

definition qsiexpq_poly :: "PairSMATB \<Rightarrow> nat \<Rightarrow> nat \<Rightarrow> real \<Rightarrow> real" where
  "qsiexpq_poly c itype jtype dij =
     (let polyval = dij - cutOffEnd c itype jtype;
          polyval2 = polyval * polyval;
          polyval3 = polyval2 * polyval;
          polyval4 = polyval3 * polyval;
          polyval5 = polyval4 * polyval
      in x5 c itype jtype * polyval5 + x4 c itype jtype * polyval4 + x3 c itype jtype * polyval3)"

definition Fb_poly :: "PairSMATB \<Rightarrow> nat \<Rightarrow> nat \<Rightarrow> real \<Rightarrow> real" where
  "Fb_poly c itype jtype dij =
     (let polyval = dij - cutOffEnd c itype jtype;
          polyval2 = polyval * polyval;
          polyval3 = polyval2 * polyval;
          polyval4 = polyval3 * polyval
      in (5 * x5 c itype jtype * polyval4 + 4 * x4 c itype jtype * polyval3 +
          3 * x3 c itype jtype * polyval2) * qsiexpq_poly c itype jtype dij)"

text \<open>
  The state \<open>init_one\<close> leaves for a configured pair (see \<open>init_one_configured\<close> below).
\<close>

definition init_one_state :: "PairSMATB \<Rightarrow> nat \<Rightarrow> nat \<Rightarrow> PairSMATB" where
  "init_one_state c i j =
     (if i \<noteq> j then init_one_mirror (init_one_poly c i j) i j else init_one_poly c i j)"

text \<open>Every table of \<open>PairSMATB\<close> has equal entries at \<open>[j][i]\<close> and \<open>[i][j]\<close>.\<close>

definition tables_symmetric :: "PairSMATB \<Rightarrow> nat \<Rightarrow> nat \<Rightarrow> bool" where
  "tables_symmetric c i j =
     (r0 c j i = r0 c i j \<and> p c j i = p c i j \<and> q c j i = q c i j \<and> A c j i = A c i j
      \<and> QSI c j i = QSI c i j \<and> cutOffStart c j i = cutOffStart c i j
      \<and> cutOffEnd c j i = cutOffEnd c i j \<and> cutOffEnd2 c j i = cutOffEnd2 c i j
      \<and> a3 c j i = a3 c i j \<and> a4 c j i = a4 c i j \<and> a5 c j i = a5 c i j
      \<and> x3 c j i = x3 c i j \<and> x4 c j i = x4 c i j \<and> x5 c j i = x5 c i j)"

text \<open>
  Two functions of the distance have the same value and the same first derivative at \<open>r\<close>.
\<close>

definition same_value_and_slope :: "(real \<Rightarrow> real) \<Rightarrow> (real \<Rightarrow> real) \<Rightarrow> real \<Rightarrow> bool" where
  "same_value_and_slope g h r = (g r = h r \<and> (\<exists>D. DERIV g r :> D \<and> DERIV h r :> D))"

text \<open>
  The first and the second derivative of the switching polynomial
  \<open>c5 * pv^5 + c4 * pv^4 + c3 * pv^3\<close> with respect to \<open>pv\<close>; the first one is the sum
  that \<open>PairSMATB::compute\<close> writes out in \<open>Fr\<close> and \<open>Fb\<close>.
\<close>

definition quartic :: "real \<Rightarrow> real \<Rightarrow> real \<Rightarrow> real \<Rightarrow> real" where
  "quartic c5 c4 c3 pv = 5 * c5 * (pv * pv * pv * pv) + 4 * c4 * (pv * pv * pv) + 3 * c3 * (pv * pv)"

definition cubic :: "real \<Rightarrow> real \<Rightarrow> real \<Rightarrow> real \<Rightarrow> real" where
  "cubic c5 c4 c3 pv = 20 * c5 * (pv * pv * pv) + 12 * c4 * (pv * pv) + 6 * c3 * pv"

text \<open>
  A coefficient set with one parameter line for every pair \<open>i \<le> j\<close>, as \<open>coeff\<close> leaves it:
  the switching region is the interval from 3 to 4.
\<close>

definition smatb_example :: PairSMATB where
  "smatb_example =
     \<lparr>PairSMATB.setflag = (\<lambda>i j. if i \<le> j then 1 else 0), r0 = (\<lambda>i j. 1), p = (\<lambda>i j. 0),
      A = (\<lambda>i j. 1), q = (\<lambda>i j. 0), QSI = (\<lambda>i j. 1),
      cutOffStart = (\<lambda>i j. 3), cutOffEnd = (\<lambda>i j. 4), cutOffEnd2 = (\<lambda>i j. 0),
      a3 = (\<lambda>i j. 0), a4 = (\<lambda>i j. 0), a5 = (\<lambda>i j. 0),
      x3 = (\<lambda>i j. 0), x4 = (\<lambda>i j. 0), x5 = (\<lambda>i j. 0)\<rparr>"

section \<open>Pair style smatb: setting the coefficients\<close>

text \<open>
  \<open>PairSMATB::allocate()\<close>: \<open>memory->create\<close> gives arrays of unspecified contents, here the
  contents of \<open>c\<close>; \<open>setflag[i][j]\<close> is zeroed for \<open>1 \<le> i \<le> j \<le> n\<close>.
\<close>

definition allocate :: "nat \<Rightarrow> PairSMATB \<Rightarrow> PairSMATB" where
  "allocate n c =
     c\<lparr>PairSMATB.setflag := (\<lambda>i j. if 1 \<le> i \<and> i \<le> j \<and> j \<le> n then 0 else PairSMATB.setflag c i j)\<rparr>"

text \<open>
  One line \<open>pair_coeff i j r0 p q A QSI CO_start CO_end\<close> as \<open>PairSMATB::coeff\<close> has it after
  \<open>utils::bounds\<close> and \<open>utils::numeric\<close>, which are not among the sources at hand: the two
  ranges of types and the seven numbers.
\<close>

record coeff_line =
  ilo :: nat
  ihi :: nat
  jlo :: nat
  jhi :: nat
  myr0 :: real
  myp :: real
  myq :: real
  myA :: real
  myQSI :: real
  mycutOffStart :: real
  mycutOffEnd :: real

text \<open>The body of the two loops of \<open>PairSMATB::coeff\<close>, with the counter \<open>count\<close>.\<close>

definition coeff_pair :: "coeff_line \<Rightarrow> nat \<Rightarrow> nat \<Rightarrow> PairSMATB \<times> nat \<Rightarrow> PairSMATB \<times> nat" where
  "coeff_pair l i j = (\<lambda>(c, count).
     (c\<lparr>r0 := upd2 (r0 c) i j (myr0 l),
        p := upd2 (p c) i j (myp l),
        A := upd2 (A c) i j (myA l),
        q := upd2 (q c) i j (myq l),
        QSI := upd2 (QSI c) i j (myQSI l),
        cutOffStart := upd2 (cutOffStart c) i j (mycutOffStart l),
        cutOffEnd := upd2 (cutOffEnd c) i j (mycutOffEnd l),
        PairSMATB.setflag := upd2 (PairSMATB.setflag c) i j 1\<rparr>,
      count + 1))"

text \<open>
  \<open>PairSMATB::coeff(int narg, char **arg)\<close> for \<open>ntypes\<close> atom types; \<open>allocated\<close> is the flag
  of the base class. The inner loop starts at \<open>MAX(jlo, i)\<close>: the line sets the entries
  \<open>[i][j]\<close> with \<open>i \<le> j\<close> and no other.
\<close>

definition coeff :: "nat \<Rightarrow> bool \<Rightarrow> int \<Rightarrow> coeff_line \<Rightarrow> PairSMATB \<Rightarrow> error + PairSMATB" where
  "coeff ntypes allocated narg l c =
     (let c = (if \<not> allocated then allocate ntypes c else c)
      in if narg \<noteq> 9 then
           Inl (Error_all (''Incorrect args for pair coefficients:'' @ [CHR 0x0A]
                  @ '' SMATB needs '' @ [CHR 0x22] @ ''i j r0 p q A QSI CO_start CO_end''
                  @ [CHR 0x22]))
         else
           let (c, count) =
                 fold (\<lambda>i. fold (coeff_pair l i) [max (jlo l) i..<Suc (jhi l)])
                   [ilo l..<Suc (ihi l)] (c, 0)
           in if count = 0 then Inl (Error_all ''Incorrect args for pair coefficients'')
              else Inr c)"

text \<open>
  Memory with every entry zero, the line \<open>pair_coeff * * 1 0 0 1 1 3 4\<close> for two atom types,
  and the tables that \<open>coeff\<close> makes of the two (see \<open>coeff_smatb_line\<close> below): the entries
  \<open>[1][1]\<close>, \<open>[1][2]\<close> and \<open>[2][2]\<close> are set, the entry \<open>[2][1]\<close> is not.
\<close>

definition smatb_blank :: PairSMATB where
  "smatb_blank =
     \<lparr>PairSMATB.setflag = (\<lambda>i j. 0), r0 = (\<lambda>i j. 0), p = (\<lambda>i j. 0),
      A = (\<lambda>i j. 0), q = (\<lambda>i j. 0), QSI = (\<lambda>i j. 0),
      cutOffStart = (\<lambda>i j. 0), cutOffEnd = (\<lambda>i j. 0), cutOffEnd2 = (\<lambda>i j. 0),
      a3 = (\<lambda>i j. 0), a4 = (\<lambda>i j. 0), a5 = (\<lambda>i j. 0),
      x3 = (\<lambda>i j. 0), x4 = (\<lambda>i j. 0), x5 = (\<lambda>i j. 0)\<rparr>"

definition smatb_line :: coeff_line where
  "smatb_line =
     \<lparr>ilo = 1, ihi = 2, jlo = 1, jhi = 2, myr0 = 1, myp = 0, myq = 0, myA = 1, myQSI = 1,
      mycutOffStart = 3, mycutOffEnd = 4\<rparr>"

definition set_above :: "nat \<Rightarrow> 'a \<Rightarrow> 'a \<Rightarrow> nat \<Rightarrow> nat \<Rightarrow> 'a" where
  "set_above n v w = (\<lambda>i j. if 1 \<le> i \<and> i \<le> j \<and> j \<le> n then v else w)"

definition smatb_coeffs :: PairSMATB where
  "smatb_coeffs =
     \<lparr>PairSMATB.setflag = set_above 2 1 0, r0 = set_above 2 1 0, p = (\<lambda>i j. 0),
      A = set_above 2 1 0, q = (\<lambda>i j. 0), QSI = set_above 2 1 0,
      cutOffStart = set_above 2 3 0, cutOffEnd = set_above 2 4 0, cutOffEnd2 = (\<lambda>i j. 0),
      a3 = (\<lambda>i j. 0), a4 = (\<lambda>i j. 0), a5 = (\<lambda>i j. 0),
      x3 = (\<lambda>i j. 0), x4 = (\<lambda>i j. 0), x5 = (\<lambda>i j. 0)\<rparr>"

section \<open>Pair style pod: coefficient tables\<close>

text \<open>
  The state of \<open>CPairPOD\<close> that \<open>init_one\<close> touches: \<open>setflag\<close>, \<open>scale\<close> and the cutoff
  \<open>podptr->pod.rcut\<close>.
\<close>

record CPairPOD =
  setflag :: "nat \<Rightarrow> nat \<Rightarrow> int"
  scale :: "nat \<Rightarrow> nat \<Rightarrow> real"
  rcut :: real

text \<open>
  \<open>CPairPOD::init_one(int i, int j)\<close>. The assignment to \<open>scale\<close> is indented like the body
  of the \<open>if\<close> but is the statement after it.
\<close>

definition CPairPOD_init_one :: "CPairPOD \<Rightarrow> nat \<Rightarrow> nat \<Rightarrow> error + (real \<times> CPairPOD)" where
  "CPairPOD_init_one s i j =
     (if CPairPOD.setflag s i j = 0 then Inl (Error_all ''All pair coeffs are not set'')
      else
        let s = s\<lparr>scale := upd2 (scale s) j i (scale s i j)\<rparr>
        in Inr (rcut s, s))"

text \<open>
  Modelled from the spec: \<open>coeff\<close> sets a flag per configured type pair.
  \<open>CPairPOD::coeff\<close> leaves that to \<open>map_element2type\<close> of the base class, which is not
  among the sources at hand, and itself sets \<open>scale\<close> to \<open>1.0\<close> everywhere. This is a
  state after \<open>coeff\<close> for two atom types with the flags set for the pairs \<open>i \<le> j\<close>, the
  pairs for which \<open>PairSMATB::coeff\<close> sets them; the cutoff \<open>pod.rcut\<close> is 5.
\<close>

definition pod_example :: CPairPOD where
  "pod_example = \<lparr>CPairPOD.setflag = set_above 2 1 0, scale = (\<lambda>i j. 1), rcut = 5\<rparr>"

section \<open>Pair style pod: the neighbour pairs of one atom\<close>

text \<open>
  The members that \<open>CPairPOD::lammpsNeighPairs\<close> writes: the counter \<open>nij\<close> and the arrays
  \<open>rij\<close>, \<open>idxi\<close>, \<open>ai\<close>, \<open>aj\<close>, \<open>ti\<close>, \<open>tj\<close>, \<open>typeai\<close> and \<open>numneighsum\<close>.
\<close>

record pod_pairs =
  nij :: nat
  rij :: "nat \<Rightarrow> real"
  idxi :: "nat \<Rightarrow> int"
  ai :: "nat \<Rightarrow> nat"
  aj :: "nat \<Rightarrow> nat"
  ti :: "nat \<Rightarrow> int"
  tj :: "nat \<Rightarrow> int"
  typeai :: "nat \<Rightarrow> int"
  numneighsum :: "nat \<Rightarrow> nat"

text \<open>
  The body of the loop over the neighbours \<open>l\<close> of atom \<open>gi\<close>; \<open>map'\<close> is the argument
  \<open>map\<close>. The literal \<open>1e-20\<close> is read as the real number it denotes.
\<close>

definition lammpsNeighPairs_step ::
  "(nat \<Rightarrow> nat \<Rightarrow> real) \<Rightarrow> (nat \<Rightarrow> nat \<Rightarrow> nat) \<Rightarrow> (nat \<Rightarrow> nat) \<Rightarrow> (nat \<Rightarrow> int) \<Rightarrow> nat
     \<Rightarrow> real \<Rightarrow> int \<Rightarrow> nat \<Rightarrow> pod_pairs \<Rightarrow> pod_pairs" where
  "lammpsNeighPairs_step x firstneigh atomtypes map' gi rcutsq itype l st =
     (let gj = firstneigh gi l;
          delx = x gj 0 - x gi 0;
          dely = x gj 1 - x gi 1;
          delz = x gj 2 - x gi 2;
          rsq = delx * delx + dely * dely + delz * delz
      in if rsq < rcutsq \<and> rsq > 1 / 10 ^ 20 then
           st\<lparr>rij := (rij st)(nij st * 3 + 0 := delx, nij st * 3 + 1 := dely,
                               nij st * 3 + 2 := delz),
              idxi := (idxi st)(nij st := 0),
              ai := (ai st)(nij st := gi),
              aj := (aj st)(nij st := gj),
              ti := (ti st)(nij st := itype),
              tj := (tj st)(nij st := map' (atomtypes gj) + 1),
              nij := nij st + 1\<rparr>
         else st)"

text \<open>
  \<open>CPairPOD::lammpsNeighPairs(x, firstneigh, atomtypes, map, numneigh, gi)\<close>; \<open>pod\<close> gives
  \<open>podptr->pod.rcut\<close>.
\<close>

definition lammpsNeighPairs ::
  "CPairPOD \<Rightarrow> (nat \<Rightarrow> nat \<Rightarrow> real) \<Rightarrow> (nat \<Rightarrow> nat \<Rightarrow> nat) \<Rightarrow> (nat \<Rightarrow> nat) \<Rightarrow> (nat \<Rightarrow> int)
     \<Rightarrow> (nat \<Rightarrow> nat) \<Rightarrow> nat \<Rightarrow> pod_pairs \<Rightarrow> pod_pairs" where
  "lammpsNeighPairs pod x firstneigh atomtypes map' numneigh gi st =
     (let rcutsq = rcut pod * rcut pod;
          st = st\<lparr>nij := 0\<rparr>;
          itype = map' (atomtypes gi) + 1;
          m = numneigh gi;
          st = st\<lparr>typeai := (typeai st)(0 := itype)\<rparr>;
          st = fold (lammpsNeighPairs_step x firstneigh atomtypes map' gi rcutsq itype) [0..<m] st
      in st\<lparr>numneighsum := (numneighsum st)(0 := 0, 1 := nij st)\<rparr>)"

text \<open>The squared length of the \<open>k\<close>-th separation vector stored in \<open>rij\<close>.\<close>

definition rij_sq :: "pod_pairs \<Rightarrow> nat \<Rightarrow> real" where
  "rij_sq st k =
     rij st (k * 3 + 0) * rij st (k * 3 + 0) + rij st (k * 3 + 1) * rij st (k * 3 + 1)
       + rij st (k * 3 + 2) * rij st (k * 3 + 2)"

section \<open>The range of \<open>double\<close>\<close>

text \<open>
  Where a result that is not a finite number matters, in the second loop of
  \<open>PairSMATB::compute\<close>, the operations on \<open>double\<close> are written out with the range of the
  type, in the default rounding to nearest: a result of magnitude \<open>2^1024 - 2^970\<close> or more
  is an infinity, a product, quotient or exponential of magnitude \<open>2^-1075\<close> or less is
  zero, a quotient by zero and the square root of a negative number are an infinity or NaN.
  An operation returns \<open>None\<close> where its result is an infinity or NaN. The rounding
  error of a result in between is left out. A sum or difference of two \<open>double\<close>s is never
  rounded to zero, and a square root neither overflows nor underflows.
\<close>

definition double_overflow :: real where
  "double_overflow = 2 ^ 1024 - 2 ^ 970"

definition double_underflow :: real where
  "double_underflow = 1 / 2 ^ 1075"

definition finite_double :: "real \<Rightarrow> real option" where
  "finite_double r = (if \<bar>r\<bar> < double_overflow then Some r else None)"

definition rounded_double :: "real \<Rightarrow> real option" where
  "rounded_double r = (if \<bar>r\<bar> \<le> double_underflow then Some 0 else finite_double r)"

definition dadd :: "real \<Rightarrow> real \<Rightarrow> real option" where
  "dadd a b = finite_double (a + b)"

definition dsub :: "real \<Rightarrow> real \<Rightarrow> real option" where
  "dsub a b = finite_double (a - b)"

definition dmul :: "real \<Rightarrow> real \<Rightarrow> real option" where
  "dmul a b = rounded_double (a * b)"

definition ddiv :: "real \<Rightarrow> real \<Rightarrow> real option" where
  "ddiv a b = (if b = 0 then None else rounded_double (a / b))"

definition dsqrt :: "real \<Rightarrow> real option" where
  "dsqrt a = (if a < 0 then None else Some (sqrt a))"

definition dexp :: "real \<Rightarrow> real option" where
  "dexp a = rounded_double (exp a)"

section \<open>Pair style smatb: the force computation\<close>

text \<open>
  What \<open>PairSMATB::compute\<close> reads: positions and types of the atoms, the numbers of local
  and ghost atoms, \<open>force->newton_pair\<close>, the neighbour list (\<open>inum\<close>, \<open>ilist\<close>,
  \<open>numneigh\<close>, \<open>firstneigh\<close>), the macro \<open>NEIGHMASK\<close>, whose definition is not among the
  sources at hand, and the energy flags. \<open>ev\<close> is the test \<open>eflag || vflag\<close>; the three
  flags are the values \<open>ev_setup\<close> of the base class gives them when that test holds.
  When it fails, \<open>compute\<close> sets \<open>eflag_atom\<close> and \<open>eflag_global\<close> to zero and leaves
  \<open>eflag_either\<close> as it is: the loops test \<open>ev \<and> eflag_atom\<close> and \<open>ev \<and> eflag_global\<close>.
  \<open>swaps\<close> describes the ghost exchange, see below.
\<close>

record compute_in =
  x :: "nat \<Rightarrow> nat \<Rightarrow> real"
  type :: "nat \<Rightarrow> nat"
  nlocal :: nat
  nghost :: nat
  newton_pair :: bool
  inum :: nat
  ilist :: "nat \<Rightarrow> nat"
  numneigh :: "nat \<Rightarrow> nat"
  firstneigh :: "nat \<Rightarrow> nat \<Rightarrow> nat"
  NEIGHMASK :: nat
  ev :: bool
  eflag_either :: bool
  eflag_atom :: bool
  eflag_global :: bool
  swaps :: "(nat list \<times> nat) list"

text \<open>
  What \<open>PairSMATB::compute\<close> writes: the accumulator \<open>on_eb\<close>, the forces \<open>atom->f\<close>, and
  the energies \<open>eatom\<close> and \<open>eng_vdwl\<close>. The virial (\<open>ev_tally\<close> under \<open>vflag_atom\<close>,
  \<open>virial_fdotr_compute\<close>) belongs to the base class and writes none of the four; it is
  left out. \<open>memory->grow\<close> keeps the contents of \<open>on_eb\<close> and is invisible on a function.
\<close>

record compute_state =
  on_eb :: "nat \<Rightarrow> real"
  f :: "nat \<Rightarrow> nat \<Rightarrow> real"
  eatom :: "nat \<Rightarrow> real"
  eng_vdwl :: real

text \<open>\<open>memset(a, 0, n * sizeof(a[0]))\<close>.\<close>

definition memset_zero :: "nat \<Rightarrow> (nat \<Rightarrow> real) \<Rightarrow> nat \<Rightarrow> real" where
  "memset_zero n a = (\<lambda>k. if k < n then 0 else a k)"

text \<open>
  The squared distance \<open>dijsq\<close> of atom \<open>i\<close> and the atom behind the neighbour entry \<open>jj\<close>,
  as the first loop computes it, in exact arithmetic.
\<close>

definition pair_dijsq :: "compute_in \<Rightarrow> nat \<Rightarrow> nat \<Rightarrow> real" where
  "pair_dijsq e i jj =
     (let j = jj AND NEIGHMASK e;
          del0 = x e i 0 - x e j 0;
          del1 = x e i 1 - x e j 1;
          del2 = x e i 2 - x e j 2
      in del0 * del0 + del1 * del1 + del2 * del2)"

text \<open>The body of the inner loop of the first loop.\<close>

definition first_loop_pair ::
  "PairSMATB \<Rightarrow> compute_in \<Rightarrow> nat \<Rightarrow> nat \<Rightarrow> (nat \<Rightarrow> real) \<Rightarrow> nat \<Rightarrow> real" where
  "first_loop_pair c e i jj eb =
     (let j = jj AND NEIGHMASK e;
          itype = type e i;
          jtype = type e j;
          dijsq = pair_dijsq e i jj
      in if dijsq < cutOffEnd2 c itype jtype then
           let dij = sqrt dijsq;
               qsiexpq =
                 (if dij < cutOffStart c itype jtype then qsiexpq_exp c itype jtype dij
                  else let qsiexpq = qsiexpq_poly c itype jtype dij in qsiexpq * qsiexpq);
               eb = eb(i := eb i + qsiexpq)
           in eb(j := eb j + qsiexpq)
         else eb)"

definition first_loop :: "PairSMATB \<Rightarrow> compute_in \<Rightarrow> (nat \<Rightarrow> real) \<Rightarrow> nat \<Rightarrow> real" where
  "first_loop c e =
     fold (\<lambda>ii. let i = ilist e ii
                in fold (\<lambda>jj. first_loop_pair c e i (firstneigh e i jj)) [0..<numneigh e i])
       [0..<inum e]"

text \<open>
  The four callbacks of the ghost exchange; \<open>buf\<close> is a list, \<open>m\<close> its length.
  \<open>pbc_flag\<close> and \<open>pbc\<close> are not used by \<open>pack_forward_comm\<close>.
\<close>

definition pack_forward_comm :: "nat \<Rightarrow> nat list \<Rightarrow> (nat \<Rightarrow> real) \<Rightarrow> real list" where
  "pack_forward_comm n list eb = map (\<lambda>i. eb (list ! i)) [0..<n]"

definition unpack_forward_comm :: "nat \<Rightarrow> nat \<Rightarrow> real list \<Rightarrow> (nat \<Rightarrow> real) \<Rightarrow> nat \<Rightarrow> real" where
  "unpack_forward_comm n first buf = fold (\<lambda>m eb. eb(first + m := buf ! m)) [0..<n]"

definition pack_reverse_comm :: "nat \<Rightarrow> nat \<Rightarrow> (nat \<Rightarrow> real) \<Rightarrow> real list" where
  "pack_reverse_comm n first eb = map (\<lambda>m. eb (first + m)) [0..<n]"

definition unpack_reverse_comm :: "nat \<Rightarrow> nat list \<Rightarrow> real list \<Rightarrow> (nat \<Rightarrow> real) \<Rightarrow> nat \<Rightarrow> real" where
  "unpack_reverse_comm n list buf =
     fold (\<lambda>m eb. eb(list ! m := eb (list ! m) + buf ! m)) [0..<n]"

text \<open>
  Modelled from the spec: \<open>comm->reverse_comm_pair\<close> and \<open>comm->forward_comm_pair\<close> of the
  communication layer, which is not among the sources at hand. The specification gives
  the forward exchange as the copy from owner to ghost and the reverse exchange as the
  accumulation from ghost to owner. Here one process owns every atom, and a swap
  \<open>(sendlist, firstrecv)\<close> pairs the owned atoms \<open>sendlist\<close> with the block of ghost atoms
  that starts at index \<open>firstrecv\<close> and holds their images: the forward exchange packs
  the owners and unpacks into the ghosts, swap by swap; the reverse exchange packs the
  ghosts and unpacks into the owners, with the swaps in reverse order.
\<close>

definition forward_comm_pair :: "compute_in \<Rightarrow> (nat \<Rightarrow> real) \<Rightarrow> nat \<Rightarrow> real" where
  "forward_comm_pair e =
     fold (\<lambda>(sendlist, firstrecv) eb.
             unpack_forward_comm (length sendlist) firstrecv
               (pack_forward_comm (length sendlist) sendlist eb) eb)
       (swaps e)"

definition reverse_comm_pair :: "compute_in \<Rightarrow> (nat \<Rightarrow> real) \<Rightarrow> nat \<Rightarrow> real" where
  "reverse_comm_pair e =
     fold (\<lambda>(sendlist, firstrecv) eb.
             unpack_reverse_comm (length sendlist) sendlist
               (pack_reverse_comm (length sendlist) firstrecv eb) eb)
       (rev (swaps e))"

text \<open>The body of the support loop.\<close>

definition support_step :: "compute_in \<Rightarrow> nat \<Rightarrow> compute_state \<Rightarrow> compute_state" where
  "support_step e ii st =
     (let i = ilist e ii
      in if i < nlocal e then
           let eb_i = sqrt (on_eb st i);
               st = st\<lparr>on_eb := (on_eb st)(i := (if eb_i \<noteq> 0 then 1 / eb_i else 0))\<rparr>
           in if eflag_either e then
                let st = (if ev e \<and> eflag_atom e
                          then st\<lparr>eatom := (eatom st)(i := eatom st i - eb_i)\<rparr> else st)
                in (if ev e \<and> eflag_global e
                    then st\<lparr>eng_vdwl := eng_vdwl st - eb_i\<rparr> else st)
              else st
         else st)"

definition support_loop :: "compute_in \<Rightarrow> compute_state \<Rightarrow> compute_state" where
  "support_loop e = fold (support_step e) [0..<inum e]"

text \<open>
  The energy tally of the second loop for one pair, \<open>aexpp\<close> being its repulsive energy.
\<close>

definition tally_pair :: "compute_in \<Rightarrow> nat \<Rightarrow> nat \<Rightarrow> real \<Rightarrow> compute_state \<Rightarrow> compute_state" where
  "tally_pair e i j aexpp st =
     (if eflag_either e then
        let st = (if ev e \<and> eflag_atom e then
                    let st = st\<lparr>eatom := (eatom st)(i := eatom st i + aexpp)\<rparr>
                    in (if newton_pair e \<or> j < nlocal e
                        then st\<lparr>eatom := (eatom st)(j := eatom st j + aexpp)\<rparr> else st)
                  else st)
        in (if ev e \<and> eflag_global e then
              (if newton_pair e \<or> j < nlocal e
               then st\<lparr>eng_vdwl := eng_vdwl st + 2 * aexpp\<rparr>
               else st\<lparr>eng_vdwl := eng_vdwl st + aexpp\<rparr>)
            else st)
      else st)"

text \<open>
  The second loop, whose results are the forces, is read with the range of \<open>double\<close>
  written out, one line for every operation of the source: a step of it is \<open>None\<close> when
  one of its operations gives an infinity or NaN. The first loop, the support loop, the
  ghost exchange and the energy tallies are read in exact arithmetic.

  \<open>del\<close> and \<open>dijsq\<close> of atom \<open>i\<close> and its neighbour \<open>j\<close>, as the second loop computes them.
\<close>

definition pair_geometry :: "compute_in \<Rightarrow> nat \<Rightarrow> nat \<Rightarrow> (real \<times> real \<times> real \<times> real) option" where
  "pair_geometry e i j = do {
     del0 \<leftarrow> dsub (x e i 0) (x e j 0);
     del1 \<leftarrow> dsub (x e i 1) (x e j 1);
     del2 \<leftarrow> dsub (x e i 2) (x e j 2);
     s0 \<leftarrow> dmul del0 del0;
     s1 \<leftarrow> dmul del1 del1;
     s2 \<leftarrow> dmul del2 del2;
     s01 \<leftarrow> dadd s0 s1;
     dijsq \<leftarrow> dadd s01 s2;
     Some (del0, del1, del2, dijsq)
   }"

text \<open>
  \<open>aexpp\<close>, \<open>Fr\<close> and \<open>Fb\<close> of the second loop in the branch
  \<open>dij < cutOffStart[itype][jtype]\<close>, operation by operation: \<open>espo\<close>, \<open>aexpp\<close>, \<open>Fr\<close>,
  \<open>qsiexpq\<close>, \<open>Fb\<close>. In exact arithmetic these are \<open>aexpp_exp\<close>, \<open>Fr_exp\<close> and \<open>Fb_exp\<close>
  of the section on the coefficient tables, and those of the other branch are
  \<open>aexpp_poly\<close>, \<open>Fr_poly\<close> and \<open>Fb_poly\<close>.
\<close>

definition force_terms_exp ::
  "PairSMATB \<Rightarrow> nat \<Rightarrow> nat \<Rightarrow> real \<Rightarrow> (real \<times> real \<times> real) option" where
  "force_terms_exp c itype jtype dij = do {
     t1 \<leftarrow> ddiv dij (r0 c itype jtype);
     espo \<leftarrow> dsub 1 t1;
     t2 \<leftarrow> dmul (p c itype jtype) espo;
     t3 \<leftarrow> dexp t2;
     aexpp \<leftarrow> dmul t3 (A c itype jtype);
     t4 \<leftarrow> dmul 2 aexpp;
     t5 \<leftarrow> ddiv (p c itype jtype) (r0 c itype jtype);
     Fr \<leftarrow> dmul t4 t5;
     t6 \<leftarrow> dmul (QSI c itype jtype) (QSI c itype jtype);
     t7 \<leftarrow> dmul 2 (q c itype jtype);
     t8 \<leftarrow> dmul t7 espo;
     t9 \<leftarrow> dexp t8;
     qsiexpq \<leftarrow> dmul t6 t9;
     t10 \<leftarrow> dmul (- qsiexpq) (q c itype jtype);
     Fb \<leftarrow> ddiv t10 (r0 c itype jtype);
     Some (aexpp, Fr, Fb)
   }"

text \<open>
  The same in the other branch: \<open>polyval\<close> and its powers, \<open>aexpp\<close>, \<open>Fr\<close>, \<open>qsiexpq\<close>, \<open>Fb\<close>.
\<close>

definition force_terms_poly ::
  "PairSMATB \<Rightarrow> nat \<Rightarrow> nat \<Rightarrow> real \<Rightarrow> (real \<times> real \<times> real) option" where
  "force_terms_poly c itype jtype dij = do {
     polyval \<leftarrow> dsub dij (cutOffEnd c itype jtype);
     polyval2 \<leftarrow> dmul polyval polyval;
     polyval3 \<leftarrow> dmul polyval2 polyval;
     polyval4 \<leftarrow> dmul polyval3 polyval;
     polyval5 \<leftarrow> dmul polyval4 polyval;
     a1 \<leftarrow> dmul (a5 c itype jtype) polyval5;
     a2 \<leftarrow> dmul (a4 c itype jtype) polyval4;
     a12 \<leftarrow> dadd a1 a2;
     a3' \<leftarrow> dmul (a3 c itype jtype) polyval3;
     aexpp \<leftarrow> dadd a12 a3';
     b1 \<leftarrow> dmul 5 (a5 c itype jtype);
     b1 \<leftarrow> dmul b1 polyval4;
     b2 \<leftarrow> dmul 4 (a4 c itype jtype);
     b2 \<leftarrow> dmul b2 polyval3;
     b12 \<leftarrow> dadd b1 b2;
     b3 \<leftarrow> dmul 3 (a3 c itype jtype);
     b3 \<leftarrow> dmul b3 polyval2;
     b123 \<leftarrow> dadd b12 b3;
     Fr \<leftarrow> dmul (- 2) b123;
     c1 \<leftarrow> dmul (x5 c itype jtype) polyval5;
     c2 \<leftarrow> dmul (x4 c itype jtype) polyval4;
     c12 \<leftarrow> dadd c1 c2;
     c3 \<leftarrow> dmul (x3 c itype jtype) polyval3;
     qsiexpq \<leftarrow> dadd c12 c3;
     d1 \<leftarrow> dmul 5 (x5 c itype jtype);
     d1 \<leftarrow> dmul d1 polyval4;
     d2 \<leftarrow> dmul 4 (x4 c itype jtype);
     d2 \<leftarrow> dmul d2 polyval3;
     d12 \<leftarrow> dadd d1 d2;
     d3 \<leftarrow> dmul 3 (x3 c itype jtype);
     d3 \<leftarrow> dmul d3 polyval2;
     d123 \<leftarrow> dadd d12 d3;
     Fb \<leftarrow> dmul d123 qsiexpq;
     Some (aexpp, Fr, Fb)
   }"

text \<open>\<open>fpair = (Fb * (on_eb[i] + on_eb[j]) + Fr) / dij\<close>.\<close>

definition pair_fpair :: "real \<Rightarrow> real \<Rightarrow> real \<Rightarrow> real \<Rightarrow> real \<Rightarrow> real option" where
  "pair_fpair Fb Fr eb_i eb_j dij = do {
     t1 \<leftarrow> dadd eb_i eb_j;
     t2 \<leftarrow> dmul Fb t1;
     t3 \<leftarrow> dadd t2 Fr;
     ddiv t3 dij
   }"

text \<open>
  \<open>a[i][0] += del[0] * fpair; a[i][1] += del[1] * fpair; a[i][2] += del[2] * fpair\<close>, and
  the same with \<open>-=\<close>.
\<close>

definition add3 ::
  "(nat \<Rightarrow> nat \<Rightarrow> real) \<Rightarrow> nat \<Rightarrow> real \<Rightarrow> real \<Rightarrow> real \<Rightarrow> real \<Rightarrow> (nat \<Rightarrow> nat \<Rightarrow> real) option" where
  "add3 a i del0 del1 del2 fpair = do {
     v0 \<leftarrow> dmul del0 fpair;
     a0 \<leftarrow> dadd (a i 0) v0;
     v1 \<leftarrow> dmul del1 fpair;
     a1 \<leftarrow> dadd (a i 1) v1;
     v2 \<leftarrow> dmul del2 fpair;
     a2 \<leftarrow> dadd (a i 2) v2;
     Some (a(i := (a i)(0 := a0, 1 := a1, 2 := a2)))
   }"

definition sub3 ::
  "(nat \<Rightarrow> nat \<Rightarrow> real) \<Rightarrow> nat \<Rightarrow> real \<Rightarrow> real \<Rightarrow> real \<Rightarrow> real \<Rightarrow> (nat \<Rightarrow> nat \<Rightarrow> real) option" where
  "sub3 a j del0 del1 del2 fpair = do {
     v0 \<leftarrow> dmul del0 fpair;
     a0 \<leftarrow> dsub (a j 0) v0;
     v1 \<leftarrow> dmul del1 fpair;
     a1 \<leftarrow> dsub (a j 1) v1;
     v2 \<leftarrow> dmul del2 fpair;
     a2 \<leftarrow> dsub (a j 2) v2;
     Some (a(j := (a j)(0 := a0, 1 := a1, 2 := a2)))
   }"

text \<open>
  The body of the inner loop of the second loop. The quotient by \<open>dij\<close> is taken for
  every pair that passes the cutoff test; there is no test of \<open>dij\<close> against zero.
\<close>

definition second_loop_pair ::
  "PairSMATB \<Rightarrow> compute_in \<Rightarrow> nat \<Rightarrow> nat \<Rightarrow> compute_state \<Rightarrow> compute_state option" where
  "second_loop_pair c e i jj st =
     (let j = jj AND NEIGHMASK e;
          itype = type e i;
          jtype = type e j
      in do {
           (del0, del1, del2, dijsq) \<leftarrow> pair_geometry e i j;
           if dijsq < cutOffEnd2 c itype jtype then do {
             dij \<leftarrow> dsqrt dijsq;
             (aexpp, Fr, Fb) \<leftarrow>
               (if dij < cutOffStart c itype jtype then force_terms_exp c itype jtype dij
                else force_terms_poly c itype jtype dij);
             let st = tally_pair e i j aexpp st;
             fpair \<leftarrow> pair_fpair Fb Fr (on_eb st i) (on_eb st j) dij;
             fi \<leftarrow> add3 (f st) i del0 del1 del2 fpair;
             if newton_pair e \<or> j < nlocal e then do {
               fj \<leftarrow> sub3 fi j del0 del1 del2 fpair;
               Some (st\<lparr>f := fj\<rparr>)
             } else Some (st\<lparr>f := fi\<rparr>)
           } else Some st
         })"

text \<open>A loop whose body may fail stops at the first failure.\<close>

fun fold_option :: "('a \<Rightarrow> 's \<Rightarrow> 's option) \<Rightarrow> 'a list \<Rightarrow> 's \<Rightarrow> 's option" where
  "fold_option g [] s = Some s"
| "fold_option g (a # as) s = (case g a s of None \<Rightarrow> None | Some s' \<Rightarrow> fold_option g as s')"

definition second_loop :: "PairSMATB \<Rightarrow> compute_in \<Rightarrow> compute_state \<Rightarrow> compute_state option" where
  "second_loop c e =
     fold_option (\<lambda>ii. let i = ilist e ii
                       in fold_option (\<lambda>jj. second_loop_pair c e i (firstneigh e i jj))
                            [0..<numneigh e i])
       [0..<inum e]"

text \<open>
  \<open>PairSMATB::compute(int eflag, int vflag)\<close>, from the state \<open>st\<close> in which \<open>ev_setup\<close> and
  the integrator have left the energies and the forces: the reset of \<open>eng_vdwl\<close>, the
  zeroing of \<open>on_eb\<close>, the first loop, the reverse exchange, the support loop, the forward
  exchange and the second loop, in the order of the source. The result is \<open>None\<close> when an
  operation of the second loop gives an infinity or NaN.
\<close>

definition compute :: "PairSMATB \<Rightarrow> compute_in \<Rightarrow> compute_state \<Rightarrow> compute_state option" where
  "compute c e st =
     (let st = (if ev e then st\<lparr>eng_vdwl := 0\<rparr> else st);
          nall = nlocal e + nghost e;
          st = st\<lparr>on_eb := (if newton_pair e then memset_zero nall (on_eb st)
                             else memset_zero (nlocal e) (on_eb st))\<rparr>;
          st = st\<lparr>on_eb := first_loop c e (on_eb st)\<rparr>;
          st = st\<lparr>on_eb := reverse_comm_pair e (on_eb st)\<rparr>;
          st = support_loop e st;
          st = st\<lparr>on_eb := forward_comm_pair e (on_eb st)\<rparr>
      in second_loop c e st)"

text \<open>
  The number by which the second loop divides for atom \<open>i\<close> and the neighbour entry \<open>jj\<close>:
  \<open>dij\<close>, if the pair passes the cutoff test.
\<close>

definition pair_divisor :: "PairSMATB \<Rightarrow> compute_in \<Rightarrow> nat \<Rightarrow> nat \<Rightarrow> real option" where
  "pair_divisor c e i jj =
     (let j = jj AND NEIGHMASK e
      in do {
           (del0, del1, del2, dijsq) \<leftarrow> pair_geometry e i j;
           if dijsq < cutOffEnd2 c (type e i) (type e j) then dsqrt dijsq else None
         })"
subsection \<open>Agreement of two runs of \<open>PairSMATB::compute\<close>\<close>

text \<open>
  Two arrays agree below \<open>n\<close> when their first \<open>n\<close> entries are equal; two states are the
  same below \<open>n\<close> when their forces and energies are equal and their \<open>on_eb\<close> arrays agree
  below \<open>n\<close>. The indices of the input are below \<open>n\<close> when every atom of \<open>ilist\<close>, every
  neighbour and every entry that an exchange reads or writes is below \<open>n\<close>, as they are
  for \<open>n = nlocal + nghost\<close> in a run of the program.
\<close>

definition agree_below :: "nat \<Rightarrow> (nat \<Rightarrow> real) \<Rightarrow> (nat \<Rightarrow> real) \<Rightarrow> bool" where
  "agree_below n a b = (\<forall>k<n. a k = b k)"

definition same_below :: "nat \<Rightarrow> compute_state \<Rightarrow> compute_state \<Rightarrow> bool" where
  "same_below n s s' =
     (f s = f s' \<and> eatom s = eatom s' \<and> eng_vdwl s = eng_vdwl s'
      \<and> agree_below n (on_eb s) (on_eb s'))"

definition indices_below :: "compute_in \<Rightarrow> nat \<Rightarrow> bool" where
  "indices_below e n =
     ((\<forall>ii<inum e. ilist e ii < n
         \<and> (\<forall>jj<numneigh e (ilist e ii). firstneigh e (ilist e ii) jj AND NEIGHMASK e < n))
      \<and> (\<forall>(sendlist, firstrecv)\<in>set (swaps e).
            (\<forall>k\<in>set sendlist. k < n) \<and> firstrecv + length sendlist \<le> n))"

text \<open>
  The coefficients of \<open>smatb_example\<close> after \<open>init_one(1,1)\<close>: the outer cutoff is 4 and its
  square 16.
\<close>

definition smatb_ready :: PairSMATB where
  "smatb_ready = init_one_state smatb_example 1 1"

text \<open>
  Two local atoms of type 1 at distance 1 on the first axis, with a half neighbour list:
  atom 0 lists atom 1. \<open>NEIGHMASK\<close> has the low 29 bits set.
\<close>

definition two_atoms :: compute_in where
  "two_atoms =
     \<lparr>x = (\<lambda>i d. if i = 1 \<and> d = 0 then 1 else 0), type = (\<lambda>i. 1), nlocal = 2, nghost = 0,
      newton_pair = True, inum = 2, ilist = (\<lambda>ii. ii),
      numneigh = (\<lambda>i. if i = 0 then 1 else 0), firstneigh = (\<lambda>i jj. 1),
      NEIGHMASK = 536870911, ev = False, eflag_either = False, eflag_atom = False,
      eflag_global = False, swaps = []\<rparr>"

text \<open>
  For these two atoms, the line \<open>pair_coeff 1 1 1 1 1 2 1 3 4\<close> for one atom type, the
  tables that \<open>coeff\<close> makes of it from memory with every entry zero and \<open>init_one(1,1)\<close>
  of these (see \<open>coeff_repulsive_line\<close> below): at distance 1 the repulsive term
  outweighs the bonding term. \<open>two_atoms_pushed\<close> is the state in which \<open>compute\<close> leaves
  the two atoms, from \<open>idle_state\<close> below: \<open>f[0] = (-2, 0, 0)\<close> and \<open>f[1] = (2, 0, 0)\<close>.
\<close>

definition repulsive_line :: coeff_line where
  "repulsive_line =
     \<lparr>ilo = 1, ihi = 1, jlo = 1, jhi = 1, myr0 = 1, myp = 1, myq = 1, myA = 2, myQSI = 1,
      mycutOffStart = 3, mycutOffEnd = 4\<rparr>"

definition repulsive_coeffs :: PairSMATB where
  "repulsive_coeffs =
     \<lparr>PairSMATB.setflag = set_above 1 1 0, r0 = set_above 1 1 0, p = set_above 1 1 0,
      A = set_above 1 2 0, q = set_above 1 1 0, QSI = set_above 1 1 0,
      cutOffStart = set_above 1 3 0, cutOffEnd = set_above 1 4 0, cutOffEnd2 = (\<lambda>i j. 0),
      a3 = (\<lambda>i j. 0), a4 = (\<lambda>i j. 0), a5 = (\<lambda>i j. 0),
      x3 = (\<lambda>i j. 0), x4 = (\<lambda>i j. 0), x5 = (\<lambda>i j. 0)\<rparr>"

definition repulsive_ready :: PairSMATB where
  "repulsive_ready = init_one_state repulsive_coeffs 1 1"

definition two_atoms_pushed :: compute_state where
  "two_atoms_pushed =
     \<lparr>on_eb = (\<lambda>k. if k < 2 then 1 else 0),
      f = (\<lambda>k d. if d = 0 then (if k = 0 then - 2 else if k = 1 then 2 else 0) else 0),
      eatom = (\<lambda>k. 0), eng_vdwl = 0\<rparr>"

text \<open>The same two atoms at distance \<open>2^-540\<close>.\<close>

definition tiny :: real where
  "tiny = 1 / 2 ^ 540"

definition near_atoms :: compute_in where
  "near_atoms = two_atoms\<lparr>x := (\<lambda>i d. if i = 1 \<and> d = 0 then tiny else 0)\<rparr>"

text \<open>The same two atoms, both at the origin.\<close>

definition coincident_atoms :: compute_in where
  "coincident_atoms = two_atoms\<lparr>x := (\<lambda>i d. 0)\<rparr>"

text \<open>
  One local atom at the origin and, as ghost atoms 1 and 2, its two periodic images at
  distance 2 to either side on the first axis, both in its neighbour list; Newton pair is
  off. Each of the two swaps sends atom 0 to one ghost.
\<close>

definition atom_with_images :: compute_in where
  "atom_with_images =
     \<lparr>x = (\<lambda>i d. if d = 0 then (if i = 1 then 2 else if i = 2 then - 2 else 0) else 0),
      type = (\<lambda>i. 1), nlocal = 1, nghost = 2,
      newton_pair = False, inum = 1, ilist = (\<lambda>ii. 0),
      numneigh = (\<lambda>i. if i = 0 then 2 else 0),
      firstneigh = (\<lambda>i jj. if jj = 0 then 1 else 2),
      NEIGHMASK = 536870911, ev = False, eflag_either = False, eflag_atom = False,
      eflag_global = False, swaps = [([0], 1), ([0], 2)]\<rparr>"

text \<open>All accumulators zero.\<close>

definition idle_state :: compute_state where
  "idle_state = \<lparr>on_eb = (\<lambda>k. 0), f = (\<lambda>k d. 0), eatom = (\<lambda>k. 0), eng_vdwl = 0\<rparr>"

text \<open>
  For \<open>lammpsNeighPairs\<close>: atom 0 at the origin with three neighbours, atom 1 at distance 1,
  atom 2 at the origin as well, atom 3 at distance 9; the cutoff of \<open>pod_example\<close> is 5.
\<close>

definition pod_positions :: "nat \<Rightarrow> nat \<Rightarrow> real" where
  "pod_positions = (\<lambda>i d. if d = 0 then (if i = 1 then 1 else if i = 3 then 9 else 0) else 0)"

definition pod_pairs_empty :: pod_pairs where
  "pod_pairs_empty =
     \<lparr>nij = 0, rij = (\<lambda>k. 0), idxi = (\<lambda>k. 0), ai = (\<lambda>k. 0), aj = (\<lambda>k. 0), ti = (\<lambda>k. 0),
      tj = (\<lambda>k. 0), typeai = (\<lambda>k. 0), numneighsum = (\<lambda>k. 0)\<rparr>"

definition pod_pairs_example :: pod_pairs where
  "pod_pairs_example =
     lammpsNeighPairs pod_example pod_positions (\<lambda>i l. l + 1) (\<lambda>i. 1) (\<lambda>t. 0) (\<lambda>i. 3) 0
       pod_pairs_empty"

section \<open>Stencil of the full neighbour list, multi/old, three dimensions\<close>

text \<open>
  The members of \<open>NStencil\<close> that \<open>NStencilFullMultiOld3d::create\<close> reads and writes. The
  stencil extends \<open>sx\<close>, \<open>sy\<close>, \<open>sz\<close> bins to either side; \<open>mbinx\<close> and \<open>mbiny\<close> are the
  numbers of bins along the first two axes; \<open>ntypes\<close> is \<open>atom->ntypes\<close>. Row \<open>itype\<close> of
  \<open>stencil_multi_old\<close> and of \<open>distsq_multi_old\<close> is the array of that atom type, and
  \<open>nstencil_multi_old[itype]\<close> the number of its entries. Bin offsets are integers of
  unbounded size.
\<close>

record NStencil =
  sx :: int
  sy :: int
  sz :: int
  mbinx :: int
  mbiny :: int
  ntypes :: nat
  cuttypesq :: "nat \<Rightarrow> real"
  stencil_multi_old :: "nat \<Rightarrow> nat \<Rightarrow> int"
  distsq_multi_old :: "nat \<Rightarrow> nat \<Rightarrow> real"
  nstencil_multi_old :: "nat \<Rightarrow> nat"

text \<open>
  The body of the innermost loop, on the counter \<open>n\<close> and the two arrays \<open>s\<close> and
  \<open>distsq\<close>. \<open>bin_distance\<close> is a member function of \<open>NStencil\<close> whose definition is not
  among the sources at hand; it is a parameter.
\<close>

definition create_bin ::
  "(int \<Rightarrow> int \<Rightarrow> int \<Rightarrow> real) \<Rightarrow> NStencil \<Rightarrow> real \<Rightarrow> int \<Rightarrow> int \<Rightarrow> int
     \<Rightarrow> nat \<times> (nat \<Rightarrow> int) \<times> (nat \<Rightarrow> real) \<Rightarrow> nat \<times> (nat \<Rightarrow> int) \<times> (nat \<Rightarrow> real)" where
  "create_bin bin_distance st typesq k j i = (\<lambda>(n, s, distsq).
     let rsq = bin_distance i j k
     in if rsq < typesq
        then (n + 1, s(n := k * mbiny st * mbinx st + j * mbinx st + i), distsq(n := rsq))
        else (n, s, distsq))"

text \<open>The body of the loop over the atom types: the three nested loops over the offsets.\<close>

definition create_type :: "(int \<Rightarrow> int \<Rightarrow> int \<Rightarrow> real) \<Rightarrow> nat \<Rightarrow> NStencil \<Rightarrow> NStencil" where
  "create_type bin_distance itype st =
     (let typesq = cuttypesq st itype;
          s = stencil_multi_old st itype;
          distsq = distsq_multi_old st itype;
          n = 0;
          (n, s, distsq) =
            fold (\<lambda>k. fold (\<lambda>j. fold (\<lambda>i. create_bin bin_distance st typesq k j i)
                                  [- sx st..sx st])
                         [- sy st..sy st])
              [- sz st..sz st] (n, s, distsq)
      in st\<lparr>stencil_multi_old := (stencil_multi_old st)(itype := s),
            distsq_multi_old := (distsq_multi_old st)(itype := distsq),
            nstencil_multi_old := (nstencil_multi_old st)(itype := n)\<rparr>)"

text \<open>\<open>NStencilFullMultiOld3d::create()\<close>.\<close>

definition create :: "(int \<Rightarrow> int \<Rightarrow> int \<Rightarrow> real) \<Rightarrow> NStencil \<Rightarrow> NStencil" where
  "create bin_distance st = fold (create_type bin_distance) [1..<ntypes st + 1] st"

text \<open>
  The offsets \<open>(k, j, i)\<close> in the order in which the three loops visit them: \<open>k\<close> outermost,
  \<open>i\<close> innermost, each ascending.
\<close>

definition scan_order :: "NStencil \<Rightarrow> (int \<times> int \<times> int) list" where
  "scan_order st =
     concat (map (\<lambda>k. concat (map (\<lambda>j. map (\<lambda>i. (k, j, i)) [- sx st..sx st]) [- sy st..sy st]))
               [- sz st..sz st])"

text \<open>The entries of atom type \<open>itype\<close>, as pairs of bin offset and squared distance.\<close>

definition stencil_entries :: "NStencil \<Rightarrow> nat \<Rightarrow> (int \<times> real) list" where
  "stencil_entries st itype =
     map (\<lambda>m. (stencil_multi_old st itype m, distsq_multi_old st itype m))
       [0..<nstencil_multi_old st itype]"

text \<open>The entries that the counter and the two arrays of the innermost loop hold.\<close>

definition acc_entries :: "nat \<times> (nat \<Rightarrow> int) \<times> (nat \<Rightarrow> real) \<Rightarrow> (int \<times> real) list" where
  "acc_entries = (\<lambda>(n, s, d). map (\<lambda>m. (s m, d m)) [0..<n])"

text \<open>
  The entries that the scan for atom type \<open>itype\<close> has to leave: the offsets of
  \<open>scan_order\<close> whose \<open>bin_distance\<close> is below the squared cutoff of the type, each with its
  flattened bin offset and its \<open>bin_distance\<close>.
\<close>

definition expected_entries :: "(int \<Rightarrow> int \<Rightarrow> int \<Rightarrow> real) \<Rightarrow> NStencil \<Rightarrow> nat \<Rightarrow> (int \<times> real) list" where
  "expected_entries bd st itype =
     map (\<lambda>(k, j, i). (k * mbiny st * mbinx st + j * mbinx st + i, bd i j k))
       (filter (\<lambda>(k, j, i). bd i j k < cuttypesq st itype) (scan_order st))"

text \<open>
  Modelled from the spec: \<open>NStencil::bin_distance\<close>, which is not among the sources at hand.
  The specification calls the stored number the minimum possible squared distance between
  the reference bin and the bin at the offset. For bins of edge lengths \<open>binsizex\<close>,
  \<open>binsizey\<close>, \<open>binsizez\<close> that is, along each axis, the gap between the two bins: none for
  the same or an adjacent bin, and one bin less than the offset otherwise.
\<close>

definition bin_distance :: "real \<Rightarrow> real \<Rightarrow> real \<Rightarrow> int \<Rightarrow> int \<Rightarrow> int \<Rightarrow> real" where
  "bin_distance binsizex binsizey binsizez i j k =
     (let delx = (if i > 0 then real_of_int (i - 1) * binsizex
                  else if i = 0 then 0 else real_of_int (i + 1) * binsizex);
          dely = (if j > 0 then real_of_int (j - 1) * binsizey
                  else if j = 0 then 0 else real_of_int (j + 1) * binsizey);
          delz = (if k > 0 then real_of_int (k - 1) * binsizez
                  else if k = 0 then 0 else real_of_int (k + 1) * binsizez)
      in delx * delx + dely * dely + delz * delz)"

text \<open>
  A row of five bins of edge length 1 for one atom type with squared cutoff 2; the stencil
  reaches two bins to either side along the first axis.
\<close>

definition stencil_example :: NStencil where
  "stencil_example =
     \<lparr>sx = 2, sy = 0, sz = 0, mbinx = 5, mbiny = 1, ntypes = 1, cuttypesq = (\<lambda>t. 2),
      stencil_multi_old = (\<lambda>t m. 0), distsq_multi_old = (\<lambda>t m. 0),
      nstencil_multi_old = (\<lambda>t. 0)\<rparr>"

section \<open>Pair style smatb: restart file\<close>

text \<open>
  One call \<open>fwrite(&v, sizeof(int), 1, fp)\<close> or \<open>fwrite(&v, sizeof(double), 1, fp)\<close> writes
  one item; the file is the list of the items written so far. The bytes inside an item
  are not represented, only their number: \<open>sizeof(int)\<close> is 4 and \<open>sizeof(double)\<close> is 8 on
  the platforms the program is built for.
\<close>

datatype item = Int_item int | Double_item real

definition sizeof_int :: nat where
  "sizeof_int = 4"

definition sizeof_double :: nat where
  "sizeof_double = 8"

fun item_bytes :: "item \<Rightarrow> nat" where
  "item_bytes (Int_item v) = sizeof_int"
| "item_bytes (Double_item v) = sizeof_double"

definition fwrite_int :: "int \<Rightarrow> item list \<Rightarrow> item list" where
  "fwrite_int v fp = fp @ [Int_item v]"

definition fwrite_double :: "real \<Rightarrow> item list \<Rightarrow> item list" where
  "fwrite_double v fp = fp @ [Double_item v]"

text \<open>
  \<open>fread\<close> of one \<open>int\<close> or one \<open>double\<close> from the rest of the file. The source stores the
  return value in \<open>result\<close> and never tests it; a read past the end of the file or of an
  item of the other kind is outside this model and gives \<open>None\<close>.
\<close>

fun fread_int :: "item list \<Rightarrow> (int \<times> item list) option" where
  "fread_int (Int_item v # fp) = Some (v, fp)"
| "fread_int fp = None"

fun fread_double :: "item list \<Rightarrow> (real \<times> item list) option" where
  "fread_double (Double_item v # fp) = Some (v, fp)"
| "fread_double fp = None"

text \<open>The three flags of the base class \<open>Pair\<close> that go into the restart file.\<close>

record restart_settings =
  offset_flag :: int
  mix_flag :: int
  tail_flag :: int

definition write_restart_settings :: "restart_settings \<Rightarrow> item list \<Rightarrow> item list" where
  "write_restart_settings fl fp =
     fwrite_int (tail_flag fl) (fwrite_int (mix_flag fl) (fwrite_int (offset_flag fl) fp))"

text \<open>The body of the two loops of \<open>PairSMATB::write_restart\<close>.\<close>

definition write_restart_pair :: "PairSMATB \<Rightarrow> nat \<Rightarrow> nat \<Rightarrow> item list \<Rightarrow> item list" where
  "write_restart_pair c i j fp =
     (let fp = fwrite_int (PairSMATB.setflag c i j) fp
      in if PairSMATB.setflag c i j \<noteq> 0 then
           let fp = fwrite_double (r0 c i j) fp;
               fp = fwrite_double (p c i j) fp;
               fp = fwrite_double (q c i j) fp;
               fp = fwrite_double (A c i j) fp;
               fp = fwrite_double (QSI c i j) fp;
               fp = fwrite_double (cutOffStart c i j) fp
           in fwrite_double (cutOffEnd c i j) fp
         else fp)"

text \<open>\<open>PairSMATB::write_restart(FILE *fp)\<close>; \<open>n\<close> is \<open>atom->ntypes\<close>.\<close>

definition write_restart :: "nat \<Rightarrow> restart_settings \<Rightarrow> PairSMATB \<Rightarrow> item list \<Rightarrow> item list" where
  "write_restart n fl c fp =
     fold (\<lambda>i. fold (\<lambda>j. write_restart_pair c i j) [i..<n + 1]) [1..<n + 1]
       (write_restart_settings fl fp)"

text \<open>
  The reading side on the one process of rank 0: \<open>MPI_Bcast\<close> from rank 0 to itself
  changes nothing.
\<close>

definition read_restart_settings :: "item list \<Rightarrow> (restart_settings \<times> item list) option" where
  "read_restart_settings fp =
     (case fread_int fp of None \<Rightarrow> None
      | Some (v1, fp) \<Rightarrow>
     (case fread_int fp of None \<Rightarrow> None
      | Some (v2, fp) \<Rightarrow>
     (case fread_int fp of None \<Rightarrow> None
      | Some (v3, fp) \<Rightarrow> Some (\<lparr>offset_flag = v1, mix_flag = v2, tail_flag = v3\<rparr>, fp))))"

text \<open>The body of the two loops of \<open>PairSMATB::read_restart\<close>.\<close>

definition read_restart_pair ::
  "nat \<Rightarrow> nat \<Rightarrow> PairSMATB \<times> item list \<Rightarrow> (PairSMATB \<times> item list) option" where
  "read_restart_pair i j = (\<lambda>(c, fp).
     case fread_int fp of None \<Rightarrow> None
     | Some (v, fp) \<Rightarrow>
       let c = c\<lparr>PairSMATB.setflag := upd2 (PairSMATB.setflag c) i j v\<rparr>
       in if PairSMATB.setflag c i j \<noteq> 0 then
            (case fread_double fp of None \<Rightarrow> None | Some (v1, fp) \<Rightarrow>
            (case fread_double fp of None \<Rightarrow> None | Some (v2, fp) \<Rightarrow>
            (case fread_double fp of None \<Rightarrow> None | Some (v3, fp) \<Rightarrow>
            (case fread_double fp of None \<Rightarrow> None | Some (v4, fp) \<Rightarrow>
            (case fread_double fp of None \<Rightarrow> None | Some (v5, fp) \<Rightarrow>
            (case fread_double fp of None \<Rightarrow> None | Some (v6, fp) \<Rightarrow>
            (case fread_double fp of None \<Rightarrow> None | Some (v7, fp) \<Rightarrow>
               Some (c\<lparr>r0 := upd2 (r0 c) i j v1, p := upd2 (p c) i j v2,
                       q := upd2 (q c) i j v3, A := upd2 (A c) i j v4,
                       QSI := upd2 (QSI c) i j v5,
                       cutOffStart := upd2 (cutOffStart c) i j v6,
                       cutOffEnd := upd2 (cutOffEnd c) i j v7\<rparr>, fp))))))))
          else Some (c, fp))"

text \<open>
  \<open>PairSMATB::read_restart(FILE *fp)\<close>; \<open>c\<close> stands for the memory that \<open>allocate\<close> obtains.
\<close>

definition read_restart ::
  "nat \<Rightarrow> PairSMATB \<Rightarrow> item list \<Rightarrow> (restart_settings \<times> PairSMATB \<times> item list) option" where
  "read_restart n c fp =
     (case read_restart_settings fp of None \<Rightarrow> None
      | Some (fl, fp) \<Rightarrow>
        (case fold_option (\<lambda>i. fold_option (\<lambda>j. read_restart_pair i j) [i..<n + 1]) [1..<n + 1]
                (allocate n c, fp) of
           None \<Rightarrow> None
         | Some (c, fp) \<Rightarrow> Some (fl, c, fp)))"

text \<open>
  The layout of the file as the specification describes it: the pairs \<open>(i, j)\<close> with
  \<open>1 \<le> i \<le> j \<le> n\<close> in increasing order, and for each pair the flag followed, if it is
  set, by the seven parameters.
\<close>

definition upper_pairs :: "nat \<Rightarrow> (nat \<times> nat) list" where
  "upper_pairs n = concat (map (\<lambda>i. map (\<lambda>j. (i, j)) [i..<n + 1]) [1..<n + 1])"

definition pair_block :: "PairSMATB \<Rightarrow> nat \<times> nat \<Rightarrow> item list" where
  "pair_block c = (\<lambda>(i, j).
     Int_item (PairSMATB.setflag c i j) #
       (if PairSMATB.setflag c i j \<noteq> 0
        then map Double_item [r0 c i j, p c i j, q c i j, A c i j, QSI c i j,
                              cutOffStart c i j, cutOffEnd c i j]
        else []))"

text \<open>
  The tables \<open>c'\<close> hold what the file of \<open>c\<close> says about the pair \<open>(i, j)\<close>: the flag and, if
  it is set, the seven parameters.
\<close>

definition restored :: "PairSMATB \<Rightarrow> PairSMATB \<Rightarrow> nat \<Rightarrow> nat \<Rightarrow> bool" where
  "restored c c' i j =
     (PairSMATB.setflag c' i j = PairSMATB.setflag c i j
      \<and> (PairSMATB.setflag c i j = 0
          \<or> r0 c' i j = r0 c i j \<and> p c' i j = p c i j \<and> q c' i j = q c i j
            \<and> A c' i j = A c i j \<and> QSI c' i j = QSI c i j
            \<and> cutOffStart c' i j = cutOffStart c i j \<and> cutOffEnd c' i j = cutOffEnd c i j))"

text \<open>What reading the block of the pair \<open>(i, j)\<close> of \<open>c\<close> does to the tables \<open>c'\<close>.\<close>

definition load_pair :: "PairSMATB \<Rightarrow> nat \<times> nat \<Rightarrow> PairSMATB \<Rightarrow> PairSMATB" where
  "load_pair c = (\<lambda>(i, j) c'.
     let c' = c'\<lparr>PairSMATB.setflag := upd2 (PairSMATB.setflag c') i j (PairSMATB.setflag c i j)\<rparr>
     in if PairSMATB.setflag c i j \<noteq> 0 then
          c'\<lparr>r0 := upd2 (r0 c') i j (r0 c i j), p := upd2 (p c') i j (p c i j),
             q := upd2 (q c') i j (q c i j), A := upd2 (A c') i j (A c i j),
             QSI := upd2 (QSI c') i j (QSI c i j),
             cutOffStart := upd2 (cutOffStart c') i j (cutOffStart c i j),
             cutOffEnd := upd2 (cutOffEnd c') i j (cutOffEnd c i j)\<rparr>
        else c')"

text \<open>The flags of a pair style that has been given no \<open>pair_modify\<close> command.\<close>

definition settings_example :: restart_settings where
  "settings_example = \<lparr>offset_flag = 0, mix_flag = 0, tail_flag = 0\<rparr>"

section \<open>Theorems\<close>

subsection \<open>Settings\<close>

text \<open>
  C9. Both \<open>settings\<close> functions end in the fatal error exactly when \<open>narg\<close> is positive,
  and for \<open>narg = 0\<close> they return with the state they were given.
\<close>

theorem settings_error_iff_narg_positive:
  "isl (PairSMATB_settings narg st) = (0 < narg)
   \<and> isl (CPairPOD_settings narg st') = (0 < narg)
   \<and> PairSMATB_settings 0 st = Inr st
   \<and> CPairPOD_settings 0 st' = Inr st'"
  by (simp add: PairSMATB_settings_def CPairPOD_settings_def)

subsection \<open>Tsuji damping\<close>

lemma powint_numeral: "powint t (numeral k) = t ^ numeral k"
  by (simp add: powint_def)

text \<open>
  C10. For every value \<open>t\<close> of the normal model's damping, both implementations leave the
  same number in \<open>damp\<close>, and that number is the sixth-degree polynomial of the
  specification.
\<close>

theorem tsuji_damping_same_polynomial:
  "GranSubModDampingTsuji_init t = DampingTsuji_coeffs_to_local t
   \<and> GranSubModDampingTsuji_init t = tsuji_polynomial t
   \<and> DampingTsuji_coeffs_to_local t = tsuji_polynomial t"
  by (simp add: GranSubModDampingTsuji_init_def DampingTsuji_coeffs_to_local_def
      tsuji_polynomial_def square_def cube_def powint_numeral Let_def power2_eq_square
      power3_eq_cube)

subsection \<open>Switching polynomials of smatb\<close>


lemma upd2_apply: "upd2 t i j v a b = (if a = i \<and> b = j then v else t a b)"
  by (simp add: upd2_def)

lemma quintic_match:
  fixes E k r es :: real
  assumes "es \<noteq> 0"
    and "ap = - 1 / (es * es * es)" and "bp = k / (r * (es * es))"
    and "cp = - (k * k) / (es * r * r)"
    and "c5 = E * (12 * ap + 6 * bp + cp) / (2 * (es * es))"
    and "c4 = E * (15 * ap + 7 * bp + cp) / es"
    and "c3 = E * (20 * ap + 8 * bp + cp) / 2"
    and "pv = - es"
  shows "c5 * (pv * pv * pv * pv * pv) + c4 * (pv * pv * pv * pv) + c3 * (pv * pv * pv) = E"
    and "5 * c5 * (pv * pv * pv * pv) + 4 * c4 * (pv * pv * pv) + 3 * c3 * (pv * pv) = - E * (k / r)"
    and "20 * c5 * (pv * pv * pv) + 12 * c4 * (pv * pv) + 6 * c3 * pv = E * (k / r) * (k / r)"
proof -
  show "c5 * (pv * pv * pv * pv * pv) + c4 * (pv * pv * pv * pv) + c3 * (pv * pv * pv) = E"
    using assms(1) by (cases "r = 0") (simp_all add: assms(2-8) field_simps)
  show "5 * c5 * (pv * pv * pv * pv) + 4 * c4 * (pv * pv * pv) + 3 * c3 * (pv * pv) = - E * (k / r)"
    using assms(1) by (cases "r = 0") (simp_all add: assms(2-8) field_simps)
  show "20 * c5 * (pv * pv * pv) + 12 * c4 * (pv * pv) + 6 * c3 * pv = E * (k / r) * (k / r)"
    using assms(1) by (cases "r = 0") (simp_all add: assms(2-8) field_simps)
qed

lemma DERIV_aexpp_poly: "DERIV (aexpp_poly c i j) r :> - Fr_poly c i j r / 2"
  unfolding aexpp_poly_def Fr_poly_def Let_def
  by (auto intro!: derivative_eq_intros simp: algebra_simps)

lemma DERIV_aexpp_exp: "DERIV (aexpp_exp c i j) r :> - Fr_exp c i j r / 2"
  unfolding aexpp_exp_def Fr_exp_def Let_def
  by (cases "r0 c i j = 0") (auto intro!: derivative_eq_intros simp: algebra_simps)

lemma DERIV_raw_exp:
  fixes a k d :: real
  shows "DERIV (\<lambda>r. a * exp (k * (1 - r / d))) r :> - (k / d) * (a * exp (k * (1 - r / d)))"
  by (cases "d = 0") (auto intro!: derivative_eq_intros simp: algebra_simps)

lemma DERIV_qsiexpq_poly:
  "DERIV (qsiexpq_poly c i j) r :> quartic (x5 c i j) (x4 c i j) (x3 c i j) (r - cutOffEnd c i j)"
  unfolding qsiexpq_poly_def quartic_def Let_def
  by (auto intro!: derivative_eq_intros simp: algebra_simps)

lemma Fr_poly_quartic:
  "Fr_poly c i j r = - 2 * quartic (a5 c i j) (a4 c i j) (a3 c i j) (r - cutOffEnd c i j)"
  by (simp add: Fr_poly_def quartic_def Let_def)

lemma Fb_poly_quartic:
  "Fb_poly c i j r = quartic (x5 c i j) (x4 c i j) (x3 c i j) (r - cutOffEnd c i j) * qsiexpq_poly c i j r"
  by (simp add: Fb_poly_def quartic_def Let_def)

lemma DERIV_quartic:
  "DERIV (\<lambda>r. quartic c5 c4 c3 (r - e)) r :> cubic c5 c4 c3 (r - e)"
  unfolding quartic_def cubic_def
  by (auto intro!: derivative_eq_intros simp: algebra_simps)

lemma DERIV_Fr_poly:
  "DERIV (Fr_poly c i j) r :> - 2 * cubic (a5 c i j) (a4 c i j) (a3 c i j) (r - cutOffEnd c i j)"
proof -
  have "DERIV (\<lambda>r. - 2 * quartic (a5 c i j) (a4 c i j) (a3 c i j) (r - cutOffEnd c i j)) r
          :> - 2 * cubic (a5 c i j) (a4 c i j) (a3 c i j) (r - cutOffEnd c i j)"
    by (rule DERIV_cmult) (rule DERIV_quartic)
  then show ?thesis by (simp add: Fr_poly_quartic [abs_def])
qed

lemma DERIV_Fb_poly:
  "DERIV (Fb_poly c i j) r :>
     cubic (x5 c i j) (x4 c i j) (x3 c i j) (r - cutOffEnd c i j) * qsiexpq_poly c i j r
     + quartic (x5 c i j) (x4 c i j) (x3 c i j) (r - cutOffEnd c i j)
       * quartic (x5 c i j) (x4 c i j) (x3 c i j) (r - cutOffEnd c i j)"
proof -
  have "DERIV (\<lambda>r. quartic (x5 c i j) (x4 c i j) (x3 c i j) (r - cutOffEnd c i j) * qsiexpq_poly c i j r) r
     :> cubic (x5 c i j) (x4 c i j) (x3 c i j) (r - cutOffEnd c i j) * qsiexpq_poly c i j r
     + quartic (x5 c i j) (x4 c i j) (x3 c i j) (r - cutOffEnd c i j)
       * quartic (x5 c i j) (x4 c i j) (x3 c i j) (r - cutOffEnd c i j)"
    by (rule DERIV_mult' [OF DERIV_quartic DERIV_qsiexpq_poly, THEN DERIV_cong]) (simp add: algebra_simps)
  then show ?thesis by (simp add: Fb_poly_quartic [abs_def])
qed

lemma DERIV_Fr_exp:
  "DERIV (Fr_exp c i j) r :> - (p c i j / r0 c i j) * Fr_exp c i j r"
  unfolding aexpp_exp_def Fr_exp_def Let_def
  by (cases "r0 c i j = 0") (auto intro!: derivative_eq_intros simp: algebra_simps)

lemma DERIV_qsiexpq_exp:
  "DERIV (qsiexpq_exp c i j) r :> - (2 * q c i j / r0 c i j) * qsiexpq_exp c i j r"
  unfolding qsiexpq_exp_def
  by (cases "r0 c i j = 0") (auto intro!: derivative_eq_intros simp: algebra_simps)

lemma DERIV_Fb_exp:
  "DERIV (Fb_exp c i j) r :> 2 * (q c i j / r0 c i j) * (q c i j / r0 c i j) * qsiexpq_exp c i j r"
  unfolding Fb_exp_def qsiexpq_exp_def
  by (cases "r0 c i j = 0") (auto intro!: derivative_eq_intros simp: algebra_simps)


lemma init_one_poly_same:
  "r0 (init_one_poly c i j) = r0 c" "p (init_one_poly c i j) = p c"
  "A (init_one_poly c i j) = A c" "q (init_one_poly c i j) = q c"
  "QSI (init_one_poly c i j) = QSI c" "cutOffStart (init_one_poly c i j) = cutOffStart c"
  "cutOffEnd (init_one_poly c i j) = cutOffEnd c"
  "PairSMATB.setflag (init_one_poly c i j) = PairSMATB.setflag c"
  by (simp_all add: init_one_poly_def Let_def)

lemma init_one_mirror_entry:
  assumes "i \<noteq> j"
  shows "r0 (init_one_mirror c i j) i j = r0 c i j" "p (init_one_mirror c i j) i j = p c i j"
    "A (init_one_mirror c i j) i j = A c i j" "q (init_one_mirror c i j) i j = q c i j"
    "QSI (init_one_mirror c i j) i j = QSI c i j"
    "cutOffStart (init_one_mirror c i j) i j = cutOffStart c i j"
    "cutOffEnd (init_one_mirror c i j) i j = cutOffEnd c i j"
    "cutOffEnd2 (init_one_mirror c i j) i j = cutOffEnd2 c i j"
    "a3 (init_one_mirror c i j) i j = a3 c i j" "a4 (init_one_mirror c i j) i j = a4 c i j"
    "a5 (init_one_mirror c i j) i j = a5 c i j" "x3 (init_one_mirror c i j) i j = x3 c i j"
    "x4 (init_one_mirror c i j) i j = x4 c i j" "x5 (init_one_mirror c i j) i j = x5 c i j"
  using assms by (simp_all add: init_one_mirror_def upd2_apply)

lemma init_one_mirror_sym:
  "r0 (init_one_mirror c i j) j i = r0 c i j" "p (init_one_mirror c i j) j i = p c i j"
    "A (init_one_mirror c i j) j i = A c i j" "q (init_one_mirror c i j) j i = q c i j"
    "QSI (init_one_mirror c i j) j i = QSI c i j"
    "cutOffStart (init_one_mirror c i j) j i = cutOffStart c i j"
    "cutOffEnd (init_one_mirror c i j) j i = cutOffEnd c i j"
    "cutOffEnd2 (init_one_mirror c i j) j i = cutOffEnd2 c i j"
    "a3 (init_one_mirror c i j) j i = a3 c i j" "a4 (init_one_mirror c i j) j i = a4 c i j"
    "a5 (init_one_mirror c i j) j i = a5 c i j" "x3 (init_one_mirror c i j) j i = x3 c i j"
    "x4 (init_one_mirror c i j) j i = x4 c i j" "x5 (init_one_mirror c i j) j i = x5 c i j"
    "PairSMATB.setflag (init_one_mirror c i j) j i = 1"
  by (simp_all add: init_one_mirror_def upd2_apply)

lemma init_one_configured:
  assumes "PairSMATB.setflag c i j \<noteq> 0"
  shows "init_one c i j = Inr (cutOffEnd c i j, init_one_state c i j)"
  using assms
  by (simp add: init_one_def Let_def init_one_state_def init_one_mirror_entry init_one_poly_same)

lemma init_one_state_entry:
  "r0 (init_one_state c i j) i j = r0 c i j" "p (init_one_state c i j) i j = p c i j"
  "A (init_one_state c i j) i j = A c i j" "q (init_one_state c i j) i j = q c i j"
  "QSI (init_one_state c i j) i j = QSI c i j"
  "cutOffStart (init_one_state c i j) i j = cutOffStart c i j"
  "cutOffEnd (init_one_state c i j) i j = cutOffEnd c i j"
  "a3 (init_one_state c i j) i j = a3 (init_one_poly c i j) i j"
  "a4 (init_one_state c i j) i j = a4 (init_one_poly c i j) i j"
  "a5 (init_one_state c i j) i j = a5 (init_one_poly c i j) i j"
  "x3 (init_one_state c i j) i j = x3 (init_one_poly c i j) i j"
  "x4 (init_one_state c i j) i j = x4 (init_one_poly c i j) i j"
  "x5 (init_one_state c i j) i j = x5 (init_one_poly c i j) i j"
  "cutOffEnd2 (init_one_state c i j) i j = cutOffEnd c i j * cutOffEnd c i j"
  by (simp_all add: init_one_state_def init_one_mirror_entry init_one_poly_same)
     (simp add: init_one_poly_def Let_def upd2_apply)

lemma init_one_state_sym:
  "r0 (init_one_state c i j) j i = r0 (init_one_state c i j) i j"
  "p (init_one_state c i j) j i = p (init_one_state c i j) i j"
  "A (init_one_state c i j) j i = A (init_one_state c i j) i j"
  "q (init_one_state c i j) j i = q (init_one_state c i j) i j"
  "QSI (init_one_state c i j) j i = QSI (init_one_state c i j) i j"
  "cutOffStart (init_one_state c i j) j i = cutOffStart (init_one_state c i j) i j"
  "cutOffEnd (init_one_state c i j) j i = cutOffEnd (init_one_state c i j) i j"
  "cutOffEnd2 (init_one_state c i j) j i = cutOffEnd2 (init_one_state c i j) i j"
  "a3 (init_one_state c i j) j i = a3 (init_one_state c i j) i j"
  "a4 (init_one_state c i j) j i = a4 (init_one_state c i j) i j"
  "a5 (init_one_state c i j) j i = a5 (init_one_state c i j) i j"
  "x3 (init_one_state c i j) j i = x3 (init_one_state c i j) i j"
  "x4 (init_one_state c i j) j i = x4 (init_one_state c i j) i j"
  "x5 (init_one_state c i j) j i = x5 (init_one_state c i j) i j"
  by (cases "i = j"; simp add: init_one_state_def init_one_mirror_entry init_one_mirror_sym)+

lemma init_one_state_setflag:
  "PairSMATB.setflag c i j \<noteq> 0 \<Longrightarrow> PairSMATB.setflag (init_one_state c i j) j i \<noteq> 0"
  by (cases "i = j") (simp_all add: init_one_state_def init_one_mirror_sym init_one_poly_same)


lemma init_one_state_start_a:
  assumes "cutOffStart c i j < cutOffEnd c i j"
  defines "c' \<equiv> init_one_state c i j"
  defines "E \<equiv> A c i j * exp (p c i j * (1 - cutOffStart c i j / r0 c i j))"
  defines "pv \<equiv> cutOffStart c i j - cutOffEnd c i j"
  shows "a5 c' i j * (pv * pv * pv * pv * pv) + a4 c' i j * (pv * pv * pv * pv)
           + a3 c' i j * (pv * pv * pv) = E"
    and "quartic (a5 c' i j) (a4 c' i j) (a3 c' i j) pv = - E * (p c i j / r0 c i j)"
    and "cubic (a5 c' i j) (a4 c' i j) (a3 c' i j) pv = E * (p c i j / r0 c i j) * (p c i j / r0 c i j)"
proof -
  let ?es = "cutOffEnd c i j - cutOffStart c i j"
  have es: "?es \<noteq> 0" using assms(1) by simp
  have c5: "a5 c' i j = E * (12 * (- 1 / (?es * ?es * ?es)) + 6 * (p c i j / (r0 c i j * (?es * ?es)))
              + - (p c i j * p c i j) / (?es * r0 c i j * r0 c i j)) / (2 * (?es * ?es))"
    and c4: "a4 c' i j = E * (15 * (- 1 / (?es * ?es * ?es)) + 7 * (p c i j / (r0 c i j * (?es * ?es)))
              + - (p c i j * p c i j) / (?es * r0 c i j * r0 c i j)) / ?es"
    and c3: "a3 c' i j = E * (20 * (- 1 / (?es * ?es * ?es)) + 8 * (p c i j / (r0 c i j * (?es * ?es)))
              + - (p c i j * p c i j) / (?es * r0 c i j * r0 c i j)) / 2"
    by (simp_all add: c'_def E_def init_one_state_entry init_one_poly_def Let_def upd2_apply)
  have pv: "pv = - ?es" by (simp add: pv_def)
  note m = quintic_match [OF es refl refl refl c5 c4 c3 pv]
  show "a5 c' i j * (pv * pv * pv * pv * pv) + a4 c' i j * (pv * pv * pv * pv)
           + a3 c' i j * (pv * pv * pv) = E"
    by (rule m(1))
  show "quartic (a5 c' i j) (a4 c' i j) (a3 c' i j) pv = - E * (p c i j / r0 c i j)"
    unfolding quartic_def by (rule m(2))
  show "cubic (a5 c' i j) (a4 c' i j) (a3 c' i j) pv = E * (p c i j / r0 c i j) * (p c i j / r0 c i j)"
    unfolding cubic_def by (rule m(3))
qed

lemma init_one_state_start_x:
  assumes "cutOffStart c i j < cutOffEnd c i j"
  defines "c' \<equiv> init_one_state c i j"
  defines "E \<equiv> QSI c i j * exp (q c i j * (1 - cutOffStart c i j / r0 c i j))"
  defines "pv \<equiv> cutOffStart c i j - cutOffEnd c i j"
  shows "x5 c' i j * (pv * pv * pv * pv * pv) + x4 c' i j * (pv * pv * pv * pv)
           + x3 c' i j * (pv * pv * pv) = E"
    and "quartic (x5 c' i j) (x4 c' i j) (x3 c' i j) pv = - E * (q c i j / r0 c i j)"
    and "cubic (x5 c' i j) (x4 c' i j) (x3 c' i j) pv = E * (q c i j / r0 c i j) * (q c i j / r0 c i j)"
proof -
  let ?es = "cutOffEnd c i j - cutOffStart c i j"
  have es: "?es \<noteq> 0" using assms(1) by simp
  have c5: "x5 c' i j = E * (12 * (- 1 / (?es * ?es * ?es)) + 6 * (q c i j / (r0 c i j * (?es * ?es)))
              + - (q c i j * q c i j) / (?es * r0 c i j * r0 c i j)) / (2 * (?es * ?es))"
    and c4: "x4 c' i j = E * (15 * (- 1 / (?es * ?es * ?es)) + 7 * (q c i j / (r0 c i j * (?es * ?es)))
              + - (q c i j * q c i j) / (?es * r0 c i j * r0 c i j)) / ?es"
    and c3: "x3 c' i j = E * (20 * (- 1 / (?es * ?es * ?es)) + 8 * (q c i j / (r0 c i j * (?es * ?es)))
              + - (q c i j * q c i j) / (?es * r0 c i j * r0 c i j)) / 2"
    by (simp_all add: c'_def E_def init_one_state_entry init_one_poly_def Let_def upd2_apply
        mult.commute)
  have pv: "pv = - ?es" by (simp add: pv_def)
  note m = quintic_match [OF es refl refl refl c5 c4 c3 pv]
  show "x5 c' i j * (pv * pv * pv * pv * pv) + x4 c' i j * (pv * pv * pv * pv)
           + x3 c' i j * (pv * pv * pv) = E"
    by (rule m(1))
  show "quartic (x5 c' i j) (x4 c' i j) (x3 c' i j) pv = - E * (q c i j / r0 c i j)"
    unfolding quartic_def by (rule m(2))
  show "cubic (x5 c' i j) (x4 c' i j) (x3 c' i j) pv = E * (q c i j / r0 c i j) * (q c i j / r0 c i j)"
    unfolding cubic_def by (rule m(3))
qed


lemma exp_twice:
  "(Q * Q) * exp (2 * k * w) = (Q * exp (k * w)) * (Q * exp (k * w))" for Q k w :: real
proof -
  have "2 * k * w = k * w + k * w" by simp
  then have "exp (2 * k * w) = exp (k * w) * exp (k * w)" by (simp only: exp_add)
  then show ?thesis by (simp only: mult_ac)
qed

lemma same_value_and_slopeI:
  "g r = h r \<Longrightarrow> DERIV g r :> D \<Longrightarrow> DERIV h r :> D' \<Longrightarrow> D = D' \<Longrightarrow> same_value_and_slope g h r"
  unfolding same_value_and_slope_def by blast

lemma quartic_cubic_zero [simp]: "quartic c5 c4 c3 0 = 0" "cubic c5 c4 c3 0 = 0"
  by (simp_all add: quartic_def cubic_def)

lemma poly_zero_at_end [simp]:
  "aexpp_poly c i j (cutOffEnd c i j) = 0" "qsiexpq_poly c i j (cutOffEnd c i j) = 0"
  "Fr_poly c i j (cutOffEnd c i j) = 0" "Fb_poly c i j (cutOffEnd c i j) = 0"
  by (simp_all add: aexpp_poly_def qsiexpq_poly_def Fr_poly_def Fb_poly_def Let_def)

lemma poly_flat_at_end:
  "same_value_and_slope (aexpp_poly c i j) (\<lambda>r. 0) (cutOffEnd c i j)"
  "same_value_and_slope (qsiexpq_poly c i j) (\<lambda>r. 0) (cutOffEnd c i j)"
  "same_value_and_slope (Fr_poly c i j) (\<lambda>r. 0) (cutOffEnd c i j)"
  "same_value_and_slope (Fb_poly c i j) (\<lambda>r. 0) (cutOffEnd c i j)"
  "same_value_and_slope (\<lambda>r. qsiexpq_poly c i j r * qsiexpq_poly c i j r) (\<lambda>r. 0) (cutOffEnd c i j)"
proof -
  show "same_value_and_slope (aexpp_poly c i j) (\<lambda>r. 0) (cutOffEnd c i j)"
    by (rule same_value_and_slopeI [OF _ DERIV_aexpp_poly DERIV_const]) simp_all
  show "same_value_and_slope (qsiexpq_poly c i j) (\<lambda>r. 0) (cutOffEnd c i j)"
    by (rule same_value_and_slopeI [OF _ DERIV_qsiexpq_poly DERIV_const]) simp_all
  show "same_value_and_slope (Fr_poly c i j) (\<lambda>r. 0) (cutOffEnd c i j)"
    by (rule same_value_and_slopeI [OF _ DERIV_Fr_poly DERIV_const]) simp_all
  show "same_value_and_slope (Fb_poly c i j) (\<lambda>r. 0) (cutOffEnd c i j)"
    by (rule same_value_and_slopeI [OF _ DERIV_Fb_poly DERIV_const]) simp_all
  show "same_value_and_slope (\<lambda>r. qsiexpq_poly c i j r * qsiexpq_poly c i j r) (\<lambda>r. 0)
          (cutOffEnd c i j)"
    by (rule same_value_and_slopeI
        [OF _ DERIV_mult' [OF DERIV_qsiexpq_poly DERIV_qsiexpq_poly] DERIV_const]) simp_all
qed

lemma poly_matches_at_start:
  assumes lt: "cutOffStart c i j < cutOffEnd c i j"
  defines "c' \<equiv> init_one_state c i j"
  shows "same_value_and_slope (aexpp_poly c' i j)
           (\<lambda>r. A c' i j * exp (p c' i j * (1 - r / r0 c' i j))) (cutOffStart c' i j)"
    and "same_value_and_slope (qsiexpq_poly c' i j)
           (\<lambda>r. QSI c' i j * exp (q c' i j * (1 - r / r0 c' i j))) (cutOffStart c' i j)"
    and "same_value_and_slope (Fr_poly c' i j) (Fr_exp c' i j) (cutOffStart c' i j)"
    and "same_value_and_slope (Fb_poly c' i j) (Fb_exp c' i j) (cutOffStart c' i j)"
    and "same_value_and_slope (\<lambda>r. qsiexpq_poly c' i j r * qsiexpq_poly c' i j r)
           (qsiexpq_exp c' i j) (cutOffStart c' i j)"
proof -
  note e = init_one_state_entry(1-7) [of c i j, folded c'_def]
  note ma = init_one_state_start_a [OF lt, folded c'_def]
  note mx = init_one_state_start_x [OF lt, folded c'_def]
  define Ea where "Ea = A c i j * exp (p c i j * (1 - cutOffStart c i j / r0 c i j))"
  define Ex where "Ex = QSI c i j * exp (q c i j * (1 - cutOffStart c i j / r0 c i j))"
  define ka where "ka = p c i j / r0 c i j"
  define kx where "kx = q c i j / r0 c i j"
  define s where "s = cutOffStart c i j"
  note ma' = ma [folded Ea_def ka_def s_def]
  note mx' = mx [folded Ex_def kx_def s_def]
  have va: "aexpp_poly c' i j s = Ea"
    unfolding aexpp_poly_def Let_def e s_def Ea_def by (rule ma(1))
  have vx: "qsiexpq_poly c' i j s = Ex"
    unfolding qsiexpq_poly_def Let_def e s_def Ex_def by (rule mx(1))
  have qa: "quartic (a5 c' i j) (a4 c' i j) (a3 c' i j) (s - cutOffEnd c' i j) = - Ea * ka"
    unfolding e s_def Ea_def ka_def by (rule ma(2))
  have qx: "quartic (x5 c' i j) (x4 c' i j) (x3 c' i j) (s - cutOffEnd c' i j) = - Ex * kx"
    unfolding e s_def Ex_def kx_def by (rule mx(2))
  have ca: "cubic (a5 c' i j) (a4 c' i j) (a3 c' i j) (s - cutOffEnd c' i j) = Ea * ka * ka"
    unfolding e s_def Ea_def ka_def by (rule ma(3))
  have cx: "cubic (x5 c' i j) (x4 c' i j) (x3 c' i j) (s - cutOffEnd c' i j) = Ex * kx * kx"
    unfolding e s_def Ex_def kx_def by (rule mx(3))
  have fr: "Fr_poly c' i j s = 2 * Ea * ka"
    unfolding Fr_poly_quartic qa by simp
  have fb: "Fb_poly c' i j s = - Ex * kx * Ex"
    unfolding Fb_poly_quartic qx vx by simp
  have fre: "Fr_exp c' i j s = 2 * Ea * ka"
    unfolding Fr_exp_def aexpp_exp_def Let_def e s_def Ea_def ka_def by simp
  have qe: "qsiexpq_exp c' i j s = Ex * Ex"
    unfolding qsiexpq_exp_def e s_def Ex_def by (rule exp_twice)
  have fbe: "Fb_exp c' i j s = - Ex * kx * Ex"
    unfolding Fb_exp_def qe kx_def e by simp
  have raw_a: "A c' i j * exp (p c' i j * (1 - s / r0 c' i j)) = Ea"
    unfolding e s_def Ea_def by (rule refl)
  have raw_x: "QSI c' i j * exp (q c' i j * (1 - s / r0 c' i j)) = Ex"
    unfolding e s_def Ex_def by (rule refl)
  have k: "p c' i j / r0 c' i j = ka" "q c' i j / r0 c' i j = kx"
    unfolding e ka_def kx_def by (rule refl)+
  have s: "cutOffStart c' i j = s"
    unfolding e s_def by (rule refl)
  show "same_value_and_slope (aexpp_poly c' i j)
           (\<lambda>r. A c' i j * exp (p c' i j * (1 - r / r0 c' i j))) (cutOffStart c' i j)"
    unfolding s
  proof (rule same_value_and_slopeI [OF _ DERIV_aexpp_poly DERIV_raw_exp])
    show "aexpp_poly c' i j s = A c' i j * exp (p c' i j * (1 - s / r0 c' i j))"
      unfolding raw_a by (rule va)
    show "- Fr_poly c' i j s / 2 = - (p c' i j / r0 c' i j) * (A c' i j * exp (p c' i j * (1 - s / r0 c' i j)))"
      unfolding raw_a k fr by simp
  qed
  show "same_value_and_slope (qsiexpq_poly c' i j)
           (\<lambda>r. QSI c' i j * exp (q c' i j * (1 - r / r0 c' i j))) (cutOffStart c' i j)"
    unfolding s
  proof (rule same_value_and_slopeI [OF _ DERIV_qsiexpq_poly DERIV_raw_exp])
    show "qsiexpq_poly c' i j s = QSI c' i j * exp (q c' i j * (1 - s / r0 c' i j))"
      unfolding raw_x by (rule vx)
    show "quartic (x5 c' i j) (x4 c' i j) (x3 c' i j) (s - cutOffEnd c' i j)
            = - (q c' i j / r0 c' i j) * (QSI c' i j * exp (q c' i j * (1 - s / r0 c' i j)))"
      unfolding raw_x k qx by simp
  qed
  show "same_value_and_slope (Fr_poly c' i j) (Fr_exp c' i j) (cutOffStart c' i j)"
    unfolding s
  proof (rule same_value_and_slopeI [OF _ DERIV_Fr_poly DERIV_Fr_exp])
    show "Fr_poly c' i j s = Fr_exp c' i j s"
      unfolding fr fre by (rule refl)
    show "- 2 * cubic (a5 c' i j) (a4 c' i j) (a3 c' i j) (s - cutOffEnd c' i j)
            = - (p c' i j / r0 c' i j) * Fr_exp c' i j s"
      unfolding ca fre k by simp
  qed
  show "same_value_and_slope (Fb_poly c' i j) (Fb_exp c' i j) (cutOffStart c' i j)"
    unfolding s
  proof (rule same_value_and_slopeI [OF _ DERIV_Fb_poly DERIV_Fb_exp])
    show "Fb_poly c' i j s = Fb_exp c' i j s"
      unfolding fb fbe by (rule refl)
    show "cubic (x5 c' i j) (x4 c' i j) (x3 c' i j) (s - cutOffEnd c' i j) * qsiexpq_poly c' i j s
            + quartic (x5 c' i j) (x4 c' i j) (x3 c' i j) (s - cutOffEnd c' i j)
              * quartic (x5 c' i j) (x4 c' i j) (x3 c' i j) (s - cutOffEnd c' i j)
          = 2 * (q c' i j / r0 c' i j) * (q c' i j / r0 c' i j) * qsiexpq_exp c' i j s"
      unfolding cx qx vx qe k by simp
  qed
  show "same_value_and_slope (\<lambda>r. qsiexpq_poly c' i j r * qsiexpq_poly c' i j r)
           (qsiexpq_exp c' i j) (cutOffStart c' i j)"
    unfolding s
  proof (rule same_value_and_slopeI
          [OF _ DERIV_mult' [OF DERIV_qsiexpq_poly DERIV_qsiexpq_poly] DERIV_qsiexpq_exp])
    show "qsiexpq_poly c' i j s * qsiexpq_poly c' i j s = qsiexpq_exp c' i j s"
      unfolding vx qe by (rule refl)
    show "qsiexpq_poly c' i j s * quartic (x5 c' i j) (x4 c' i j) (x3 c' i j) (s - cutOffEnd c' i j)
            + quartic (x5 c' i j) (x4 c' i j) (x3 c' i j) (s - cutOffEnd c' i j) * qsiexpq_poly c' i j s
          = - (2 * q c' i j / r0 c' i j) * qsiexpq_exp c' i j s"
    proof -
      have "2 * q c' i j / r0 c' i j = 2 * kx"
        unfolding k(2) [symmetric] by simp
      then show ?thesis
        unfolding qx vx qe by simp
    qed
  qed
qed


text \<open>
  C2. For a configured pair \<open>(i, j)\<close> with \<open>cutOffStart < cutOffEnd\<close>, \<open>init_one\<close> returns, and
  with the coefficients it has stored: at \<open>r = cutOffStart\<close> the polynomial in \<open>a3, a4, a5\<close>
  has the value and the first derivative of \<open>A * exp (p * (1 - r / r0))\<close>, and the
  polynomial in \<open>x3, x4, x5\<close> those of \<open>QSI * exp (q * (1 - r / r0))\<close>; at \<open>r = cutOffEnd\<close>
  both polynomials and their first derivatives are zero. The force terms \<open>Fr\<close> and \<open>Fb\<close> and
  the squared bonding term of the first loop, each as \<open>compute\<close> evaluates it in its
  polynomial branch, agree in value and first derivative with the exponential branch at
  \<open>cutOffStart\<close> and with zero at \<open>cutOffEnd\<close>. Distances and parameters are real numbers.
\<close>

theorem switching_polynomials_match_boundaries:
  assumes "PairSMATB.setflag c i j \<noteq> 0" and "cutOffStart c i j < cutOffEnd c i j"
  shows "\<exists>rc c'. init_one c i j = Inr (rc, c')
     \<and> same_value_and_slope (aexpp_poly c' i j)
           (\<lambda>r. A c' i j * exp (p c' i j * (1 - r / r0 c' i j))) (cutOffStart c' i j)
     \<and> same_value_and_slope (qsiexpq_poly c' i j)
           (\<lambda>r. QSI c' i j * exp (q c' i j * (1 - r / r0 c' i j))) (cutOffStart c' i j)
     \<and> same_value_and_slope (aexpp_poly c' i j) (\<lambda>r. 0) (cutOffEnd c' i j)
     \<and> same_value_and_slope (qsiexpq_poly c' i j) (\<lambda>r. 0) (cutOffEnd c' i j)
     \<and> same_value_and_slope (Fr_poly c' i j) (Fr_exp c' i j) (cutOffStart c' i j)
     \<and> same_value_and_slope (Fb_poly c' i j) (Fb_exp c' i j) (cutOffStart c' i j)
     \<and> same_value_and_slope (\<lambda>r. qsiexpq_poly c' i j r * qsiexpq_poly c' i j r)
           (qsiexpq_exp c' i j) (cutOffStart c' i j)
     \<and> same_value_and_slope (Fr_poly c' i j) (\<lambda>r. 0) (cutOffEnd c' i j)
     \<and> same_value_and_slope (Fb_poly c' i j) (\<lambda>r. 0) (cutOffEnd c' i j)
     \<and> same_value_and_slope (\<lambda>r. qsiexpq_poly c' i j r * qsiexpq_poly c' i j r) (\<lambda>r. 0)
           (cutOffEnd c' i j)"
  using init_one_configured [OF assms(1)] poly_matches_at_start [OF assms(2)]
    poly_flat_at_end [of "init_one_state c i j" i j]
  by blast

theorem switching_polynomials_match_boundaries_witness:
  "PairSMATB.setflag smatb_example 1 2 \<noteq> 0
   \<and> cutOffStart smatb_example 1 2 < cutOffEnd smatb_example 1 2
   \<and> (\<exists>rc c'. init_one smatb_example 1 2 = Inr (rc, c')
     \<and> same_value_and_slope (aexpp_poly c' 1 2)
           (\<lambda>r. A c' 1 2 * exp (p c' 1 2 * (1 - r / r0 c' 1 2))) (cutOffStart c' 1 2)
     \<and> same_value_and_slope (qsiexpq_poly c' 1 2)
           (\<lambda>r. QSI c' 1 2 * exp (q c' 1 2 * (1 - r / r0 c' 1 2))) (cutOffStart c' 1 2)
     \<and> same_value_and_slope (aexpp_poly c' 1 2) (\<lambda>r. 0) (cutOffEnd c' 1 2)
     \<and> same_value_and_slope (qsiexpq_poly c' 1 2) (\<lambda>r. 0) (cutOffEnd c' 1 2))"
proof -
  have h1: "PairSMATB.setflag smatb_example 1 2 \<noteq> 0"
    by (simp add: smatb_example_def)
  have h2: "cutOffStart smatb_example 1 2 < cutOffEnd smatb_example 1 2"
    by (simp add: smatb_example_def)
  show ?thesis
    using h1 h2 switching_polynomials_match_boundaries [OF h1 h2] by blast
qed

subsection \<open>Symmetry of \<open>init_one\<close>\<close>


lemma init_one_state_symmetric: "tables_symmetric (init_one_state c i j) i j"
  unfolding tables_symmetric_def by (intro conjI init_one_state_sym)

lemma CPairPOD_init_one_configured:
  "CPairPOD.setflag s i j \<noteq> 0 \<Longrightarrow>
     CPairPOD_init_one s i j = Inr (rcut s, s\<lparr>scale := upd2 (scale s) j i (scale s i j)\<rparr>)"
  by (simp add: CPairPOD_init_one_def Let_def)

lemma CPairPOD_init_one_unset:
  "CPairPOD.setflag s i j = 0 \<Longrightarrow>
     CPairPOD_init_one s i j = Inl (Error_all ''All pair coeffs are not set'')"
  by (simp add: CPairPOD_init_one_def)

lemma init_one_unset:
  "PairSMATB.setflag c i j = 0 \<Longrightarrow> init_one c i j = Inl (Error_all ''All pair coeffs are not set'')"
  by (simp add: init_one_def)

lemma coeff_smatb_line: "coeff 2 False 9 smatb_line smatb_blank = Inr smatb_coeffs"
  by (simp add: coeff_def allocate_def coeff_pair_def smatb_line_def smatb_blank_def
      smatb_coeffs_def set_above_def upd2_def upt_conv_Cons fun_eq_iff Let_def)

text \<open>
  C3, as stated, fails: \<open>coeff\<close> sets the flags of the pairs \<open>i \<le> j\<close> only. On the tables
  that the line \<open>pair_coeff * * 1 0 0 1 1 3 4\<close> gives for two atom types, \<open>init_one(1,2)\<close>
  returns the cutoff 4 and \<open>init_one(2,1)\<close> ends in \<open>error->all\<close>. For \<open>CPairPOD\<close> with the
  same flags, \<open>init_one(1,2)\<close> returns the cutoff 5 and leaves the state as it was, and
  \<open>init_one(2,1)\<close> ends in \<open>error->all\<close>, before \<open>init_one(1,2)\<close> as well as after it.
\<close>

theorem init_one_of_reversed_pair_fails:
  "coeff 2 False 9 smatb_line smatb_blank = Inr smatb_coeffs
   \<and> init_one smatb_coeffs 1 2 = Inr (4, init_one_state smatb_coeffs 1 2)
   \<and> init_one smatb_coeffs 2 1 = Inl (Error_all ''All pair coeffs are not set'')
   \<and> CPairPOD_init_one pod_example 1 2 = Inr (5, pod_example)
   \<and> CPairPOD_init_one pod_example 2 1 = Inl (Error_all ''All pair coeffs are not set'')"
proof (intro conjI)
  show "coeff 2 False 9 smatb_line smatb_blank = Inr smatb_coeffs"
    by (rule coeff_smatb_line)
  have "PairSMATB.setflag smatb_coeffs 1 2 \<noteq> 0"
    by (simp add: smatb_coeffs_def set_above_def)
  from init_one_configured [OF this]
  show "init_one smatb_coeffs 1 2 = Inr (4, init_one_state smatb_coeffs 1 2)"
    by (simp add: smatb_coeffs_def set_above_def)
  show "init_one smatb_coeffs 2 1 = Inl (Error_all ''All pair coeffs are not set'')"
    by (rule init_one_unset) (simp add: smatb_coeffs_def set_above_def)
  show "CPairPOD_init_one pod_example 2 1 = Inl (Error_all ''All pair coeffs are not set'')"
    by (rule CPairPOD_init_one_unset) (simp add: pod_example_def set_above_def)
  have "CPairPOD.setflag pod_example 1 2 \<noteq> 0"
    by (simp add: pod_example_def set_above_def)
  from CPairPOD_init_one_configured [OF this]
  show "CPairPOD_init_one pod_example 1 2 = Inr (5, pod_example)"
    by (simp add: pod_example_def upd2_def fun_eq_iff)
qed

text \<open>
  C3, amended. For a pair \<open>(i, j)\<close> whose flag is set, \<open>PairSMATB::init_one(i,j)\<close> returns
  \<open>cutOffEnd[i][j]\<close>, leaves all fourteen tables with equal entries at \<open>[j][i]\<close> and
  \<open>[i][j]\<close> and the flag of \<open>(j, i)\<close> set, and \<open>init_one(j,i)\<close> called after it returns the
  same cutoff. \<open>CPairPOD::init_one(i,j)\<close> returns \<open>pod.rcut\<close>, leaves \<open>scale\<close> with equal
  entries at \<open>[j][i]\<close> and \<open>[i][j]\<close> and leaves every flag as it was: \<open>init_one(j,i)\<close> called
  after it returns the same cutoff if the flag of \<open>(j, i)\<close> is set and ends in \<open>error->all\<close>
  if it is not. On its own, \<open>init_one(j,i)\<close> of either class ends in \<open>error->all\<close> exactly
  when the flag of \<open>(j, i)\<close> is not set.
\<close>

theorem init_one_mirrors_configured_pair:
  assumes "PairSMATB.setflag c i j \<noteq> 0" and "CPairPOD.setflag s i j \<noteq> 0"
  shows "(\<exists>c' c''. init_one c i j = Inr (cutOffEnd c i j, c')
            \<and> tables_symmetric c' i j \<and> PairSMATB.setflag c' j i \<noteq> 0
            \<and> init_one c' j i = Inr (cutOffEnd c i j, c''))
       \<and> (\<exists>s'. CPairPOD_init_one s i j = Inr (rcut s, s')
            \<and> scale s' j i = scale s' i j \<and> CPairPOD.setflag s' = CPairPOD.setflag s
            \<and> CPairPOD_init_one s' j i
                = (if CPairPOD.setflag s j i = 0 then Inl (Error_all ''All pair coeffs are not set'')
                   else Inr (rcut s, s'\<lparr>scale := upd2 (scale s') i j (scale s' j i)\<rparr>)))
       \<and> isl (init_one c j i) = (PairSMATB.setflag c j i = 0)
       \<and> isl (CPairPOD_init_one s j i) = (CPairPOD.setflag s j i = 0)"
proof (intro conjI)
  let ?c' = "init_one_state c i j"
  have 1: "init_one c i j = Inr (cutOffEnd c i j, ?c')"
    by (rule init_one_configured [OF assms(1)])
  have f: "PairSMATB.setflag ?c' j i \<noteq> 0"
    by (rule init_one_state_setflag [OF assms(1)])
  have "init_one ?c' j i = Inr (cutOffEnd ?c' j i, init_one_state ?c' j i)"
    by (rule init_one_configured [OF f])
  then have 2: "init_one ?c' j i = Inr (cutOffEnd c i j, init_one_state ?c' j i)"
    by (simp add: init_one_state_sym init_one_state_entry)
  show "\<exists>c' c''. init_one c i j = Inr (cutOffEnd c i j, c')
            \<and> tables_symmetric c' i j \<and> PairSMATB.setflag c' j i \<noteq> 0
            \<and> init_one c' j i = Inr (cutOffEnd c i j, c'')"
    using 1 2 f init_one_state_symmetric by blast
next
  let ?s' = "s\<lparr>scale := upd2 (scale s) j i (scale s i j)\<rparr>"
  have 1: "CPairPOD_init_one s i j = Inr (rcut s, ?s')"
    by (rule CPairPOD_init_one_configured [OF assms(2)])
  have 2: "scale ?s' j i = scale ?s' i j"
    by (simp add: upd2_apply)
  have 3: "CPairPOD.setflag ?s' = CPairPOD.setflag s"
    by simp
  have 4: "CPairPOD_init_one ?s' j i
             = (if CPairPOD.setflag s j i = 0 then Inl (Error_all ''All pair coeffs are not set'')
                else Inr (rcut s, ?s'\<lparr>scale := upd2 (scale ?s') i j (scale ?s' j i)\<rparr>))"
    by (simp add: CPairPOD_init_one_def Let_def)
  show "\<exists>s'. CPairPOD_init_one s i j = Inr (rcut s, s')
            \<and> scale s' j i = scale s' i j \<and> CPairPOD.setflag s' = CPairPOD.setflag s
            \<and> CPairPOD_init_one s' j i
                = (if CPairPOD.setflag s j i = 0 then Inl (Error_all ''All pair coeffs are not set'')
                   else Inr (rcut s, s'\<lparr>scale := upd2 (scale s') i j (scale s' j i)\<rparr>))"
    using 1 2 3 4 by blast
next
  show "isl (init_one c j i) = (PairSMATB.setflag c j i = 0)"
    by (simp add: init_one_def Let_def)
next
  show "isl (CPairPOD_init_one s j i) = (CPairPOD.setflag s j i = 0)"
    by (simp add: CPairPOD_init_one_def Let_def)
qed

theorem init_one_mirrors_configured_pair_witness:
  "PairSMATB.setflag smatb_coeffs 1 2 \<noteq> 0 \<and> CPairPOD.setflag pod_example 1 2 \<noteq> 0
   \<and> (\<exists>c' c''. init_one smatb_coeffs 1 2 = Inr (4, c')
         \<and> tables_symmetric c' 1 2 \<and> PairSMATB.setflag c' 2 1 \<noteq> 0
         \<and> init_one c' 2 1 = Inr (4, c''))
   \<and> (\<exists>s'. CPairPOD_init_one pod_example 1 2 = Inr (5, s')
         \<and> scale s' 2 1 = scale s' 1 2
         \<and> CPairPOD_init_one s' 2 1 = Inl (Error_all ''All pair coeffs are not set''))
   \<and> isl (init_one smatb_coeffs 2 1) \<and> isl (CPairPOD_init_one pod_example 2 1)"
proof -
  have h1: "PairSMATB.setflag smatb_coeffs 1 2 \<noteq> 0"
    by (simp add: smatb_coeffs_def set_above_def)
  have h2: "CPairPOD.setflag pod_example 1 2 \<noteq> 0"
    by (simp add: pod_example_def set_above_def)
  have e: "cutOffEnd smatb_coeffs 1 2 = 4" "rcut pod_example = 5"
    "CPairPOD.setflag pod_example 2 1 = 0" "PairSMATB.setflag smatb_coeffs 2 1 = 0"
    by (simp_all add: smatb_coeffs_def pod_example_def set_above_def)
  show ?thesis
    using h1 h2 init_one_mirrors_configured_pair [OF h1 h2] unfolding e
    by (simp only: if_True simp_thms) blast
qed

subsection \<open>The second loop of smatb\<close>

lemma fold_option_None:
  assumes "a \<in> set as" and "\<And>s. g a s = None"
  shows "fold_option g as s = None"
  using assms(1)
proof (induction as arbitrary: s)
  case Nil
  then show ?case by simp
next
  case (Cons b bs)
  show ?case
  proof (cases "g b s")
    case None
    then show ?thesis by simp
  next
    case (Some s')
    have "b \<noteq> a"
      using Some assms(2) [of s] by auto
    with Cons.prems have "a \<in> set bs" by simp
    from Cons.IH [OF this] Some show ?thesis by simp
  qed
qed

lemma fold_option_invariant:
  assumes "fold_option g as s = Some s'" and "I s"
    and "\<And>a s s'. a \<in> set as \<Longrightarrow> I s \<Longrightarrow> g a s = Some s' \<Longrightarrow> I s'"
  shows "I s'"
  using assms
proof (induction as arbitrary: s)
  case Nil
  then show ?case by simp
next
  case (Cons a as)
  from Cons.prems(1) obtain s1 where s1: "g a s = Some s1" and rest: "fold_option g as s1 = Some s'"
    by (auto split: option.splits)
  have "I s1" using Cons.prems(3) [of a s s1] Cons.prems(2) s1 by simp
  show ?case
    by (rule Cons.IH [OF rest \<open>I s1\<close>]) (rule Cons.prems(3), auto)
qed

lemma finite_double_Some: "finite_double r = Some v \<Longrightarrow> v = r"
  by (simp add: finite_double_def split: if_splits)

lemma dadd_Some: "dadd a b = Some v \<Longrightarrow> v = a + b"
  unfolding dadd_def by (rule finite_double_Some)

lemma dsub_Some: "dsub a b = Some v \<Longrightarrow> v = a - b"
  unfolding dsub_def by (rule finite_double_Some)

lemma double_overflow_gt: "2 ^ 64 < double_overflow"
  by (simp add: double_overflow_def)

lemma double_underflow_lt: "double_underflow < 1 / 2 ^ 64"
  by (simp add: double_underflow_def field_simps)

lemma finite_double_bounded: "\<bar>r\<bar> \<le> 2 ^ 64 \<Longrightarrow> finite_double r = Some r"
  using double_overflow_gt by (simp add: finite_double_def)

lemma rounded_double_zero: "rounded_double 0 = Some 0"
  by (simp add: rounded_double_def double_underflow_def)

lemma rounded_double_bounded:
  "1 / 2 ^ 64 \<le> \<bar>r\<bar> \<Longrightarrow> \<bar>r\<bar> \<le> 2 ^ 64 \<Longrightarrow> rounded_double r = Some r"
  using double_underflow_lt by (simp add: rounded_double_def finite_double_bounded)

lemmas double_ops = dadd_def dsub_def dmul_def ddiv_def dsqrt_def dexp_def
  finite_double_bounded rounded_double_zero rounded_double_bounded

lemma sqrt_4: "sqrt 4 = 2"
  using real_sqrt_abs [of 2] by simp

lemma f_tally_pair [simp]: "f (tally_pair e i j a st) = f st"
  by (simp add: tally_pair_def Let_def)

lemma on_eb_tally_pair [simp]: "on_eb (tally_pair e i j a st) = on_eb st"
  by (simp add: tally_pair_def Let_def)

lemma add3_Some:
  assumes "add3 a i del0 del1 del2 fpair = Some a'"
  shows "\<exists>v0 v1 v2. dmul del0 fpair = Some v0 \<and> dmul del1 fpair = Some v1
           \<and> dmul del2 fpair = Some v2
           \<and> a' = a(i := (a i)(0 := a i 0 + v0, 1 := a i 1 + v1, 2 := a i 2 + v2))"
  using assms
  by (auto simp add: add3_def bind_eq_Some_conv dest!: dadd_Some)

lemma sub3_Some:
  assumes "sub3 a j del0 del1 del2 fpair = Some a'"
  shows "\<exists>v0 v1 v2. dmul del0 fpair = Some v0 \<and> dmul del1 fpair = Some v1
           \<and> dmul del2 fpair = Some v2
           \<and> a' = a(j := (a j)(0 := a j 0 - v0, 1 := a j 1 - v1, 2 := a j 2 - v2))"
  using assms
  by (auto simp add: sub3_def bind_eq_Some_conv dest!: dsub_Some)

lemma second_loop_pair_outside:
  assumes "second_loop_pair c e i jj st = Some st'"
    and "pair_geometry e i (jj AND NEIGHMASK e) = Some (del0, del1, del2, dijsq)"
    and "\<not> dijsq < cutOffEnd2 c (type e i) (type e (jj AND NEIGHMASK e))"
  shows "st' = st"
  using assms by (simp add: second_loop_pair_def Let_def)

lemma second_loop_pair_geometry:
  assumes "second_loop_pair c e i jj st = Some st'"
  shows "\<exists>del0 del1 del2 dijsq.
           pair_geometry e i (jj AND NEIGHMASK e) = Some (del0, del1, del2, dijsq)"
  using assms by (auto simp add: second_loop_pair_def Let_def bind_eq_Some_conv)

lemma second_loop_pair_inside:
  assumes "second_loop_pair c e i jj st = Some st'"
    and "pair_geometry e i (jj AND NEIGHMASK e) = Some (del0, del1, del2, dijsq)"
    and "dijsq < cutOffEnd2 c (type e i) (type e (jj AND NEIGHMASK e))"
  shows "\<exists>aexpp Fr Fb fpair fi.
           (if sqrt dijsq < cutOffStart c (type e i) (type e (jj AND NEIGHMASK e))
            then force_terms_exp c (type e i) (type e (jj AND NEIGHMASK e)) (sqrt dijsq)
            else force_terms_poly c (type e i) (type e (jj AND NEIGHMASK e)) (sqrt dijsq))
             = Some (aexpp, Fr, Fb)
           \<and> pair_fpair Fb Fr (on_eb st i) (on_eb st (jj AND NEIGHMASK e)) (sqrt dijsq) = Some fpair
           \<and> add3 (f st) i del0 del1 del2 fpair = Some fi
           \<and> (if newton_pair e \<or> jj AND NEIGHMASK e < nlocal e
               then \<exists>fj. sub3 fi (jj AND NEIGHMASK e) del0 del1 del2 fpair = Some fj
                      \<and> st' = (tally_pair e i (jj AND NEIGHMASK e) aexpp st)\<lparr>f := fj\<rparr>
               else st' = (tally_pair e i (jj AND NEIGHMASK e) aexpp st)\<lparr>f := fi\<rparr>)"
  using assms
  by (auto simp add: second_loop_pair_def Let_def bind_eq_Some_conv dsqrt_def
      split: if_splits)


lemma on_eb_second_loop_pair:
  assumes "second_loop_pair c e i jj st = Some st'"
  shows "on_eb st' = on_eb st"
  using assms
  by (auto simp add: second_loop_pair_def Let_def bind_eq_Some_conv split: if_splits)

lemma fold_preserve:
  assumes "\<And>a s. h (g a s) = h s"
  shows "h (fold g as s) = h s"
  by (induction as arbitrary: s) (simp_all add: assms)

lemma f_support_loop: "f (support_loop e st) = f st"
  unfolding support_loop_def
  by (rule fold_preserve) (simp add: support_step_def Let_def)

lemma second_loop_invariant:
  assumes "second_loop c e st = Some st'" and "I st"
    and step: "\<And>ii jj s s'. ii < inum e \<Longrightarrow> jj < numneigh e (ilist e ii) \<Longrightarrow> I s \<Longrightarrow>
            second_loop_pair c e (ilist e ii) (firstneigh e (ilist e ii) jj) s = Some s' \<Longrightarrow> I s'"
  shows "I st'"
proof (rule fold_option_invariant [where I = I, OF assms(1) [unfolded second_loop_def] assms(2)])
  fix ii s s'
  assume ii: "ii \<in> set [0..<inum e]" and "I s"
    and inner: "(let i = ilist e ii
                 in fold_option (\<lambda>jj. second_loop_pair c e i (firstneigh e i jj))
                      [0..<numneigh e i]) s = Some s'"
  show "I s'"
  proof (rule fold_option_invariant [where I = I, OF inner [unfolded Let_def] \<open>I s\<close>])
    fix jj t t'
    assume "jj \<in> set [0..<numneigh e (ilist e ii)]" and "I t"
      and "second_loop_pair c e (ilist e ii) (firstneigh e (ilist e ii) jj) t = Some t'"
    then show "I t'" using step [of ii jj t t'] ii by simp
  qed
qed

lemma on_eb_second_loop:
  assumes "second_loop c e st = Some st'"
  shows "on_eb st' = on_eb st"
  by (rule second_loop_invariant [OF assms, where I = "\<lambda>s. on_eb s = on_eb st"])
     (simp_all add: on_eb_second_loop_pair)

lemma pair_fpair_zero: "pair_fpair Fb Fr eb_i eb_j 0 = None"
  by (simp add: pair_fpair_def ddiv_def split: bind_splits)

lemma second_loop_pair_zero_divisor:
  assumes "pair_divisor c e i jj = Some 0"
  shows "second_loop_pair c e i jj st = None"
proof -
  from assms obtain del0 del1 del2 dijsq where
    g: "pair_geometry e i (jj AND NEIGHMASK e) = Some (del0, del1, del2, dijsq)"
    and c: "dijsq < cutOffEnd2 c (type e i) (type e (jj AND NEIGHMASK e))"
    and d: "dsqrt dijsq = Some 0"
    by (auto simp add: pair_divisor_def Let_def bind_eq_Some_conv split: if_splits)
  show ?thesis
    unfolding second_loop_pair_def Let_def g
    by (simp add: c d pair_fpair_zero split: bind_splits)
qed

lemma second_loop_zero_divisor:
  assumes "ii < inum e" and "jj < numneigh e (ilist e ii)"
    and "pair_divisor c e (ilist e ii) (firstneigh e (ilist e ii) jj) = Some 0"
  shows "second_loop c e st = None"
  unfolding second_loop_def
proof (rule fold_option_None [where a = ii])
  show "ii \<in> set [0..<inum e]"
    using assms(1) by simp
  fix s
  have "fold_option (\<lambda>jj. second_loop_pair c e (ilist e ii) (firstneigh e (ilist e ii) jj))
          [0..<numneigh e (ilist e ii)] s = None"
  proof (rule fold_option_None [where a = jj])
    show "jj \<in> set [0..<numneigh e (ilist e ii)]"
      using assms(2) by simp
    fix t
    show "second_loop_pair c e (ilist e ii) (firstneigh e (ilist e ii) jj) t = None"
      by (rule second_loop_pair_zero_divisor [OF assms(3)])
  qed
  then show "(let i = ilist e ii
              in fold_option (\<lambda>jj. second_loop_pair c e i (firstneigh e i jj)) [0..<numneigh e i]) s
             = None"
    by (simp add: Let_def)
qed

lemma compute_zero_divisor:
  assumes "ii < inum e" and "jj < numneigh e (ilist e ii)"
    and "pair_divisor c e (ilist e ii) (firstneigh e (ilist e ii) jj) = Some 0"
  shows "compute c e st = None"
  by (simp add: compute_def Let_def second_loop_zero_divisor [OF assms])

lemma pair_divisor_same_position:
  assumes "x e i 0 = x e (jj AND NEIGHMASK e) 0" and "x e i 1 = x e (jj AND NEIGHMASK e) 1"
    and "x e i 2 = x e (jj AND NEIGHMASK e) 2"
    and "0 < cutOffEnd2 c (type e i) (type e (jj AND NEIGHMASK e))"
  shows "pair_divisor c e i jj = Some 0"
  using assms
  by (simp add: pair_divisor_def pair_geometry_def Let_def dsub_def dmul_def dadd_def dsqrt_def
      finite_double_def rounded_double_zero double_overflow_def)

lemma smatb_ready_cutOffEnd2: "cutOffEnd2 smatb_ready (Suc 0) (Suc 0) = 16"
  using init_one_state_entry(14) [of smatb_example 1 1]
  by (simp add: smatb_ready_def smatb_example_def)

subsection \<open>Newton's third law for two atoms\<close>

lemma coeff_repulsive_line: "coeff 1 False 9 repulsive_line smatb_blank = Inr repulsive_coeffs"
  by (simp add: coeff_def allocate_def coeff_pair_def repulsive_line_def smatb_blank_def
      repulsive_coeffs_def set_above_def upd2_def fun_eq_iff Let_def)

lemma init_one_repulsive: "init_one repulsive_coeffs 1 1 = Inr (4, repulsive_ready)"
proof -
  have "PairSMATB.setflag repulsive_coeffs 1 1 \<noteq> 0"
    by (simp add: repulsive_coeffs_def set_above_def)
  from init_one_configured [OF this] show ?thesis
    by (simp add: repulsive_ready_def) (simp add: repulsive_coeffs_def set_above_def)
qed

lemma repulsive_ready_entries:
  "cutOffEnd2 repulsive_ready (Suc 0) (Suc 0) = 16"
  "cutOffStart repulsive_ready (Suc 0) (Suc 0) = 3" "QSI repulsive_ready (Suc 0) (Suc 0) = 1"
  "q repulsive_ready (Suc 0) (Suc 0) = 1" "r0 repulsive_ready (Suc 0) (Suc 0) = 1"
  "p repulsive_ready (Suc 0) (Suc 0) = 1" "A repulsive_ready (Suc 0) (Suc 0) = 2"
  using init_one_state_entry [of repulsive_coeffs 1 1]
  by (simp_all add: repulsive_ready_def repulsive_coeffs_def set_above_def)

lemma pair_geometry_two_atoms: "pair_geometry two_atoms 0 (Suc 0) = Some (- 1, 0, 0, 1)"
  by (simp add: pair_geometry_def two_atoms_def double_ops)

lemma force_terms_exp_repulsive:
  "force_terms_exp repulsive_ready (Suc 0) (Suc 0) 1 = Some (2, 4, - 1)"
  by (simp add: force_terms_exp_def repulsive_ready_entries double_ops)

lemma first_loop_two_atoms:
  "first_loop repulsive_ready two_atoms eb = eb(0 := eb 0 + 1, 1 := eb 1 + 1)"
  by (simp add: first_loop_def first_loop_pair_def pair_dijsq_def Let_def two_atoms_def
      repulsive_ready_entries qsiexpq_exp_def upt_conv_Cons fun_eq_iff)

lemma compute_two_atoms:
  "compute repulsive_ready two_atoms idle_state = Some two_atoms_pushed"
proof -
  define eb :: "nat \<Rightarrow> real" where "eb = (\<lambda>k. if k < 2 then 1 else 0)"
  define st1 where "st1 = idle_state\<lparr>on_eb := eb\<rparr>"
  have p: "nlocal two_atoms = 2" "nghost two_atoms = 0" "newton_pair two_atoms" "\<not> ev two_atoms"
    "inum two_atoms = 2" "ilist two_atoms k = k" "numneigh two_atoms 0 = Suc 0"
    "numneigh two_atoms (Suc 0) = 0" "firstneigh two_atoms k l = Suc 0"
    "Suc 0 AND NEIGHMASK two_atoms = Suc 0" "type two_atoms k = Suc 0"
    "swaps two_atoms = []" "\<not> eflag_either two_atoms" for k l
    by (simp_all add: two_atoms_def)
  have z: "memset_zero 2 (on_eb idle_state) = (\<lambda>k. 0)"
    by (simp add: memset_zero_def idle_state_def fun_eq_iff)
  have fl: "first_loop repulsive_ready two_atoms (\<lambda>k. 0) = eb"
    unfolding first_loop_two_atoms by (auto simp add: eb_def fun_eq_iff less_2_cases_iff)
  have sl: "support_loop two_atoms (idle_state\<lparr>on_eb := eb\<rparr>) = st1"
    by (simp add: support_loop_def support_step_def Let_def p upt_conv_Cons st1_def eb_def
        fun_eq_iff idle_state_def)
  have c: "compute repulsive_ready two_atoms idle_state = second_loop repulsive_ready two_atoms st1"
    by (simp add: compute_def Let_def p z fl sl reverse_comm_pair_def forward_comm_pair_def)
  have fp: "pair_fpair (- 1) 4 1 1 1 = Some 2"
    by (simp add: pair_fpair_def double_ops)
  have a: "add3 (\<lambda>k d. 0) 0 (- 1) 0 0 2
             = Some (\<lambda>k d. if k = 0 \<and> d = 0 then - 2 else 0)"
    by (simp add: add3_def double_ops fun_eq_iff)
  have b: "sub3 (\<lambda>k d. if k = 0 \<and> d = 0 then - 2 else 0) (Suc 0) (- 1) 0 0 2
             = Some (f two_atoms_pushed)"
    by (simp add: sub3_def double_ops fun_eq_iff two_atoms_pushed_def)
  have s: "f st1 = (\<lambda>k d. 0)" "on_eb st1 k = eb k" "tally_pair two_atoms i j v st1 = st1"
    "st1\<lparr>f := f two_atoms_pushed\<rparr> = two_atoms_pushed" for k i j v
    by (simp_all add: st1_def idle_state_def tally_pair_def p two_atoms_pushed_def eb_def)
  have "second_loop_pair repulsive_ready two_atoms 0 (Suc 0) st1 = Some two_atoms_pushed"
    unfolding second_loop_pair_def Let_def p pair_geometry_two_atoms
    by (simp add: repulsive_ready_entries dsqrt_def force_terms_exp_repulsive s eb_def fp a b)
  then have "second_loop repulsive_ready two_atoms st1 = Some two_atoms_pushed"
    unfolding second_loop_def Let_def p by (simp add: upt_conv_Cons p)
  with c show ?thesis by simp
qed

lemma tiny_bounds: "0 < tiny" "tiny \<le> 1" "tiny * tiny \<le> 1"
proof -
  show "0 < tiny" "tiny \<le> 1"
    by (simp_all add: tiny_def divide_le_eq_1)
  then show "tiny * tiny \<le> 1"
    using mult_mono [of tiny 1 tiny 1] by simp
qed

lemma tiny_square_underflows: "rounded_double (tiny * tiny) = Some 0"
proof -
  have "tiny * tiny = 1 / 2 ^ 1080"
    unfolding tiny_def by (simp add: power_add [symmetric])
  moreover have "(1::real) / 2 ^ 1080 \<le> 1 / 2 ^ 1075"
    by (intro divide_left_mono power_increasing) simp_all
  ultimately have "\<bar>tiny * tiny\<bar> \<le> double_underflow"
    unfolding double_underflow_def by simp
  then show ?thesis
    unfolding rounded_double_def by simp
qed

lemma x_near_atoms:
  "x near_atoms 0 d = 0" "x near_atoms (Suc 0) d = (if d = 0 then tiny else 0)"
  by (simp_all add: near_atoms_def two_atoms_def)

lemma pair_geometry_near_atoms:
  "pair_geometry near_atoms 0 (Suc 0) = Some (- tiny, 0, 0, 0)"
proof -
  have "\<bar>- tiny\<bar> \<le> 2 ^ 64"
    using tiny_bounds(1,2) by simp
  then have s: "dsub 0 tiny = Some (- tiny)"
    unfolding dsub_def using finite_double_bounded [of "- tiny"] by simp
  have m: "dmul (- tiny) (- tiny) = Some 0"
    unfolding dmul_def using tiny_square_underflows by simp
  have z: "dsub 0 0 = Some 0" "dmul 0 0 = Some 0" "dadd 0 0 = Some 0"
    by (simp_all add: double_ops)
  show ?thesis
    by (simp add: pair_geometry_def x_near_atoms s m z)
qed

text \<open>
  C4, as stated, fails for separations so small that their square is rounded to zero. With
  the two atoms at distance \<open>2^-540\<close>, inside the cutoff 4, \<open>del[0] * del[0]\<close> is \<open>2^-1080\<close>,
  below half the smallest positive \<open>double\<close>: \<open>dijsq\<close> and \<open>dij\<close> are zero, \<open>fpair\<close> is a
  quotient by zero, and the forces that \<open>compute\<close> leaves are not finite numbers, so that
  neither is the negative of the other.
\<close>

theorem tiny_separation_forces_not_finite:
  "nlocal near_atoms = 2 \<and> newton_pair near_atoms
   \<and> x near_atoms 0 0 - x near_atoms 1 0 = - (1 / 2 ^ 540)
   \<and> 0 < pair_dijsq near_atoms 0 1
   \<and> pair_dijsq near_atoms 0 1 < cutOffEnd2 repulsive_ready 1 1
   \<and> pair_geometry near_atoms 0 1 = Some (- (1 / 2 ^ 540), 0, 0, 0)
   \<and> pair_divisor repulsive_ready near_atoms 0 1 = Some 0
   \<and> compute repulsive_ready near_atoms idle_state = None"
proof -
  have p: "nlocal near_atoms = 2" "newton_pair near_atoms" "inum near_atoms = 2"
    "ilist near_atoms 0 = 0" "numneigh near_atoms 0 = Suc 0" "firstneigh near_atoms 0 0 = Suc 0"
    "Suc 0 AND NEIGHMASK near_atoms = Suc 0" "type near_atoms k = Suc 0" for k
    by (simp_all add: near_atoms_def two_atoms_def)
  have m: "NEIGHMASK near_atoms = 536870911"
    by (simp add: near_atoms_def two_atoms_def)
  have d: "pair_dijsq near_atoms 0 (Suc 0) = tiny * tiny"
    by (simp add: pair_dijsq_def Let_def m x_near_atoms)
  have d16: "pair_dijsq near_atoms 0 (Suc 0) < 16"
    unfolding d using tiny_bounds(3) by simp
  have d0: "0 < pair_dijsq near_atoms 0 (Suc 0)"
    unfolding d using tiny_bounds(1) by simp
  have z: "pair_divisor repulsive_ready near_atoms 0 (Suc 0) = Some 0"
    by (simp add: pair_divisor_def Let_def p m pair_geometry_near_atoms repulsive_ready_entries
        dsqrt_def)
  have c: "compute repulsive_ready near_atoms idle_state = None"
    by (rule compute_zero_divisor [where ii = 0 and jj = 0]) (simp_all add: p z)
  have "nlocal near_atoms = 2 \<and> newton_pair near_atoms
   \<and> x near_atoms 0 0 - x near_atoms (Suc 0) 0 = - tiny
   \<and> 0 < pair_dijsq near_atoms 0 (Suc 0)
   \<and> pair_dijsq near_atoms 0 (Suc 0) < cutOffEnd2 repulsive_ready (Suc 0) (Suc 0)
   \<and> pair_geometry near_atoms 0 (Suc 0) = Some (- tiny, 0, 0, 0)
   \<and> pair_divisor repulsive_ready near_atoms 0 (Suc 0) = Some 0
   \<and> compute repulsive_ready near_atoms idle_state = None"
    using p(1,2) d0 d16 z c pair_geometry_near_atoms
    by (simp add: x_near_atoms repulsive_ready_entries)
  then show ?thesis
    unfolding tiny_def One_nat_def .
qed

text \<open>
  C4, amended. Two local atoms 0 and 1 with the half neighbour list in which atom 0 lists atom 1,
  Newton pair on or off, \<open>compute\<close> ending with finite forces. \<open>del\<close> is the difference of
  the two positions. If the squared distance is inside the cutoff, then with \<open>fpair\<close>
  computed from the terms of the branch and from \<open>on_eb\<close> of the two atoms, \<open>compute\<close> has
  added the vector \<open>del * fpair\<close> to \<open>f[0]\<close> and subtracted the same vector from \<open>f[1]\<close>, and
  has changed no other force. If not, it has changed no force.
\<close>

theorem two_atoms_opposite_forces:
  assumes "nlocal e = 2" and "inum e = 2" and "ilist e 0 = 0" and "ilist e 1 = 1"
    and "numneigh e 0 = 1" and "numneigh e 1 = 0"
    and "firstneigh e 0 0 AND NEIGHMASK e = 1"
    and "compute c e st = Some st'"
  shows "\<exists>del0 del1 del2 dijsq.
           pair_geometry e 0 1 = Some (del0, del1, del2, dijsq)
           \<and> del0 = x e 0 0 - x e 1 0 \<and> del1 = x e 0 1 - x e 1 1 \<and> del2 = x e 0 2 - x e 1 2
           \<and> (if dijsq < cutOffEnd2 c (type e 0) (type e 1) then
                \<exists>aexpp Fr Fb fpair v0 v1 v2.
                  (if sqrt dijsq < cutOffStart c (type e 0) (type e 1)
                   then force_terms_exp c (type e 0) (type e 1) (sqrt dijsq)
                   else force_terms_poly c (type e 0) (type e 1) (sqrt dijsq))
                    = Some (aexpp, Fr, Fb)
                  \<and> pair_fpair Fb Fr (on_eb st' 0) (on_eb st' 1) (sqrt dijsq) = Some fpair
                  \<and> dmul del0 fpair = Some v0 \<and> dmul del1 fpair = Some v1
                  \<and> dmul del2 fpair = Some v2
                  \<and> f st' = (f st)
                      (0 := (f st 0)(0 := f st 0 0 + v0, 1 := f st 0 1 + v1, 2 := f st 0 2 + v2),
                       1 := (f st 1)(0 := f st 1 0 - v0, 1 := f st 1 1 - v1, 2 := f st 1 2 - v2))
              else f st' = f st)"
proof -
  let ?jj = "firstneigh e 0 0"
  obtain st1 where c: "compute c e st = second_loop c e st1" and f1: "f st1 = f st"
    by (simp add: compute_def Let_def f_support_loop)
  have l: "ilist e (Suc 0) = Suc 0" "numneigh e 0 = Suc 0" "numneigh e (Suc 0) = 0"
    and m: "?jj AND NEIGHMASK e = Suc 0"
    using assms(4-7) by simp_all
  have "second_loop c e st1 =
          (case second_loop_pair c e 0 ?jj st1 of None \<Rightarrow> None | Some s \<Rightarrow> Some s)"
    unfolding second_loop_def Let_def assms(2)
    by (simp add: upt_conv_Cons assms(3) l split: option.splits)
  with c assms(8) have s: "second_loop_pair c e 0 ?jj st1 = Some st'"
    by (simp split: option.splits)
  have eb: "on_eb st1 = on_eb st'"
    using on_eb_second_loop_pair [OF s] by simp
  from second_loop_pair_geometry [OF s]
  obtain del0 del1 del2 dijsq where g: "pair_geometry e 0 (Suc 0) = Some (del0, del1, del2, dijsq)"
    unfolding m by blast
  have d: "del0 = x e 0 0 - x e (Suc 0) 0" "del1 = x e 0 (Suc 0) - x e (Suc 0) (Suc 0)"
    "del2 = x e 0 2 - x e (Suc 0) 2"
    using g by (auto simp add: pair_geometry_def bind_eq_Some_conv dest!: dsub_Some)
  have g': "pair_geometry e 0 (?jj AND NEIGHMASK e) = Some (del0, del1, del2, dijsq)"
    unfolding m by (rule g)
  have r: "if dijsq < cutOffEnd2 c (type e 0) (type e (Suc 0)) then
                \<exists>aexpp Fr Fb fpair v0 v1 v2.
                  (if sqrt dijsq < cutOffStart c (type e 0) (type e (Suc 0))
                   then force_terms_exp c (type e 0) (type e (Suc 0)) (sqrt dijsq)
                   else force_terms_poly c (type e 0) (type e (Suc 0)) (sqrt dijsq))
                    = Some (aexpp, Fr, Fb)
                  \<and> pair_fpair Fb Fr (on_eb st' 0) (on_eb st' (Suc 0)) (sqrt dijsq) = Some fpair
                  \<and> dmul del0 fpair = Some v0 \<and> dmul del1 fpair = Some v1
                  \<and> dmul del2 fpair = Some v2
                  \<and> f st' = (f st)
                      (0 := (f st 0)(0 := f st 0 0 + v0, Suc 0 := f st 0 (Suc 0) + v1,
                                     2 := f st 0 2 + v2),
                       Suc 0 := (f st (Suc 0))(0 := f st (Suc 0) 0 - v0,
                                     Suc 0 := f st (Suc 0) (Suc 0) - v1,
                                     2 := f st (Suc 0) 2 - v2))
              else f st' = f st"
  proof (cases "dijsq < cutOffEnd2 c (type e 0) (type e (Suc 0))")
    case False
    then have "\<not> dijsq < cutOffEnd2 c (type e 0) (type e (?jj AND NEIGHMASK e))"
      unfolding m .
    from second_loop_pair_outside [OF s g' this] f1 False show ?thesis by simp
  next
    case True
    then have "dijsq < cutOffEnd2 c (type e 0) (type e (?jj AND NEIGHMASK e))"
      unfolding m .
    from second_loop_pair_inside [OF s g' this]
    obtain aexpp Fr Fb fpair fi fj where
      t: "(if sqrt dijsq < cutOffStart c (type e 0) (type e (Suc 0))
           then force_terms_exp c (type e 0) (type e (Suc 0)) (sqrt dijsq)
           else force_terms_poly c (type e 0) (type e (Suc 0)) (sqrt dijsq)) = Some (aexpp, Fr, Fb)"
      and fp: "pair_fpair Fb Fr (on_eb st' 0) (on_eb st' (Suc 0)) (sqrt dijsq) = Some fpair"
      and a: "add3 (f st) 0 del0 del1 del2 fpair = Some fi"
      and b: "sub3 fi (Suc 0) del0 del1 del2 fpair = Some fj"
      and e: "f st' = fj"
      unfolding m eb f1 using assms(1) by auto
    from add3_Some [OF a] obtain v0 v1 v2 where
      v: "dmul del0 fpair = Some v0" "dmul del1 fpair = Some v1" "dmul del2 fpair = Some v2"
      and fi: "fi = (f st)(0 := (f st 0)(0 := f st 0 0 + v0, 1 := f st 0 1 + v1, 2 := f st 0 2 + v2))"
      by blast
    from sub3_Some [OF b] v
    have fj: "fj = fi(Suc 0 := (fi (Suc 0))(0 := fi (Suc 0) 0 - v0, 1 := fi (Suc 0) 1 - v1,
                                            2 := fi (Suc 0) 2 - v2))"
      by auto
    have "f st' = (f st)
                      (0 := (f st 0)(0 := f st 0 0 + v0, Suc 0 := f st 0 (Suc 0) + v1,
                                     2 := f st 0 2 + v2),
                       Suc 0 := (f st (Suc 0))(0 := f st (Suc 0) 0 - v0,
                                     Suc 0 := f st (Suc 0) (Suc 0) - v1,
                                     2 := f st (Suc 0) 2 - v2))"
      unfolding e fj fi by simp
    with True t fp v show ?thesis by auto
  qed
  show ?thesis
    unfolding One_nat_def using g d r by blast
qed

theorem two_atoms_opposite_forces_witness:
  "nlocal two_atoms = 2 \<and> inum two_atoms = 2 \<and> ilist two_atoms 0 = 0 \<and> ilist two_atoms 1 = 1
   \<and> numneigh two_atoms 0 = 1 \<and> numneigh two_atoms 1 = 0
   \<and> firstneigh two_atoms 0 0 AND NEIGHMASK two_atoms = 1
   \<and> coeff 1 False 9 repulsive_line smatb_blank = Inr repulsive_coeffs
   \<and> init_one repulsive_coeffs 1 1 = Inr (4, repulsive_ready)
   \<and> compute repulsive_ready two_atoms idle_state = Some two_atoms_pushed
   \<and> f two_atoms_pushed 0 0 = - 2 \<and> f two_atoms_pushed 1 0 = 2
   \<and> (\<exists>fpair v0 v1 v2.
         pair_fpair (- 1) 4 (on_eb two_atoms_pushed 0) (on_eb two_atoms_pushed 1) 1 = Some fpair
         \<and> dmul (- 1) fpair = Some v0 \<and> dmul 0 fpair = Some v1 \<and> dmul 0 fpair = Some v2
         \<and> f two_atoms_pushed = (f idle_state)
              (0 := (f idle_state 0)(0 := f idle_state 0 0 + v0, 1 := f idle_state 0 1 + v1,
                                     2 := f idle_state 0 2 + v2),
               1 := (f idle_state 1)(0 := f idle_state 1 0 - v0, 1 := f idle_state 1 1 - v1,
                                     2 := f idle_state 1 2 - v2)))"
proof -
  have h: "nlocal two_atoms = 2" "inum two_atoms = 2" "ilist two_atoms 0 = 0"
    "ilist two_atoms 1 = 1" "numneigh two_atoms 0 = 1" "numneigh two_atoms 1 = 0"
    "firstneigh two_atoms 0 0 AND NEIGHMASK two_atoms = 1"
    by (simp_all add: two_atoms_def)
  have v: "f two_atoms_pushed 0 0 = - 2" "f two_atoms_pushed 1 0 = 2"
    by (simp_all add: two_atoms_pushed_def)
  have t: "type two_atoms k = Suc 0" for k
    by (simp add: two_atoms_def)
  have g: "pair_geometry two_atoms 0 1 = Some (- 1, 0, 0, 1)"
    using pair_geometry_two_atoms by simp
  have xs: "x two_atoms 0 d = 0" "x two_atoms (Suc 0) d = (if d = 0 then 1 else 0)" for d
    by (simp_all add: two_atoms_def)
  from two_atoms_opposite_forces [OF h compute_two_atoms]
  have "\<exists>fpair v0 v1 v2.
         pair_fpair (- 1) 4 (on_eb two_atoms_pushed 0) (on_eb two_atoms_pushed 1) 1 = Some fpair
         \<and> dmul (- 1) fpair = Some v0 \<and> dmul 0 fpair = Some v1 \<and> dmul 0 fpair = Some v2
         \<and> f two_atoms_pushed = (f idle_state)
              (0 := (f idle_state 0)(0 := f idle_state 0 0 + v0, 1 := f idle_state 0 1 + v1,
                                     2 := f idle_state 0 2 + v2),
               1 := (f idle_state 1)(0 := f idle_state 1 0 - v0, 1 := f idle_state 1 1 - v1,
                                     2 := f idle_state 1 2 - v2))"
    unfolding g t by (simp add: repulsive_ready_entries force_terms_exp_repulsive xs)
  then show ?thesis
    using h v coeff_repulsive_line init_one_repulsive compute_two_atoms by simp
qed

subsection \<open>The pair filter of pod\<close>

lemma fold_invariant:
  assumes "I s" and "\<And>a s. a \<in> set as \<Longrightarrow> I s \<Longrightarrow> I (g a s)"
  shows "I (fold g as s)"
  using assms by (induction as arbitrary: s) simp_all

lemma lammpsNeighPairs_step_bounds:
  assumes "\<forall>k<nij st. 1 / 10 ^ 20 < rij_sq st k \<and> rij_sq st k < rcutsq"
  shows "\<forall>k<nij (lammpsNeighPairs_step xs fn atomtypes map' gi rcutsq itype l st).
           1 / 10 ^ 20 < rij_sq (lammpsNeighPairs_step xs fn atomtypes map' gi rcutsq itype l st) k
           \<and> rij_sq (lammpsNeighPairs_step xs fn atomtypes map' gi rcutsq itype l st) k < rcutsq"
  using assms
  by (auto simp add: lammpsNeighPairs_step_def Let_def rij_sq_def less_Suc_eq)

lemma lammpsNeighPairs_bounds:
  "\<forall>k<nij (lammpsNeighPairs pod xs fn atomtypes map' nn gi st).
     1 / 10 ^ 20 < rij_sq (lammpsNeighPairs pod xs fn atomtypes map' nn gi st) k
     \<and> rij_sq (lammpsNeighPairs pod xs fn atomtypes map' nn gi st) k < rcut pod * rcut pod"
proof -
  let ?I = "\<lambda>s. \<forall>k<nij s. 1 / 10 ^ 20 < rij_sq s k \<and> rij_sq s k < rcut pod * rcut pod"
  have "?I (fold (lammpsNeighPairs_step xs fn atomtypes map' gi (rcut pod * rcut pod)
                    (map' (atomtypes gi) + 1)) [0..<nn gi]
              (st\<lparr>nij := 0, typeai := (typeai st)(0 := map' (atomtypes gi) + 1)\<rparr>))"
    by (rule fold_invariant) (simp, rule lammpsNeighPairs_step_bounds)
  then show ?thesis
    by (simp add: lammpsNeighPairs_def Let_def rij_sq_def)
qed

subsection \<open>Pairs at zero separation\<close>

text \<open>
  C7, as stated, fails for \<open>PairSMATB::compute\<close>: with two atoms at the same position inside
  the cutoff the second loop reaches the quotient with \<open>dij = 0\<close>, and the force is not a
  finite number.
\<close>

theorem zero_separation_divides_by_zero:
  "pair_dijsq coincident_atoms 0 1 = 0
   \<and> pair_divisor smatb_ready coincident_atoms 0 1 = Some 0
   \<and> compute smatb_ready coincident_atoms idle_state = None"
proof -
  have d: "pair_dijsq coincident_atoms 0 1 = 0"
    by (simp add: pair_dijsq_def coincident_atoms_def two_atoms_def)
  have p: "inum coincident_atoms = 2" "ilist coincident_atoms 0 = 0"
    "numneigh coincident_atoms 0 = Suc 0" "firstneigh coincident_atoms 0 0 = Suc 0"
    "Suc 0 AND NEIGHMASK coincident_atoms = Suc 0" "type coincident_atoms k = Suc 0"
    "x coincident_atoms k l = 0" for k l
    by (simp_all add: coincident_atoms_def two_atoms_def)
  have z: "pair_divisor smatb_ready coincident_atoms 0 (Suc 0) = Some 0"
    by (rule pair_divisor_same_position) (simp_all add: p smatb_ready_cutOffEnd2)
  have "compute smatb_ready coincident_atoms idle_state = None"
    by (rule compute_zero_divisor [where ii = 0 and jj = 0]) (simp_all add: p z)
  with d z show ?thesis by simp
qed

text \<open>
  C7, amended. \<open>CPairPOD::lammpsNeighPairs\<close> passes on only pairs whose squared distance is
  above \<open>1e-20\<close> and below the squared cutoff. \<open>PairSMATB::compute\<close> has no such test: it
  divides by \<open>dij\<close> for every listed pair inside the cutoff, and when that \<open>dij\<close> is zero
  for some listed pair, the forces it leaves are not finite. \<open>dij\<close> is zero for a pair
  inside a positive cutoff with both atoms at the same position.
\<close>

theorem zero_separation_guard:
  "(\<forall>k<nij (lammpsNeighPairs pod xs fn atomtypes map' nn gi ps).
      1 / 10 ^ 20 < rij_sq (lammpsNeighPairs pod xs fn atomtypes map' nn gi ps) k
      \<and> rij_sq (lammpsNeighPairs pod xs fn atomtypes map' nn gi ps) k < rcut pod * rcut pod)
   \<and> (\<forall>ii<inum e. \<forall>jj<numneigh e (ilist e ii).
        pair_divisor c e (ilist e ii) (firstneigh e (ilist e ii) jj) = Some 0
        \<longrightarrow> compute c e st = None)
   \<and> (x e i 0 = x e (jj AND NEIGHMASK e) 0 \<and> x e i 1 = x e (jj AND NEIGHMASK e) 1
        \<and> x e i 2 = x e (jj AND NEIGHMASK e) 2
        \<and> 0 < cutOffEnd2 c (type e i) (type e (jj AND NEIGHMASK e))
      \<longrightarrow> pair_divisor c e i jj = Some 0)"
proof (intro conjI)
  show "\<forall>k<nij (lammpsNeighPairs pod xs fn atomtypes map' nn gi ps).
      1 / 10 ^ 20 < rij_sq (lammpsNeighPairs pod xs fn atomtypes map' nn gi ps) k
      \<and> rij_sq (lammpsNeighPairs pod xs fn atomtypes map' nn gi ps) k < rcut pod * rcut pod"
    by (rule lammpsNeighPairs_bounds)
  show "\<forall>ii<inum e. \<forall>jj<numneigh e (ilist e ii).
        pair_divisor c e (ilist e ii) (firstneigh e (ilist e ii) jj) = Some 0
        \<longrightarrow> compute c e st = None"
    using compute_zero_divisor by blast
  show "x e i 0 = x e (jj AND NEIGHMASK e) 0 \<and> x e i 1 = x e (jj AND NEIGHMASK e) 1
        \<and> x e i 2 = x e (jj AND NEIGHMASK e) 2
        \<and> 0 < cutOffEnd2 c (type e i) (type e (jj AND NEIGHMASK e))
      \<longrightarrow> pair_divisor c e i jj = Some 0"
    using pair_divisor_same_position by blast
qed

lemma nij_pod_pairs_example: "nij pod_pairs_example = 1"
  by (simp add: pod_pairs_example_def lammpsNeighPairs_def lammpsNeighPairs_step_def Let_def
      pod_example_def pod_positions_def pod_pairs_empty_def upt_conv_Cons)

theorem zero_separation_guard_witness:
  "0 < nij pod_pairs_example
   \<and> 1 / 10 ^ 20 < rij_sq pod_pairs_example 0
   \<and> rij_sq pod_pairs_example 0 < rcut pod_example * rcut pod_example
   \<and> 0 < inum coincident_atoms \<and> 0 < numneigh coincident_atoms (ilist coincident_atoms 0)
   \<and> x coincident_atoms 0 0 = x coincident_atoms 1 0
   \<and> x coincident_atoms 0 1 = x coincident_atoms 1 1
   \<and> x coincident_atoms 0 2 = x coincident_atoms 1 2
   \<and> 0 < cutOffEnd2 smatb_ready 1 1
   \<and> pair_divisor smatb_ready coincident_atoms 0 1 = Some 0
   \<and> compute smatb_ready coincident_atoms two_atoms_pushed = None"
proof -
  have h: "0 < nij pod_pairs_example"
    by (simp add: nij_pod_pairs_example)
  have p: "0 < inum coincident_atoms" "0 < numneigh coincident_atoms (ilist coincident_atoms 0)"
    "ilist coincident_atoms 0 = 0" "firstneigh coincident_atoms 0 0 = 1"
    "1 AND NEIGHMASK coincident_atoms = 1" "type coincident_atoms k = 1"
    "x coincident_atoms k l = 0" for k l
    by (simp_all add: coincident_atoms_def two_atoms_def)
  have c: "0 < cutOffEnd2 smatb_ready 1 1"
    by (simp add: smatb_ready_cutOffEnd2)
  note t = zero_separation_guard
      [of pod_example pod_positions "\<lambda>i l. l + 1" "\<lambda>i. 1" "\<lambda>t. 0" "\<lambda>i. 3" 0 pod_pairs_empty
         coincident_atoms smatb_ready two_atoms_pushed 0 1]
  note t1 = t [THEN conjunct1] and t2 = t [THEN conjunct2, THEN conjunct1]
    and t3 = t [THEN conjunct2, THEN conjunct2]
  have d: "pair_divisor smatb_ready coincident_atoms 0 1 = Some 0"
    using t3 c by (simp add: p)
  then have "pair_divisor smatb_ready coincident_atoms (ilist coincident_atoms 0)
          (firstneigh coincident_atoms (ilist coincident_atoms 0) 0) = Some 0"
    by (simp add: p)
  with t2 [rule_format, OF p(1) p(2)]
  have n: "compute smatb_ready coincident_atoms two_atoms_pushed = None" .
  have b: "1 / 10 ^ 20 < rij_sq pod_pairs_example 0
     \<and> rij_sq pod_pairs_example 0 < rcut pod_example * rcut pod_example"
    using t1 [rule_format, of 0] h by (simp add: pod_pairs_example_def)
  show ?thesis
    using h p c d n b by simp
qed

subsection \<open>The accumulator \<open>on_eb\<close> from one call to the next\<close>

lemma smatb_ready_entries:
  "cutOffStart smatb_ready (Suc 0) (Suc 0) = 3" "QSI smatb_ready (Suc 0) (Suc 0) = 1"
  "q smatb_ready (Suc 0) (Suc 0) = 0" "r0 smatb_ready (Suc 0) (Suc 0) = 1"
  "p smatb_ready (Suc 0) (Suc 0) = 0" "A smatb_ready (Suc 0) (Suc 0) = 1"
  using init_one_state_entry [of smatb_example 1 1]
  by (simp_all add: smatb_ready_def smatb_example_def)

lemma first_loop_images:
  "first_loop smatb_ready (atom_with_images\<lparr>newton_pair := nw\<rparr>) eb
     = eb(0 := eb 0 + 2, 1 := eb 1 + 1, 2 := eb 2 + 1)"
  by (simp add: first_loop_def first_loop_pair_def pair_dijsq_def Let_def atom_with_images_def
      smatb_ready_cutOffEnd2 smatb_ready_entries qsiexpq_exp_def upt_conv_Cons fun_eq_iff)

lemma reverse_comm_images:
  "reverse_comm_pair (atom_with_images\<lparr>newton_pair := nw\<rparr>) eb = eb(0 := eb 0 + eb 2 + eb 1)"
  by (simp add: reverse_comm_pair_def unpack_reverse_comm_def pack_reverse_comm_def
      atom_with_images_def fun_eq_iff)

lemma forward_comm_images:
  "forward_comm_pair (atom_with_images\<lparr>newton_pair := nw\<rparr>) eb = eb(1 := eb 0, 2 := eb 0)"
  by (simp add: forward_comm_pair_def unpack_forward_comm_def pack_forward_comm_def
      atom_with_images_def fun_eq_iff)

lemma support_loop_images:
  "on_eb (support_loop (atom_with_images\<lparr>newton_pair := nw\<rparr>) st)
     = (on_eb st)(0 := (if sqrt (on_eb st 0) \<noteq> 0 then 1 / sqrt (on_eb st 0) else 0))"
  by (simp add: support_loop_def support_step_def Let_def atom_with_images_def)

lemma force_terms_exp_ready:
  "force_terms_exp smatb_ready (Suc 0) (Suc 0) 2 = Some (1, 0, 0)"
  by (simp add: force_terms_exp_def smatb_ready_entries double_ops)

lemma pair_geometry_images:
  "pair_geometry (atom_with_images\<lparr>newton_pair := nw\<rparr>) 0 (Suc 0) = Some (- 2, 0, 0, 4)"
  "pair_geometry (atom_with_images\<lparr>newton_pair := nw\<rparr>) 0 2 = Some (2, 0, 0, 4)"
  by (simp_all add: pair_geometry_def atom_with_images_def double_ops)

lemma second_loop_images:
  assumes "f st = (\<lambda>k d. 0)" and "on_eb st 0 = v" and "on_eb st (Suc 0) = v" and "on_eb st 2 = v"
    and "\<bar>v\<bar> \<le> 1"
  shows "second_loop smatb_ready (atom_with_images\<lparr>newton_pair := nw\<rparr>) st = Some st"
proof -
  define e where "e = atom_with_images\<lparr>newton_pair := nw\<rparr>"
  have m: "Suc 0 AND NEIGHMASK e = Suc 0" "2 AND NEIGHMASK e = 2"
    by (simp_all add: e_def atom_with_images_def)
  have t: "type e k = Suc 0" for k
    by (simp add: e_def atom_with_images_def)
  have tl: "tally_pair e i j a st = st" for i j a
    by (simp add: tally_pair_def e_def atom_with_images_def)
  have g: "pair_geometry e 0 (Suc 0) = Some (- 2, 0, 0, 4)"
    "pair_geometry e 0 2 = Some (2, 0, 0, 4)"
    unfolding e_def by (rule pair_geometry_images)+
  have fp: "pair_fpair 0 0 v v 2 = Some 0"
    using assms(5) by (simp add: pair_fpair_def double_ops)
  have a: "add3 (\<lambda>k d. 0) i d0 d1 d2 0 = Some (\<lambda>k d. 0)" for i d0 d1 d2
    by (simp add: add3_def double_ops fun_eq_iff)
  have b: "sub3 (\<lambda>k d. 0) i d0 d1 d2 0 = Some (\<lambda>k d. 0)" for i d0 d1 d2
    by (simp add: sub3_def double_ops fun_eq_iff)
  have st: "st\<lparr>f := \<lambda>k d. 0\<rparr> = st"
    using assms(1) by simp
  have 1: "second_loop_pair smatb_ready e 0 (Suc 0) st = Some st"
    unfolding second_loop_pair_def Let_def m t g
    by (simp add: smatb_ready_cutOffEnd2 smatb_ready_entries dsqrt_def
        force_terms_exp_ready tl assms(1-4) fp a b st)
  have 2: "second_loop_pair smatb_ready e 0 2 st = Some st"
    unfolding second_loop_pair_def Let_def m t g
    by (simp add: smatb_ready_cutOffEnd2 smatb_ready_entries dsqrt_def
        force_terms_exp_ready tl assms(1-4) fp a b st)
  have p: "inum e = Suc 0" "ilist e 0 = 0" "numneigh e 0 = 2"
    "firstneigh e 0 0 = Suc 0" "firstneigh e 0 (Suc 0) = 2"
    by (simp_all add: e_def atom_with_images_def)
  have "second_loop smatb_ready e st = Some st"
    unfolding second_loop_def Let_def p
    by (simp add: upt_conv_Cons p 1 2)
  then show ?thesis
    unfolding e_def .
qed

lemma compute_images:
  fixes nw st g1 g2
  assumes g: "on_eb st 1 = g1" "on_eb st 2 = g2" and n: "0 \<le> g1" "0 \<le> g2"
    and fz: "f st = (\<lambda>k d. 0)"
  defines "e \<equiv> atom_with_images\<lparr>newton_pair := nw\<rparr>"
  defines "t \<equiv> (if nw then 4 else g1 + g2 + 4)"
  shows "\<exists>st'. compute smatb_ready e st = Some st'
           \<and> on_eb st' 0 = 1 / sqrt t
           \<and> on_eb st' 1 = on_eb st' 0 \<and> on_eb st' 2 = on_eb st' 0
           \<and> f st' = (\<lambda>k d. 0)"
proof -
  have proj: "nlocal e = 1" "nghost e = 2" "newton_pair e = nw" "ev e = False"
    by (simp_all add: e_def atom_with_images_def)
  define z where "z = (if newton_pair e then memset_zero (nlocal e + nghost e) (on_eb st)
                       else memset_zero (nlocal e) (on_eb st))"
  have g': "on_eb st (Suc 0) = g1"
    using g(1) by simp
  have z: "z 0 = 0" "z 1 = (if nw then 0 else g1)" "z 2 = (if nw then 0 else g2)"
    by (simp_all add: z_def proj memset_zero_def g g')
  define eb where "eb = reverse_comm_pair e (first_loop smatb_ready e z)"
  have "eb 0 = z 0 + 2 + (z 2 + 1) + (z 1 + 1)"
    unfolding eb_def e_def reverse_comm_images first_loop_images by simp
  then have eb0: "eb 0 = t"
    unfolding z t_def by simp
  define st1 where "st1 = support_loop e (st\<lparr>on_eb := eb\<rparr>)"
  define w where "w = st1\<lparr>on_eb := forward_comm_pair e (on_eb st1)\<rparr>"
  have c: "compute smatb_ready e st = second_loop smatb_ready e w"
    unfolding compute_def Let_def w_def st1_def eb_def z_def by (simp add: proj)
  have t4: "4 \<le> t"
    using n by (simp add: t_def)
  then have s2: "2 \<le> sqrt t"
    using real_sqrt_le_mono [of 4 t] by simp
  have "on_eb st1 0 = (if sqrt (eb 0) \<noteq> 0 then 1 / sqrt (eb 0) else 0)"
    unfolding st1_def e_def support_loop_images by simp
  then have s: "on_eb st1 0 = 1 / sqrt t"
    unfolding eb0 using s2 by simp
  have "on_eb w = (on_eb st1)(1 := on_eb st1 0, 2 := on_eb st1 0)"
    unfolding w_def e_def by (simp add: forward_comm_images)
  then have o: "on_eb w 0 = 1 / sqrt t" "on_eb w (Suc 0) = 1 / sqrt t" "on_eb w 2 = 1 / sqrt t"
    by (simp_all add: s)
  have fw: "f w = (\<lambda>k d. 0)"
    by (simp add: w_def st1_def f_support_loop fz)
  have p: "0 < sqrt t"
    using s2 by linarith
  then have "1 / sqrt t \<le> 1"
    using t4 by (simp add: field_simps)
  moreover have "\<bar>1 / sqrt t\<bar> = 1 / sqrt t"
    using p by simp
  ultimately have b: "\<bar>1 / sqrt t\<bar> \<le> 1"
    by simp
  have "second_loop smatb_ready e w = Some w"
    unfolding e_def by (rule second_loop_images [OF fw [unfolded e_def] o b])
  with c o fw show ?thesis by simp
qed

text \<open>
  C1 at an input with Newton pair off: one atom and its two periodic images, and two calls
  of \<open>compute\<close> in a row with no atom moved. The first call, from zeroed accumulators,
  leaves \<open>1/2\<close> in \<open>on_eb\<close> of the atom and of both ghosts. The second call zeroes only the
  entry of the local atom; the first loop adds to the ghost entries as they stand, the
  reverse exchange adds them to the owner, and the atom ends with \<open>1 / sqrt 5\<close>: the value
  of the step before has been carried over. With Newton pair on, all entries are zeroed
  and the second call gives \<open>1/2\<close> again.
\<close>

theorem ghost_on_eb_carried_over:
  "(\<exists>s1 s2. compute smatb_ready atom_with_images idle_state = Some s1
       \<and> compute smatb_ready atom_with_images s1 = Some s2
       \<and> on_eb s1 0 = 1 / 2 \<and> on_eb s1 1 = 1 / 2 \<and> on_eb s1 2 = 1 / 2
       \<and> on_eb s2 0 = 1 / sqrt 5)
   \<and> (\<exists>t1 t2. compute smatb_ready (atom_with_images\<lparr>newton_pair := True\<rparr>) idle_state = Some t1
       \<and> compute smatb_ready (atom_with_images\<lparr>newton_pair := True\<rparr>) t1 = Some t2
       \<and> on_eb t1 0 = 1 / 2 \<and> on_eb t2 0 = 1 / 2)"
proof
  have off: "atom_with_images\<lparr>newton_pair := False\<rparr> = atom_with_images"
    by (simp add: atom_with_images_def)
  have i: "on_eb idle_state 1 = 0" "on_eb idle_state 2 = 0" "f idle_state = (\<lambda>k d. 0)"
    by (simp_all add: idle_state_def)
  have z: "(0::real) \<le> 0" and h: "(0::real) \<le> 1 / 2"
    by simp_all
  from compute_images [OF i(1,2) z z i(3), of False]
  obtain s1 where s1: "compute smatb_ready atom_with_images idle_state = Some s1"
    and a: "on_eb s1 0 = 1 / 2" and b: "on_eb s1 1 = 1 / 2" and c: "on_eb s1 2 = 1 / 2"
    and fs: "f s1 = (\<lambda>k d. 0)"
    unfolding off by auto
  from compute_images [OF b c h h fs, of False]
  obtain s2 where s2: "compute smatb_ready atom_with_images s1 = Some s2"
    and d: "on_eb s2 0 = 1 / sqrt 5"
    unfolding off by auto
  show "\<exists>s1 s2. compute smatb_ready atom_with_images idle_state = Some s1
       \<and> compute smatb_ready atom_with_images s1 = Some s2
       \<and> on_eb s1 0 = 1 / 2 \<and> on_eb s1 1 = 1 / 2 \<and> on_eb s1 2 = 1 / 2
       \<and> on_eb s2 0 = 1 / sqrt 5"
    using s1 s2 a b c d by blast
next
  have i: "on_eb idle_state 1 = 0" "on_eb idle_state 2 = 0" "f idle_state = (\<lambda>k d. 0)"
    by (simp_all add: idle_state_def)
  have z: "(0::real) \<le> 0" and h: "(0::real) \<le> 1 / 2"
    by simp_all
  from compute_images [OF i(1,2) z z i(3), of True]
  obtain t1 where t1: "compute smatb_ready (atom_with_images\<lparr>newton_pair := True\<rparr>) idle_state = Some t1"
    and a: "on_eb t1 0 = 1 / 2" and b: "on_eb t1 1 = 1 / 2" and c: "on_eb t1 2 = 1 / 2"
    and ft: "f t1 = (\<lambda>k d. 0)"
    by auto
  from compute_images [OF b c h h ft, of True]
  obtain t2 where t2: "compute smatb_ready (atom_with_images\<lparr>newton_pair := True\<rparr>) t1 = Some t2"
    and b: "on_eb t2 0 = 1 / 2"
    by auto
  show "\<exists>t1 t2. compute smatb_ready (atom_with_images\<lparr>newton_pair := True\<rparr>) idle_state = Some t1
       \<and> compute smatb_ready (atom_with_images\<lparr>newton_pair := True\<rparr>) t1 = Some t2
       \<and> on_eb t1 0 = 1 / 2 \<and> on_eb t2 0 = 1 / 2"
    using t1 t2 a b by blast
qed

subsection \<open>With Newton's third law on, the old contents of \<open>on_eb\<close> are not read\<close>

text \<open>
  The branch \<open>newton_pair\<close> of \<open>PairSMATB::compute\<close> zeroes all \<open>nlocal + nghost\<close> entries,
  so that two calls from states that differ only in \<open>on_eb\<close> give the same forces and
  energies and the same \<open>on_eb\<close> below \<open>nlocal + nghost\<close>, and fail together.
\<close>

lemma fold_rel:
  assumes "R s s'" and "\<And>a s s'. a \<in> set as \<Longrightarrow> R s s' \<Longrightarrow> R (g a s) (g a s')"
  shows "R (fold g as s) (fold g as s')"
  using assms by (induction as arbitrary: s s') simp_all

lemma fold_option_rel:
  assumes "R s s'"
    and "\<And>a s s'. a \<in> set as \<Longrightarrow> R s s' \<Longrightarrow> rel_option R (g a s) (g a s')"
  shows "rel_option R (fold_option g as s) (fold_option g as s')"
  using assms
proof (induction as arbitrary: s s')
  case Nil
  then show ?case by simp
next
  case (Cons a as)
  have "rel_option R (g a s) (g a s')"
    using Cons.prems by simp
  then show ?case
  proof (cases rule: option.rel_cases)
    case None
    then show ?thesis by simp
  next
    case (Some t t')
    have "rel_option R (fold_option g as t) (fold_option g as t')"
      by (rule Cons.IH [OF Some(3)]) (simp add: Cons.prems(2))
    then show ?thesis using Some by simp
  qed
qed

lemma first_loop_pair_agree:
  assumes "agree_below n a b" and "i < n" and "jj AND NEIGHMASK e < n"
  shows "agree_below n (first_loop_pair c e i jj a) (first_loop_pair c e i jj b)"
  using assms by (simp add: agree_below_def first_loop_pair_def Let_def)

lemma first_loop_agree:
  assumes "agree_below n a b" and "indices_below e n"
  shows "agree_below n (first_loop c e a) (first_loop c e b)"
  unfolding first_loop_def Let_def
proof (rule fold_rel [where R = "agree_below n", OF assms(1)])
  fix ii s s'
  assume ii: "ii \<in> set [0..<inum e]" and r: "agree_below n s s'"
  show "agree_below n
          (fold (\<lambda>jj. first_loop_pair c e (ilist e ii) (firstneigh e (ilist e ii) jj))
             [0..<numneigh e (ilist e ii)] s)
          (fold (\<lambda>jj. first_loop_pair c e (ilist e ii) (firstneigh e (ilist e ii) jj))
             [0..<numneigh e (ilist e ii)] s')"
  proof (rule fold_rel [where R = "agree_below n", OF r])
    fix jj t t'
    assume "jj \<in> set [0..<numneigh e (ilist e ii)]" and "agree_below n t t'"
    then show "agree_below n
            (first_loop_pair c e (ilist e ii) (firstneigh e (ilist e ii) jj) t)
            (first_loop_pair c e (ilist e ii) (firstneigh e (ilist e ii) jj) t')"
      using ii assms(2) by (intro first_loop_pair_agree) (auto simp add: indices_below_def)
  qed
qed


lemma pack_reverse_comm_agree:
  assumes "agree_below n a b" and "first + m \<le> n"
  shows "pack_reverse_comm m first a = pack_reverse_comm m first b"
  using assms by (simp add: pack_reverse_comm_def agree_below_def)

lemma pack_forward_comm_agree:
  assumes "agree_below n a b" and "\<forall>k\<in>set list. k < n" and "m \<le> length list"
  shows "pack_forward_comm m list a = pack_forward_comm m list b"
  using assms by (simp add: pack_forward_comm_def agree_below_def)

lemma unpack_reverse_comm_agree:
  assumes "agree_below n a b"
  shows "agree_below n (unpack_reverse_comm m list buf a) (unpack_reverse_comm m list buf b)"
  unfolding unpack_reverse_comm_def
  by (rule fold_rel [where R = "agree_below n", OF assms]) (simp add: agree_below_def)

lemma unpack_forward_comm_agree:
  assumes "agree_below n a b"
  shows "agree_below n (unpack_forward_comm m first buf a) (unpack_forward_comm m first buf b)"
  unfolding unpack_forward_comm_def
  by (rule fold_rel [where R = "agree_below n", OF assms]) (simp add: agree_below_def)

lemma reverse_comm_pair_agree:
  assumes "agree_below n a b" and "indices_below e n"
  shows "agree_below n (reverse_comm_pair e a) (reverse_comm_pair e b)"
  unfolding reverse_comm_pair_def
proof (rule fold_rel [where R = "agree_below n", OF assms(1)])
  fix sw s s'
  assume sw: "sw \<in> set (rev (swaps e))" and r: "agree_below n s s'"
  obtain sendlist firstrecv where sw': "sw = (sendlist, firstrecv)" by (cases sw)
  have "firstrecv + length sendlist \<le> n"
    using sw assms(2) unfolding sw' indices_below_def by auto
  from pack_reverse_comm_agree [OF r this]
  show "agree_below n
          ((case sw of (sendlist, firstrecv) \<Rightarrow> \<lambda>eb.
              unpack_reverse_comm (length sendlist) sendlist
                (pack_reverse_comm (length sendlist) firstrecv eb) eb) s)
          ((case sw of (sendlist, firstrecv) \<Rightarrow> \<lambda>eb.
              unpack_reverse_comm (length sendlist) sendlist
                (pack_reverse_comm (length sendlist) firstrecv eb) eb) s')"
    unfolding sw' by (simp add: unpack_reverse_comm_agree [OF r])
qed

lemma forward_comm_pair_agree:
  assumes "agree_below n a b" and "indices_below e n"
  shows "agree_below n (forward_comm_pair e a) (forward_comm_pair e b)"
  unfolding forward_comm_pair_def
proof (rule fold_rel [where R = "agree_below n", OF assms(1)])
  fix sw s s'
  assume sw: "sw \<in> set (swaps e)" and r: "agree_below n s s'"
  obtain sendlist firstrecv where sw': "sw = (sendlist, firstrecv)" by (cases sw)
  have "\<forall>k\<in>set sendlist. k < n"
    using sw assms(2) unfolding sw' indices_below_def by auto
  from pack_forward_comm_agree [OF r this order_refl]
  show "agree_below n
          ((case sw of (sendlist, firstrecv) \<Rightarrow> \<lambda>eb.
              unpack_forward_comm (length sendlist) firstrecv
                (pack_forward_comm (length sendlist) sendlist eb) eb) s)
          ((case sw of (sendlist, firstrecv) \<Rightarrow> \<lambda>eb.
              unpack_forward_comm (length sendlist) firstrecv
                (pack_forward_comm (length sendlist) sendlist eb) eb) s')"
    unfolding sw' by (simp add: unpack_forward_comm_agree [OF r])
qed

lemma support_step_same:
  assumes "same_below n s s'" and "ilist e ii < n"
  shows "same_below n (support_step e ii s) (support_step e ii s')"
  using assms by (simp add: same_below_def agree_below_def support_step_def Let_def)

lemma support_loop_same:
  assumes "same_below n s s'" and "indices_below e n"
  shows "same_below n (support_loop e s) (support_loop e s')"
  unfolding support_loop_def
proof (rule fold_rel [where R = "same_below n", OF assms(1)])
  fix ii t t'
  assume "ii \<in> set [0..<inum e]" and "same_below n t t'"
  then show "same_below n (support_step e ii t) (support_step e ii t')"
    using assms(2) by (intro support_step_same) (auto simp add: indices_below_def)
qed

lemma tally_pair_same:
  assumes "same_below n s s'"
  shows "same_below n (tally_pair e i j a s) (tally_pair e i j a s')"
  using assms by (simp add: same_below_def tally_pair_def Let_def)

lemma rel_option_bind_same:
  assumes "\<And>y. m = Some y \<Longrightarrow> rel_option R (k y) (k' y)"
  shows "rel_option R (Option.bind m k) (Option.bind m k')"
  using assms by (cases m) simp_all

lemma second_loop_pair_same:
  assumes "same_below n s s'" and "i < n" and "jj AND NEIGHMASK e < n"
  shows "rel_option (same_below n) (second_loop_pair c e i jj s) (second_loop_pair c e i jj s')"
proof -
  have t: "same_below n (tally_pair e i j a s) (tally_pair e i j a s')" for j a
    by (rule tally_pair_same [OF assms(1)])
  have o: "on_eb s' i = on_eb s i" "on_eb s' (jj AND NEIGHMASK e) = on_eb s (jj AND NEIGHMASK e)"
    "f s' = f s"
    using assms by (simp_all add: same_below_def agree_below_def)
  have u: "same_below n (t\<lparr>f := a\<rparr>) (t'\<lparr>f := a\<rparr>)" if "same_below n t t'" for t t' a
    using that by (simp add: same_below_def)
  show ?thesis
    unfolding second_loop_pair_def Let_def on_eb_tally_pair f_tally_pair o
    apply (rule rel_option_bind_same)
    apply (clarsimp simp add: assms(1))
    apply (rule rel_option_bind_same)
    apply (rule rel_option_bind_same)
    apply (clarsimp simp del: rel_option_iff)
    apply (rule rel_option_bind_same)
    apply (rule rel_option_bind_same)
    apply (auto intro!: rel_option_bind_same u t)
    done
qed

lemma second_loop_same:
  assumes "same_below n s s'" and "indices_below e n"
  shows "rel_option (same_below n) (second_loop c e s) (second_loop c e s')"
  unfolding second_loop_def
proof (rule fold_option_rel [where R = "same_below n", OF assms(1)])
  fix ii t t'
  assume ii: "ii \<in> set [0..<inum e]" and r: "same_below n t t'"
  have i: "ilist e ii < n"
    and j: "\<forall>jj<numneigh e (ilist e ii). firstneigh e (ilist e ii) jj AND NEIGHMASK e < n"
    using ii assms(2) by (auto simp add: indices_below_def)
  have "rel_option (same_below n)
          (fold_option (\<lambda>jj. second_loop_pair c e (ilist e ii) (firstneigh e (ilist e ii) jj))
             [0..<numneigh e (ilist e ii)] t)
          (fold_option (\<lambda>jj. second_loop_pair c e (ilist e ii) (firstneigh e (ilist e ii) jj))
             [0..<numneigh e (ilist e ii)] t')"
  proof (rule fold_option_rel [where R = "same_below n", OF r])
    fix jj u u'
    assume "jj \<in> set [0..<numneigh e (ilist e ii)]" and "same_below n u u'"
    then show "rel_option (same_below n)
                 (second_loop_pair c e (ilist e ii) (firstneigh e (ilist e ii) jj) u)
                 (second_loop_pair c e (ilist e ii) (firstneigh e (ilist e ii) jj) u')"
      using i j by (intro second_loop_pair_same) simp_all
  qed
  then show "rel_option (same_below n)
          ((let i = ilist e ii
            in fold_option (\<lambda>jj. second_loop_pair c e i (firstneigh e i jj)) [0..<numneigh e i]) t)
          ((let i = ilist e ii
            in fold_option (\<lambda>jj. second_loop_pair c e i (firstneigh e i jj)) [0..<numneigh e i]) t')"
    by (simp add: Let_def)
qed

lemma memset_zero_agree:
  "agree_below n (memset_zero n a) (memset_zero n b)"
  by (simp add: agree_below_def memset_zero_def)

lemma compute_newton_ignores_old_on_eb:
  assumes "newton_pair e" and "indices_below e (nlocal e + nghost e)"
    and "f st = f st'" and "eatom st = eatom st'" and "eng_vdwl st = eng_vdwl st'"
  shows "rel_option (same_below (nlocal e + nghost e)) (compute c e st) (compute c e st')"
proof -
  define n where "n = nlocal e + nghost e"
  define z where "z t = (if ev e then t\<lparr>eng_vdwl := 0\<rparr> else t)" for t :: compute_state
  define a where "a t = reverse_comm_pair e (first_loop c e (memset_zero n (on_eb t)))"
    for t :: compute_state
  define m where "m t = support_loop e ((z t)\<lparr>on_eb := a t\<rparr>)" for t :: compute_state
  define w where "w t = (m t)\<lparr>on_eb := forward_comm_pair e (on_eb (m t))\<rparr>" for t :: compute_state
  have i: "indices_below e n"
    using assms(2) by (simp add: n_def)
  have c: "compute c e t = second_loop c e (w t)" for t
    using assms(1) by (simp add: compute_def Let_def w_def m_def a_def z_def n_def)
  have "agree_below n (a st) (a st')"
    unfolding a_def
    by (intro reverse_comm_pair_agree first_loop_agree memset_zero_agree i)
  then have "same_below n ((z st)\<lparr>on_eb := a st\<rparr>) ((z st')\<lparr>on_eb := a st'\<rparr>)"
    using assms(3-5) by (simp add: same_below_def z_def)
  then have s: "same_below n (m st) (m st')"
    unfolding m_def by (rule support_loop_same [OF _ i])
  then have "agree_below n (forward_comm_pair e (on_eb (m st))) (forward_comm_pair e (on_eb (m st')))"
    by (intro forward_comm_pair_agree i) (simp add: same_below_def)
  with s have "same_below n (w st) (w st')"
    by (simp add: same_below_def w_def)
  then have "rel_option (same_below n) (second_loop c e (w st)) (second_loop c e (w st'))"
    by (rule second_loop_same [OF _ i])
  then show ?thesis
    by (simp only: c n_def)
qed

subsection \<open>The stencil\<close>

lemma acc_entries_create_bin:
  "acc_entries (create_bin bd st typesq k j i acc) =
     acc_entries acc @
       (if bd i j k < typesq then [(k * mbiny st * mbinx st + j * mbinx st + i, bd i j k)] else [])"
  by (cases acc) (simp add: acc_entries_def create_bin_def Let_def)

lemma nested_fold_concat:
  "fold (\<lambda>k. fold (\<lambda>j. fold (\<lambda>i. g k j i) is) js) ks =
     fold (\<lambda>(k, j, i). g k j i)
       (concat (map (\<lambda>k. concat (map (\<lambda>j. map (\<lambda>i. (k, j, i)) is) js)) ks))"
proof -
  have inner: "fold (\<lambda>i. g k j i) is = fold (\<lambda>(k, j, i). g k j i) (map (\<lambda>i. (k, j, i)) is)" for k j
    by (simp add: fold_map comp_def)
  have mid: "fold (\<lambda>j. fold (\<lambda>i. g k j i) is) js
       = fold (\<lambda>(k, j, i). g k j i) (concat (map (\<lambda>j. map (\<lambda>i. (k, j, i)) is) js))" for k
    by (induction js) (simp_all add: inner)
  show ?thesis
    by (induction ks) (simp_all add: mid)
qed

lemma acc_entries_init: "acc_entries (0, s, d) = []"
  by (simp add: acc_entries_def)

lemma acc_entries_scan:
  "acc_entries (fold (\<lambda>(k, j, i). create_bin bd st typesq k j i) ts acc) =
     acc_entries acc @
       map (\<lambda>(k, j, i). (k * mbiny st * mbinx st + j * mbinx st + i, bd i j k))
         (filter (\<lambda>(k, j, i). bd i j k < typesq) ts)"
  by (induction ts arbitrary: acc) (auto simp add: acc_entries_create_bin)


lemma create_type_entries:
  "stencil_entries (create_type bd itype st) itype = expected_entries bd st itype"
proof -
  define r where "r = fold (\<lambda>k. fold (\<lambda>j. fold (\<lambda>i. create_bin bd st (cuttypesq st itype) k j i)
                                  [- sx st..sx st]) [- sy st..sy st]) [- sz st..sz st]
                        (0, stencil_multi_old st itype, distsq_multi_old st itype)"
  have "stencil_entries (create_type bd itype st) itype = acc_entries r"
    by (simp add: create_type_def Let_def stencil_entries_def acc_entries_def r_def
        split: prod.splits)
  also have "\<dots> = expected_entries bd st itype"
    by (simp add: r_def nested_fold_concat acc_entries_scan expected_entries_def scan_order_def
        acc_entries_init)
  finally show ?thesis .
qed

lemma create_type_other:
  "t \<noteq> itype \<Longrightarrow> stencil_entries (create_type bd t st) itype = stencil_entries st itype"
  by (simp add: create_type_def Let_def stencil_entries_def split: prod.splits)

lemma create_type_geometry:
  "sx (create_type bd t st) = sx st" "sy (create_type bd t st) = sy st"
  "sz (create_type bd t st) = sz st" "mbinx (create_type bd t st) = mbinx st"
  "mbiny (create_type bd t st) = mbiny st" "ntypes (create_type bd t st) = ntypes st"
  "cuttypesq (create_type bd t st) = cuttypesq st"
  by (simp_all add: create_type_def Let_def split: prod.splits)

lemma expected_entries_create_type:
  "expected_entries bd (create_type bd' t st) itype = expected_entries bd st itype"
  by (simp add: expected_entries_def scan_order_def create_type_geometry)

lemma fold_create_type_entries:
  "itype \<in> set ts \<Longrightarrow>
     stencil_entries (fold (create_type bd) ts st) itype = expected_entries bd st itype"
proof (induction ts arbitrary: st rule: rev_induct)
  case Nil
  then show ?case by simp
next
  case (snoc t ts)
  have e: "expected_entries bd (fold (create_type bd) ts st) itype = expected_entries bd st itype"
    for st
    by (induction ts arbitrary: st) (simp_all add: expected_entries_create_type)
  show ?case
  proof (cases "t = itype")
    case True
    then show ?thesis by (simp add: create_type_entries e)
  next
    case False
    with snoc.prems have "itype \<in> set ts" by simp
    then show ?thesis using False by (simp add: create_type_other snoc.IH)
  qed
qed

lemma create_entries:
  assumes "1 \<le> itype" and "itype \<le> ntypes st"
  shows "stencil_entries (create bd st) itype = expected_entries bd st itype"
  unfolding create_def using assms by (intro fold_create_type_entries) auto

lemma concat_map_Pair: "concat (map (\<lambda>a. map (\<lambda>b. (a, b)) bs) as) = List.product as bs"
  by (induction as) simp_all

lemma scan_order_product:
  "scan_order st =
     List.product [- sz st..sz st] (List.product [- sy st..sy st] [- sx st..sx st])"
proof -
  have "concat (map (\<lambda>j. map (\<lambda>i. (k, j, i)) is) js) = map (\<lambda>b. (k, b)) (List.product js is)"
    for k :: int and js "is" :: "int list"
    by (simp add: concat_map_Pair [symmetric] map_concat comp_def)
  then show ?thesis
    by (simp add: scan_order_def concat_map_Pair)
qed

lemma distinct_scan_order: "distinct (scan_order st)"
  by (simp add: scan_order_product distinct_product)

lemma set_scan_order:
  "set (scan_order st) = {(k, j, i). \<bar>i\<bar> \<le> sx st \<and> \<bar>j\<bar> \<le> sy st \<and> \<bar>k\<bar> \<le> sz st}"
  by (auto simp add: scan_order_product abs_le_iff)


lemma stencil_entries_nth:
  assumes "m < nstencil_multi_old st t"
  shows "stencil_entries st t ! m = (stencil_multi_old st t m, distsq_multi_old st t m)"
  using assms by (simp add: stencil_entries_def)

lemma length_stencil_entries: "length (stencil_entries st t) = nstencil_multi_old st t"
  by (simp add: stencil_entries_def)

lemma set_stencil_entries:
  "set (stencil_entries st t) =
     (\<lambda>m. (stencil_multi_old st t m, distsq_multi_old st t m)) ` {..<nstencil_multi_old st t}"
  by (auto simp add: stencil_entries_def)

lemma set_filter_scan_order:
  "set (filter (\<lambda>(k, j, i). bd i j k < c) (scan_order st)) =
     {(k, j, i). \<bar>i\<bar> \<le> sx st \<and> \<bar>j\<bar> \<le> sy st \<and> \<bar>k\<bar> \<le> sz st \<and> bd i j k < c}"
  by (auto simp add: set_scan_order)

lemma set_expected_entries:
  "set (expected_entries bd st itype) =
     (\<lambda>(k, j, i). (k * mbiny st * mbinx st + j * mbinx st + i, bd i j k)) `
       {(k, j, i). \<bar>i\<bar> \<le> sx st \<and> \<bar>j\<bar> \<le> sy st \<and> \<bar>k\<bar> \<le> sz st \<and> bd i j k < cuttypesq st itype}"
  unfolding expected_entries_def set_map set_filter_scan_order by (rule refl)

lemma length_expected_entries:
  "length (expected_entries bd st itype) =
     card {(k, j, i). \<bar>i\<bar> \<le> sx st \<and> \<bar>j\<bar> \<le> sy st \<and> \<bar>k\<bar> \<le> sz st \<and> bd i j k < cuttypesq st itype}"
proof -
  have "distinct (filter (\<lambda>(k, j, i). bd i j k < cuttypesq st itype) (scan_order st))"
    by (simp add: distinct_scan_order)
  from distinct_card [OF this] show ?thesis
    unfolding set_filter_scan_order by (simp add: expected_entries_def)
qed

text \<open>
  C5. After \<open>create\<close>, for every atom type \<open>itype\<close> from 1 to \<open>ntypes\<close>: every offset
  \<open>(i, j, k)\<close> within \<open>sx\<close>, \<open>sy\<close>, \<open>sz\<close> whose \<open>bin_distance\<close> is below \<open>cuttypesq[itype]\<close> has
  an entry in the stencil of the type, every entry comes from such an offset, and the
  number of entries is the number of such offsets. In particular a bin within the scanned
  range is in the stencil whenever some squared distance \<open>d\<close> below the squared cutoff is
  possible between it and the reference bin, \<open>bin_distance\<close> being a lower bound of the
  possible distances.
\<close>

theorem stencil_holds_exactly_the_bins_in_cutoff:
  assumes "1 \<le> itype" and "itype \<le> ntypes st"
  shows "(\<forall>i j k. \<bar>i\<bar> \<le> sx st \<and> \<bar>j\<bar> \<le> sy st \<and> \<bar>k\<bar> \<le> sz st \<and> bd i j k < cuttypesq st itype \<longrightarrow>
            (\<exists>m<nstencil_multi_old (create bd st) itype.
               stencil_multi_old (create bd st) itype m = k * mbiny st * mbinx st + j * mbinx st + i
               \<and> distsq_multi_old (create bd st) itype m = bd i j k))
       \<and> (\<forall>m<nstencil_multi_old (create bd st) itype.
            \<exists>i j k. \<bar>i\<bar> \<le> sx st \<and> \<bar>j\<bar> \<le> sy st \<and> \<bar>k\<bar> \<le> sz st \<and> bd i j k < cuttypesq st itype
               \<and> stencil_multi_old (create bd st) itype m = k * mbiny st * mbinx st + j * mbinx st + i
               \<and> distsq_multi_old (create bd st) itype m = bd i j k)
       \<and> nstencil_multi_old (create bd st) itype =
            card {(k, j, i). \<bar>i\<bar> \<le> sx st \<and> \<bar>j\<bar> \<le> sy st \<and> \<bar>k\<bar> \<le> sz st
                              \<and> bd i j k < cuttypesq st itype}
       \<and> (\<forall>i j k d. \<bar>i\<bar> \<le> sx st \<and> \<bar>j\<bar> \<le> sy st \<and> \<bar>k\<bar> \<le> sz st
                     \<and> bd i j k \<le> d \<and> d < cuttypesq st itype \<longrightarrow>
            (\<exists>m<nstencil_multi_old (create bd st) itype.
               stencil_multi_old (create bd st) itype m = k * mbiny st * mbinx st + j * mbinx st + i))"
proof -
  let ?st = "create bd st"
  let ?Q = "{(k, j, i). \<bar>i\<bar> \<le> sx st \<and> \<bar>j\<bar> \<le> sy st \<and> \<bar>k\<bar> \<le> sz st \<and> bd i j k < cuttypesq st itype}"
  let ?E = "\<lambda>(k, j, i). (k * mbiny st * mbinx st + j * mbinx st + i, bd i j k)"
  note ce = create_entries [OF assms, of bd]
  have sets: "(\<lambda>m. (stencil_multi_old ?st itype m, distsq_multi_old ?st itype m))
                ` {..<nstencil_multi_old ?st itype} = ?E ` ?Q"
    using ce by (simp only: set_stencil_entries [symmetric] set_expected_entries [symmetric])
  have 1: "\<exists>m<nstencil_multi_old ?st itype.
               stencil_multi_old ?st itype m = k * mbiny st * mbinx st + j * mbinx st + i
               \<and> distsq_multi_old ?st itype m = bd i j k"
    if "\<bar>i\<bar> \<le> sx st" "\<bar>j\<bar> \<le> sy st" "\<bar>k\<bar> \<le> sz st" "bd i j k < cuttypesq st itype" for i j k
  proof -
    have "(k, j, i) \<in> ?Q" using that by simp
    then have "?E (k, j, i) \<in> ?E ` ?Q" by (rule imageI)
    then have "(k * mbiny st * mbinx st + j * mbinx st + i, bd i j k)
        \<in> (\<lambda>m. (stencil_multi_old ?st itype m, distsq_multi_old ?st itype m))
                ` {..<nstencil_multi_old ?st itype}"
      unfolding sets by simp
    then show ?thesis by auto
  qed
  have 2: "\<exists>i j k. \<bar>i\<bar> \<le> sx st \<and> \<bar>j\<bar> \<le> sy st \<and> \<bar>k\<bar> \<le> sz st \<and> bd i j k < cuttypesq st itype
               \<and> stencil_multi_old ?st itype m = k * mbiny st * mbinx st + j * mbinx st + i
               \<and> distsq_multi_old ?st itype m = bd i j k"
    if "m < nstencil_multi_old ?st itype" for m
  proof -
    have "(stencil_multi_old ?st itype m, distsq_multi_old ?st itype m) \<in> ?E ` ?Q"
      using that sets by blast
    then show ?thesis by auto
  qed
  have 3: "nstencil_multi_old ?st itype = card ?Q"
    using ce length_stencil_entries [of ?st itype] length_expected_entries [of bd st itype]
    by simp
  have 4: "\<exists>m<nstencil_multi_old ?st itype.
               stencil_multi_old ?st itype m = k * mbiny st * mbinx st + j * mbinx st + i"
    if "\<bar>i\<bar> \<le> sx st" "\<bar>j\<bar> \<le> sy st" "\<bar>k\<bar> \<le> sz st" "bd i j k \<le> d" "d < cuttypesq st itype"
    for i j k d
  proof -
    have "bd i j k < cuttypesq st itype" using that(4,5) by simp
    from 1 [OF that(1-3) this] show ?thesis by blast
  qed
  show ?thesis
    using 1 2 3 4 by blast
qed


lemma scan_order_example:
  "scan_order stencil_example = [(0, 0, - 2), (0, 0, - 1), (0, 0, 0), (0, 0, 1), (0, 0, 2)]"
  by (simp add: scan_order_def stencil_example_def upto_rec1)

lemma bin_distance_example:
  "bin_distance 1 1 1 (- 2) 0 0 = 1" "bin_distance 1 1 1 (- 1) 0 0 = 0"
  "bin_distance 1 1 1 0 0 0 = 0" "bin_distance 1 1 1 1 0 0 = 0" "bin_distance 1 1 1 2 0 0 = 1"
  by (simp_all add: bin_distance_def)

lemma expected_entries_example:
  "expected_entries (bin_distance 1 1 1) stencil_example 1
     = [(- 2, 1), (- 1, 0), (0, 0), (1, 0), (2, 1)]"
  unfolding expected_entries_def scan_order_example
  by (simp add: bin_distance_example) (simp add: stencil_example_def)

lemma stencil_entries_example:
  "stencil_entries (create (bin_distance 1 1 1) stencil_example) 1
     = [(- 2, 1), (- 1, 0), (0, 0), (1, 0), (2, 1)]"
proof -
  have "stencil_entries (create (bin_distance 1 1 1) stencil_example) 1
          = expected_entries (bin_distance 1 1 1) stencil_example 1"
    by (rule create_entries) (simp_all add: stencil_example_def)
  then show ?thesis by (simp only: expected_entries_example)
qed

theorem stencil_holds_exactly_the_bins_in_cutoff_witness:
  "(1::nat) \<le> 1 \<and> 1 \<le> ntypes stencil_example
   \<and> nstencil_multi_old (create (bin_distance 1 1 1) stencil_example) 1 =
        card {(k, j, i). \<bar>i\<bar> \<le> sx stencil_example \<and> \<bar>j\<bar> \<le> sy stencil_example
                \<and> \<bar>k\<bar> \<le> sz stencil_example
                \<and> bin_distance 1 1 1 i j k < cuttypesq stencil_example 1}"
proof -
  have h1: "(1::nat) \<le> 1" by simp
  have h2: "1 \<le> ntypes stencil_example" by (simp add: stencil_example_def)
  show ?thesis
    using h1 h2
      stencil_holds_exactly_the_bins_in_cutoff [OF h1 h2, of "bin_distance 1 1 1"]
    by blast
qed

text \<open>
  C6, as stated, fails: for a row of five bins of edge length 1 and squared cutoff 2 the
  stored squared distances begin with 1 and 0.
\<close>

theorem stencil_not_sorted_by_distance:
  "nstencil_multi_old (create (bin_distance 1 1 1) stencil_example) 1 = 5
   \<and> distsq_multi_old (create (bin_distance 1 1 1) stencil_example) 1 0 = 1
   \<and> distsq_multi_old (create (bin_distance 1 1 1) stencil_example) 1 1 = 0"
proof -
  let ?st = "create (bin_distance 1 1 1) stencil_example"
  have n: "nstencil_multi_old ?st 1 = 5"
    using length_stencil_entries [of ?st 1] unfolding stencil_entries_example by simp
  have "stencil_entries ?st 1 ! 0 = (stencil_multi_old ?st 1 0, distsq_multi_old ?st 1 0)"
    by (rule stencil_entries_nth) (simp only: n)
  then have d0: "distsq_multi_old ?st 1 0 = 1"
    unfolding stencil_entries_example by simp
  have "stencil_entries ?st 1 ! 1 = (stencil_multi_old ?st 1 1, distsq_multi_old ?st 1 1)"
    by (rule stencil_entries_nth) (simp only: n)
  then have d1: "distsq_multi_old ?st 1 1 = 0"
    unfolding stencil_entries_example by simp
  show ?thesis using n d0 d1 by simp
qed

text \<open>
  C6, amended. After \<open>create\<close>, for every atom type the entries stand in the order in which
  the loops scan the offsets (\<open>k\<close> outermost, then \<open>j\<close>, then \<open>i\<close>, each ascending), and every
  stored squared distance is below \<open>cuttypesq[itype]\<close>.
\<close>

theorem stencil_in_scan_order:
  assumes "1 \<le> itype" and "itype \<le> ntypes st"
  shows "stencil_entries (create bd st) itype =
           map (\<lambda>(k, j, i). (k * mbiny st * mbinx st + j * mbinx st + i, bd i j k))
             (filter (\<lambda>(k, j, i). bd i j k < cuttypesq st itype) (scan_order st))
         \<and> (\<forall>m<nstencil_multi_old (create bd st) itype.
              distsq_multi_old (create bd st) itype m < cuttypesq st itype)"
proof
  show e: "stencil_entries (create bd st) itype =
           map (\<lambda>(k, j, i). (k * mbiny st * mbinx st + j * mbinx st + i, bd i j k))
             (filter (\<lambda>(k, j, i). bd i j k < cuttypesq st itype) (scan_order st))"
    using create_entries [OF assms, of bd] by (simp add: expected_entries_def)
  show "\<forall>m<nstencil_multi_old (create bd st) itype.
              distsq_multi_old (create bd st) itype m < cuttypesq st itype"
  proof (intro allI impI)
    fix m
    assume m: "m < nstencil_multi_old (create bd st) itype"
    then have "(stencil_multi_old (create bd st) itype m, distsq_multi_old (create bd st) itype m)
                 \<in> set (stencil_entries (create bd st) itype)"
      by (auto simp add: set_stencil_entries)
    then show "distsq_multi_old (create bd st) itype m < cuttypesq st itype"
      unfolding e by auto
  qed
qed

theorem stencil_in_scan_order_witness:
  "(1::nat) \<le> 1 \<and> 1 \<le> ntypes stencil_example
   \<and> stencil_entries (create (bin_distance 1 1 1) stencil_example) 1
        = [(- 2, 1), (- 1, 0), (0, 0), (1, 0), (2, 1)]"
proof -
  have h1: "(1::nat) \<le> 1" by simp
  have h2: "1 \<le> ntypes stencil_example" by (simp add: stencil_example_def)
  have "map (\<lambda>(k, j, i). (k * mbiny stencil_example * mbinx stencil_example
                              + j * mbinx stencil_example + i, bin_distance 1 1 1 i j k))
          (filter (\<lambda>(k, j, i). bin_distance 1 1 1 i j k < cuttypesq stencil_example 1)
             (scan_order stencil_example))
        = [(- 2, 1), (- 1, 0), (0, 0), (1, 0), (2, 1)]"
    using expected_entries_example unfolding expected_entries_def .
  then show ?thesis
    using h1 h2 stencil_in_scan_order [OF h1 h2, of "bin_distance 1 1 1"] by (simp only:)
qed

subsection \<open>The restart file of smatb\<close>

lemma write_restart_pair_block: "write_restart_pair c i j fp = fp @ pair_block c (i, j)"
  by (simp add: write_restart_pair_def pair_block_def fwrite_int_def fwrite_double_def Let_def)

lemma fold_pairs_concat:
  "fold (\<lambda>i. fold (\<lambda>j. g i j) (h i)) is = fold (\<lambda>(i, j). g i j) (concat (map (\<lambda>i. map (\<lambda>j. (i, j)) (h i)) is))"
proof -
  have inner: "fold (\<lambda>j. g i j) js = fold (\<lambda>(i, j). g i j) (map (\<lambda>j. (i, j)) js)" for i js
    by (simp add: fold_map comp_def)
  show ?thesis
    by (induction "is") (simp_all add: inner)
qed

lemma fold_append_blocks:
  "fold (\<lambda>(i, j) fp. fp @ b (i, j)) ps fp = fp @ concat (map b ps)"
  by (induction ps arbitrary: fp) auto

lemma write_restart_layout:
  "write_restart n fl c fp =
     fp @ [Int_item (offset_flag fl), Int_item (mix_flag fl), Int_item (tail_flag fl)]
        @ concat (map (pair_block c) (upper_pairs n))"
proof -
  have "(\<lambda>i. fold (\<lambda>j. write_restart_pair c i j) [i..<n + 1])
          = (\<lambda>i. fold (\<lambda>j fp. fp @ pair_block c (i, j)) [i..<n + 1])"
    by (simp add: write_restart_pair_block [abs_def])
  then show ?thesis
    by (simp add: write_restart_def fold_pairs_concat fold_append_blocks upper_pairs_def
        write_restart_settings_def fwrite_int_def)
qed


lemma read_restart_pair_block:
  "read_restart_pair i j (c', pair_block c (i, j) @ rest) = Some (load_pair c (i, j) c', rest)"
  by (simp add: read_restart_pair_def pair_block_def load_pair_def Let_def upd2_apply)

lemma fold_option_append:
  "fold_option g (as @ bs) s =
     (case fold_option g as s of None \<Rightarrow> None | Some s' \<Rightarrow> fold_option g bs s')"
  by (induction as arbitrary: s) (simp_all split: option.splits)

lemma fold_option_map: "fold_option g (map h as) s = fold_option (\<lambda>a. g (h a)) as s"
  by (induction as arbitrary: s) (simp_all split: option.splits)

lemma fold_option_pairs_concat:
  "fold_option (\<lambda>i. fold_option (\<lambda>j. g i j) (h i)) is s =
     fold_option (\<lambda>(i, j). g i j) (concat (map (\<lambda>i. map (\<lambda>j. (i, j)) (h i)) is)) s"
  by (induction "is" arbitrary: s)
     (simp_all add: fold_option_append fold_option_map split: option.splits)

lemma read_pairs_blocks:
  "fold_option (\<lambda>(i, j). read_restart_pair i j) ps (c', concat (map (pair_block c) ps) @ rest)
     = Some (fold (load_pair c) ps c', rest)"
proof (induction ps arbitrary: c')
  case Nil
  then show ?case by simp
next
  case (Cons a ps)
  obtain i j where a: "a = (i, j)" by (cases a)
  show ?case
    by (simp add: a read_restart_pair_block Cons.IH)
qed

lemma restored_load_pair: "restored c (load_pair c (i, j) c') i j"
  by (simp add: restored_def load_pair_def Let_def upd2_apply)

lemma restored_load_pair_other:
  "restored c c' i j \<Longrightarrow> restored c (load_pair c ab c') i j"
  by (cases ab) (auto simp add: restored_def load_pair_def Let_def upd2_apply)

lemma restored_fold_load_pair:
  "(i, j) \<in> set ps \<Longrightarrow> restored c (fold (load_pair c) ps c') i j"
proof (induction ps arbitrary: c' rule: rev_induct)
  case Nil
  then show ?case by simp
next
  case (snoc a ps)
  show ?case
  proof (cases "a = (i, j)")
    case True
    then show ?thesis by (simp add: restored_load_pair)
  next
    case False
    with snoc.prems have "(i, j) \<in> set ps" by simp
    then show ?thesis by (simp add: restored_load_pair_other snoc.IH)
  qed
qed

lemma set_upper_pairs: "set (upper_pairs n) = {(i, j). 1 \<le> i \<and> i \<le> j \<and> j \<le> n}"
proof -
  have "set (upper_pairs n) = (\<Union>i\<in>{1..<n + 1}. Pair i ` {i..<n + 1})"
    by (simp add: upper_pairs_def del: upt_Suc)
  also have "\<dots> = {(i, j). 1 \<le> i \<and> i \<le> j \<and> j \<le> n}"
    by force
  finally show ?thesis .
qed

lemma read_restart_settings_written:
  "read_restart_settings (Int_item (offset_flag fl) # Int_item (mix_flag fl)
      # Int_item (tail_flag fl) # fp) = Some (fl, fp)"
  by (simp add: read_restart_settings_def)

lemma read_restart_written:
  "read_restart n c0 (write_restart n fl c [] @ rest)
     = Some (fl, fold (load_pair c) (upper_pairs n) (allocate n c0), rest)"
proof -
  have w: "write_restart n fl c [] @ rest =
             Int_item (offset_flag fl) # Int_item (mix_flag fl) # Int_item (tail_flag fl)
               # (concat (map (pair_block c) (upper_pairs n)) @ rest)"
    by (simp add: write_restart_layout)
  have r: "fold_option (\<lambda>i. fold_option (\<lambda>j. read_restart_pair i j) [i..<n + 1]) [1..<n + 1]
             (allocate n c0, concat (map (pair_block c) (upper_pairs n)) @ rest)
           = Some (fold (load_pair c) (upper_pairs n) (allocate n c0), rest)"
    unfolding fold_option_pairs_concat upper_pairs_def [symmetric] by (rule read_pairs_blocks)
  show ?thesis
    by (simp only: read_restart_def w read_restart_settings_written option.case prod.case r)
qed

text \<open>
  C8, amended. \<open>write_restart\<close> appends the three settings flags and then, for the pairs
  \<open>(i, j)\<close> with \<open>1 \<le> i \<le> j \<le> ntypes\<close> in increasing order, the flag \<open>setflag[i][j]\<close> as one
  \<open>int\<close> of \<open>sizeof(int)\<close> = 4 bytes, followed, only when the flag is not zero, by the seven
  \<open>double\<close>s \<open>r0\<close>, \<open>p\<close>, \<open>q\<close>, \<open>A\<close>, \<open>QSI\<close>, \<open>cutOffStart\<close>, \<open>cutOffEnd\<close> of 8 bytes each.
  \<open>read_restart\<close> consumes exactly the items written, whatever follows them in the file, and
  leaves every flag and, where the flag is set, the seven parameters as they were written.
\<close>

theorem restart_layout:
  "write_restart n fl c fp =
     fp @ [Int_item (offset_flag fl), Int_item (mix_flag fl), Int_item (tail_flag fl)]
        @ concat (map (pair_block c) (upper_pairs n))
   \<and> item_bytes (Int_item v) = 4 \<and> item_bytes (Double_item w) = 8
   \<and> (\<exists>c'. read_restart n c0 (write_restart n fl c [] @ rest) = Some (fl, c', rest)
          \<and> (\<forall>i j. 1 \<le> i \<and> i \<le> j \<and> j \<le> n \<longrightarrow> restored c c' i j))"
proof (intro conjI)
  show "write_restart n fl c fp =
     fp @ [Int_item (offset_flag fl), Int_item (mix_flag fl), Int_item (tail_flag fl)]
        @ concat (map (pair_block c) (upper_pairs n))"
    by (rule write_restart_layout)
  show "item_bytes (Int_item v) = 4" by (simp add: sizeof_int_def)
  show "item_bytes (Double_item w) = 8" by (simp add: sizeof_double_def)
  have "restored c (fold (load_pair c) (upper_pairs n) (allocate n c0)) i j"
    if "1 \<le> i \<and> i \<le> j \<and> j \<le> n" for i j
    by (rule restored_fold_load_pair) (use that in \<open>simp add: set_upper_pairs\<close>)
  then show "\<exists>c'. read_restart n c0 (write_restart n fl c [] @ rest) = Some (fl, c', rest)
          \<and> (\<forall>i j. 1 \<le> i \<and> i \<le> j \<and> j \<le> n \<longrightarrow> restored c c' i j)"
    using read_restart_written [of n c0 fl c rest] by blast
qed

theorem restart_layout_witness:
  "\<exists>c'. read_restart 1 smatb_example (write_restart 1 settings_example smatb_example [])
           = Some (settings_example, c', [])
        \<and> restored smatb_example c' 1 1"
proof -
  have "(1::nat) \<le> 1 \<and> (1::nat) \<le> 1 \<and> (1::nat) \<le> 1" by simp
  then show ?thesis
    using restart_layout [of 1 settings_example smatb_example "[]" 0 0 smatb_example "[]"]
    by auto
qed

text \<open>
  C8, as stated, fails: the flag of a pair is written with \<open>sizeof(int)\<close> and occupies four
  bytes, not one.
\<close>

theorem restart_flag_is_four_bytes:
  "write_restart_pair smatb_example 1 1 [] =
     [Int_item 1, Double_item 1, Double_item 0, Double_item 0, Double_item 1, Double_item 1,
      Double_item 3, Double_item 4]
   \<and> map item_bytes (write_restart_pair smatb_example 1 1 []) = [4, 8, 8, 8, 8, 8, 8, 8]"
  by (simp add: write_restart_pair_def fwrite_int_def fwrite_double_def smatb_example_def
      sizeof_int_def sizeof_double_def)

end
